(* ===== verification/Prelude.thy ===== *)
theory Prelude
  imports Main
begin

text \<open>
  Shared vocabulary of the development. The bounty service
  (\<open>src/src/server/services/bounty.service.ts\<close>) is asynchronous code that awaits calls
  to a database client, a currency ledger and an image-ingestion pipeline; any awaited call
  may throw. We model such code as functions of an effect type
  \<open>('a, 's) eff = 's \<Rightarrow> (error + 'a) \<times> 's\<close>: a computation reads the state of the
  world, returns either an error (\<open>Inl\<close>, a thrown exception) or a value (\<open>Inr\<close>),
  and returns the world it leaves behind. The world is returned on errors too, because
  effects outside the database (a ledger transfer, an ingestion submission) are not undone
  when an exception is thrown.

  Which collaborator call fails is not determined by the service; a run is therefore
  parameterised by a list of \<^emph>\<open>fault points\<close>, the call sites whose collaborator
  throws in this run (a store that is unavailable, a rejected submission, a failed
  commit). The empty list is a run in which every collaborator succeeds.
\<close>

named_theorems eff_simps "unfolding rules of the effect combinators"

section \<open>Call sites and errors\<close>

text \<open>One constructor per awaited collaborator call of \<open>bounty.service.ts\<close> and of the UI handlers.\<close>

datatype fault_point =
    FBalanceRead          \<comment> \<open>\<open>getUserBuzzAccount\<close>, line 52\<close>
  | FBountyCreate         \<comment> \<open>\<open>tx.bounty.create\<close>, line 63\<close>
  | FBenefactorCreate     \<comment> \<open>\<open>tx.bountyBenefactor.create\<close>, line 65\<close>
  | FFileCreate           \<comment> \<open>\<open>tx.file.createMany\<close>, lines 75 and 155\<close>
  | FImageCreate          \<comment> \<open>\<open>tx.image.createMany\<close>, line 81\<close>
  | FImageFind            \<comment> \<open>\<open>tx.image.findMany\<close>, line 90\<close>
  | FIngest nat           \<comment> \<open>\<open>ingestImage\<close> of the image with this id, line 105\<close>
  | FConnectionCreate     \<comment> \<open>\<open>tx.imageConnection.createMany\<close>, line 113\<close>
  | FTransfer             \<comment> \<open>\<open>createBuzzTransaction\<close>, line 124\<close>
  | FBountyUpdate         \<comment> \<open>\<open>tx.bounty.update\<close>, line 150\<close>
  | FFileDelete           \<comment> \<open>\<open>tx.file.deleteMany\<close>, lines 154 and 171\<close>
  | FBountyDelete         \<comment> \<open>\<open>tx.bounty.delete\<close>, line 168\<close>
  | FCommit               \<comment> \<open>the commit of \<open>dbWrite.$transaction\<close>\<close>
  | FToggleHidden         \<comment> \<open>the hidden-preferences toggle mutation of the account page\<close>

text \<open>
  The errors the service can surface: the two it throws itself
  (\<open>throwNotFoundError\<close>, \<open>throwInsufficientFundsError\<close>), the error the database
  client throws when \<open>update\<close> or \<open>delete\<close> finds no row (Prisma's
  \<open>RecordNotFound\<close>, code P2025), and a collaborator fault at a call site.
\<close>

datatype error = NotFound | InsufficientFunds | RecordNotFound | Fault fault_point

section \<open>The effect type\<close>

type_synonym ('a, 's) eff = "'s \<Rightarrow> (error + 'a) \<times> 's"

definition returnE :: "'a \<Rightarrow> ('a, 's) eff" where
  "returnE a = (\<lambda>s. (Inr a, s))"

definition throwE :: "error \<Rightarrow> ('a, 's) eff" where
  "throwE e = (\<lambda>s. (Inl e, s))"

text \<open>\<open>await\<close>: run \<open>m\<close>; an exception skips the rest of the function.\<close>

definition bindE :: "('a, 's) eff \<Rightarrow> ('a \<Rightarrow> ('b, 's) eff) \<Rightarrow> ('b, 's) eff" where
  "bindE m f = (\<lambda>s. case m s of (Inl e, s') \<Rightarrow> (Inl e, s') | (Inr a, s') \<Rightarrow> f a s')"

text \<open>A state operation of a collaborator that cannot fail by itself.\<close>

definition liftE :: "('s \<Rightarrow> 'a \<times> 's) \<Rightarrow> ('a, 's) eff" where
  "liftE f = (\<lambda>s. case f s of (a, s') \<Rightarrow> (Inr a, s'))"

text \<open>A collaborator call at call site \<open>p\<close>: it throws when \<open>p\<close> is a fault of the run.\<close>

definition callE :: "fault_point list \<Rightarrow> fault_point \<Rightarrow> ('a, 's) eff \<Rightarrow> ('a, 's) eff" where
  "callE F p m = (if p \<in> set F then throwE (Fault p) else m)"

text \<open>\<open>for (const x of xs) await body(x)\<close>: sequential, stops at the first exception.\<close>

primrec forE :: "'a list \<Rightarrow> ('a \<Rightarrow> (unit, 's) eff) \<Rightarrow> (unit, 's) eff" where
  "forE [] body = returnE ()"
| "forE (x # xs) body = bindE (body x) (\<lambda>_. forE xs body)"

text \<open>\<open>keeps g m\<close>: the computation \<open>m\<close> never changes the component \<open>g\<close> of the
  state, whatever its outcome (a frame condition).\<close>

definition keeps :: "('s \<Rightarrow> 'b) \<Rightarrow> ('a, 's) eff \<Rightarrow> bool" where
  "keeps g m \<longleftrightarrow> (\<forall>s. g (snd (m s)) = g s)"

text \<open>\<open>moves g R m\<close>: on every outcome, \<open>m\<close> changes the component \<open>g\<close> only along
  \<open>R\<close> (from the value before to the value after).\<close>

definition moves :: "('s \<Rightarrow> 'b) \<Rightarrow> ('b \<Rightarrow> 'b \<Rightarrow> bool) \<Rightarrow> ('a, 's) eff \<Rightarrow> bool" where
  "moves g R m \<longleftrightarrow> (\<forall>s. R (g s) (g (snd (m s))))"

text \<open>Decimal text of naturals: JavaScript's \<open>String(n)\<close> and \<open>Number(s)\<close> on strings of
  digits, used for ids in URLs and query parameters.\<close>

fun nat_to_string :: "nat \<Rightarrow> string" where
  "nat_to_string n =
     (if n < 10 then [char_of (48 + n)] else nat_to_string (n div 10) @ [char_of (48 + n mod 10)])"

definition is_digit :: "char \<Rightarrow> bool" where
  "is_digit c \<longleftrightarrow> (let k = of_char c :: nat in 48 \<le> k \<and> k \<le> 57)"

definition digits_value :: "string \<Rightarrow> nat" where
  "digits_value s = foldl (\<lambda>acc c. 10 * acc + (of_char c - 48)) 0 s"

definition parse_nat :: "string \<Rightarrow> nat option" where
  "parse_nat s = (if s \<noteq> [] \<and> list_all is_digit s then Some (digits_value s) else None)"

declare nat_to_string.simps [simp del]

subsection \<open>Unfolding rules\<close>

lemma returnE_apply [simp, eff_simps]: "returnE a s = (Inr a, s)"
  by (simp add: returnE_def)

lemma throwE_apply [simp, eff_simps]: "throwE e s = (Inl e, s)"
  by (simp add: throwE_def)

lemma liftE_apply [simp, eff_simps]: "liftE f s = (Inr (fst (f s)), snd (f s))"
  by (simp add: liftE_def split: prod.splits)

lemma callE_apply [simp, eff_simps]:
  "callE F p m s = (if p \<in> set F then (Inl (Fault p), s) else m s)"
  by (simp add: callE_def)

lemma bindE_apply [eff_simps]:
  "bindE m f s = (case m s of (Inl e, s') \<Rightarrow> (Inl e, s') | (Inr a, s') \<Rightarrow> f a s')"
  by (simp add: bindE_def)

lemma bindE_Inr [simp]: "m s = (Inr a, s') \<Longrightarrow> bindE m f s = f a s'"
  by (simp add: bindE_def)

lemma bindE_Inl [simp]: "m s = (Inl e, s') \<Longrightarrow> bindE m f s = (Inl e, s')"
  by (simp add: bindE_def)

lemma bindE_returnE [simp]: "bindE (returnE a) f = f a"
  by (simp add: bindE_def fun_eq_iff)

lemma bindE_throwE [simp]: "bindE (throwE e) f = throwE e"
  by (simp add: bindE_def fun_eq_iff)

lemma bindE_liftE [simp]: "bindE (liftE g) f s = f (fst (g s)) (snd (g s))"
  by (simp add: bindE_def liftE_def split: prod.splits)

lemma bindE_eq_Inr [eff_simps]:
  "bindE m f s = (Inr b, s'') \<longleftrightarrow> (\<exists>a s'. m s = (Inr a, s') \<and> f a s' = (Inr b, s''))"
  by (auto simp: bindE_def split: prod.splits sum.splits)

lemma bindE_eq_Inl [eff_simps]:
  "bindE m f s = (Inl e, s'') \<longleftrightarrow>
     m s = (Inl e, s'') \<or> (\<exists>a s'. m s = (Inr a, s') \<and> f a s' = (Inl e, s''))"
  by (auto simp: bindE_def split: prod.splits sum.splits)

lemma bindE_assoc: "bindE (bindE m f) g = bindE m (\<lambda>a. bindE (f a) g)"
  by (simp add: bindE_def fun_eq_iff split: prod.splits sum.splits)

lemma forE_append: "forE (xs @ ys) body = bindE (forE xs body) (\<lambda>_. forE ys body)"
  by (induction xs) (simp_all add: bindE_assoc)

subsection \<open>Frame conditions\<close>

named_theorems keeps_intros "frame conditions of the effect combinators and of the model's blocks"

lemma keeps_result: "keeps g m \<Longrightarrow> m s = (r, s') \<Longrightarrow> g s' = g s"
  by (metis keeps_def snd_conv)

lemma keeps_returnE [keeps_intros]: "keeps g (returnE a)"
  by (simp add: keeps_def)

lemma keeps_throwE [keeps_intros]: "keeps g (throwE e)"
  by (simp add: keeps_def)

lemma keeps_bindE [keeps_intros]:
  assumes m: "keeps g m" and f: "\<And>a. keeps g (f a)"
  shows "keeps g (bindE m f)"
  unfolding keeps_def
proof
  fix s
  obtain r s' where ms: "m s = (r, s')" by (cases "m s")
  from m ms have "g s' = g s" by (rule keeps_result)
  moreover from f have "g (snd (f a s')) = g s'" for a by (simp add: keeps_def)
  ultimately show "g (snd (bindE m f s)) = g s" using ms by (cases r) (simp_all add: bindE_def)
qed

lemma keeps_callE [keeps_intros]: "keeps g m \<Longrightarrow> keeps g (callE F p m)"
  by (simp add: keeps_def callE_def)

lemma keeps_forE [keeps_intros]: "(\<And>x. keeps g (body x)) \<Longrightarrow> keeps g (forE xs body)"
  by (induction xs) (simp_all add: keeps_intros)

lemma keeps_case_option [keeps_intros]:
  "keeps g m \<Longrightarrow> (\<And>x. keeps g (f x)) \<Longrightarrow> keeps g (case v of None \<Rightarrow> m | Some x \<Rightarrow> f x)"
  by (cases v) simp_all

lemma movesD: "moves g R m \<Longrightarrow> m s = (r, s') \<Longrightarrow> R (g s) (g s')"
  by (metis moves_def snd_conv)

text \<open>A computation that first keeps \<open>g\<close> and then moves it along \<open>R\<close>, or first
  moves it and then keeps it, moves it along \<open>R\<close> when \<open>R\<close> is reflexive.\<close>

lemma moves_keeps_bindE:
  assumes refl: "\<And>x. R x x" and m: "keeps g m" and f: "\<And>a. moves g R (f a)"
  shows "moves g R (bindE m f)"
  unfolding moves_def
proof
  fix s
  obtain r s' where ms: "m s = (r, s')" by (cases "m s")
  from m ms have "g s' = g s" by (rule keeps_result)
  moreover from f have "R (g s') (g (snd (f a s')))" for a by (simp add: moves_def)
  ultimately show "R (g s) (g (snd (bindE m f s)))" using ms refl by (cases r) (simp_all add: bindE_def)
qed

lemma moves_bindE_keeps:
  assumes m: "moves g R m" and f: "\<And>a. keeps g (f a)"
  shows "moves g R (bindE m f)"
  unfolding moves_def
proof
  fix s
  obtain r s' where ms: "m s = (r, s')" by (cases "m s")
  from m ms have "R (g s) (g s')" by (rule movesD)
  moreover from f have "g (snd (f a s')) = g s'" for a by (simp add: keeps_def)
  ultimately show "R (g s) (g (snd (bindE m f s)))" using ms by (cases r) (simp_all add: bindE_def)
qed

text \<open>A result either is an error or a value; the two cases of every run.\<close>

lemma eff_result_cases:
  obtains e s' where "m s = (Inl e, s')" | a s' where "m s = (Inr a, s')"
  by (metis sumE surj_pair)

section \<open>Generic facts\<close>

lemma find_append_None [simp]: "find P xs = None \<Longrightarrow> find P (xs @ ys) = find P ys"
  by (induction xs) (auto split: if_splits)

text \<open>In a list whose keys are distinct, selecting by the key of a member finds just it.\<close>

lemma filter_key_unique:
  "distinct (map f xs) \<Longrightarrow> x \<in> set xs \<Longrightarrow> filter (\<lambda>y. f y = f x) xs = [x]"
  by (induction xs) (auto simp: filter_empty_conv rev_image_eqI)

lemma find_filter: "find P (filter Q xs) = find (\<lambda>x. P x \<and> Q x) xs"
  by (induction xs) auto

lemma find_map_same_key:
  "(\<And>x. k (f x) = k x) \<Longrightarrow> find (\<lambda>x. k x = j) (map f xs) = map_option f (find (\<lambda>x. k x = j) xs)"
  by (induction xs) auto

text \<open>In a list sorted by a strictly increasing key, the elements from a member's key on
  are the member followed by the elements with larger keys.\<close>

lemma filter_from_member:
  fixes k :: "'a \<Rightarrow> 'b::linorder"
  shows "sorted_wrt (<) (map k xs) \<Longrightarrow> x \<in> set xs \<Longrightarrow>
   filter (\<lambda>y. k x \<le> k y) xs = x # filter (\<lambda>y. k x < k y) xs"
proof (induction xs)
  case Nil
  then show ?case by simp
next
  case (Cons y ys)
  show ?case
  proof (cases "y = x")
    case True
    with Cons.prems have "\<forall>z \<in> set ys. k x < k z" by simp
    then have "\<forall>z \<in> set ys. k x \<le> k z" by (auto intro: less_imp_le)
    with \<open>\<forall>z \<in> set ys. k x < k z\<close> True show ?thesis by (simp add: filter_id_conv)
  next
    case False
    with Cons.prems have x: "x \<in> set ys" and "k y < k x" by auto
    then have "\<not> k x \<le> k y" "\<not> k x < k y" by simp_all
    with Cons.IH Cons.prems x show ?thesis by simp
  qed
qed

section \<open>Decimal text of naturals\<close>

lemma nat_to_string_ne [simp]: "nat_to_string n \<noteq> []"
  by (subst nat_to_string.simps) simp

lemma nat_to_string_digits: "list_all is_digit (nat_to_string n)"
proof (induction n rule: nat_to_string.induct)
  case (1 n)
  then show ?case by (subst nat_to_string.simps) (auto simp: is_digit_def Let_def list_all_iff)
qed

lemma digits_value_snoc: "digits_value (xs @ [c]) = 10 * digits_value xs + (of_char c - 48)"
  by (simp add: digits_value_def)

lemma digits_value_nat_to_string: "digits_value (nat_to_string n) = n"
proof (induction n rule: nat_to_string.induct)
  case (1 n)
  show ?case
  proof (cases "n < 10")
    case True
    then show ?thesis by (subst nat_to_string.simps) (simp add: digits_value_def)
  next
    case False
    then have "digits_value (nat_to_string n) = 10 * (n div 10) + n mod 10"
      using 1 by (subst nat_to_string.simps) (simp add: digits_value_snoc)
    then show ?thesis by simp
  qed
qed

lemma parse_nat_to_string [simp]: "parse_nat (nat_to_string n) = Some n"
  by (simp add: parse_nat_def nat_to_string_digits digits_value_nat_to_string)

lemma nat_to_string_inj: "nat_to_string m = nat_to_string n \<longleftrightarrow> m = n"
  by (metis parse_nat_to_string option.inject)

end
