(* ===== verification/Chunk.thy ===== *)
theory Chunk
  imports Prelude
begin

text \<open>
  lodash's \<open>chunk(array, size)\<close>, which \<open>createBounty\<close> uses to cut the fetched image
  records into ingestion batches of 50 (\<open>bounty.service.ts\<close>, line 100). lodash is a
  library the sources only call; its behaviour is modelled from its documentation: the
  array is split into consecutive groups of \<open>size\<close> elements, the last group holding
  the remainder, and a size below 1 gives the empty list. The recursion is on the
  length of the remaining list, so it is a \<^theory_text>\<open>function\<close> with a measure.
\<close>

function chunk :: "nat \<Rightarrow> 'a list \<Rightarrow> 'a list list" where
  "chunk n xs = (if n = 0 \<or> xs = [] then [] else take n xs # chunk n (drop n xs))"
  by pat_completeness auto
termination
  by (relation "measure (\<lambda>(n, xs). length xs)") auto

declare chunk.simps [simp del]

lemma chunk_Nil [simp]: "chunk n [] = []"
  by (simp add: chunk.simps)

lemma chunk_zero [simp]: "chunk 0 xs = []"
  by (simp add: chunk.simps)

lemma chunk_nonempty_list:
  "0 < n \<Longrightarrow> xs \<noteq> [] \<Longrightarrow> chunk n xs = take n xs # chunk n (drop n xs)"
  by (simp add: chunk.simps)

text \<open>Concatenating the batches gives the input back: no element is lost or repeated.\<close>

lemma concat_chunk: "0 < n \<Longrightarrow> concat (chunk n xs) = xs"
proof (induction n xs rule: chunk.induct)
  case (1 n xs)
  show ?case
  proof (cases "xs = []")
    case True
    then show ?thesis by simp
  next
    case False
    with "1.IH" "1.prems" have "concat (chunk n (drop n xs)) = drop n xs" by simp
    with False "1.prems" show ?thesis by (simp add: chunk_nonempty_list)
  qed
qed

text \<open>Every batch holds between 1 and \<open>n\<close> elements.\<close>

lemma chunk_bounds: "ys \<in> set (chunk n xs) \<Longrightarrow> ys \<noteq> [] \<and> length ys \<le> n"
proof (induction n xs rule: chunk.induct)
  case (1 n xs)
  show ?case
  proof (cases "n = 0 \<or> xs = []")
    case True
    with "1.prems" show ?thesis by (auto simp: chunk.simps)
  next
    case False
    then have eq: "chunk n xs = take n xs # chunk n (drop n xs)"
      by (simp add: chunk.simps)
    show ?thesis
    proof (cases "ys = take n xs")
      case True
      with False show ?thesis by simp
    next
      case False
      with "1.prems" eq have "ys \<in> set (chunk n (drop n xs))" by simp
      with "1.IH" \<open>\<not> (n = 0 \<or> xs = [])\<close> show ?thesis by blast
    qed
  qed
qed

text \<open>Every batch but the last is full.\<close>

lemma chunk_butlast_full: "ys \<in> set (butlast (chunk n xs)) \<Longrightarrow> length ys = n"
proof (induction n xs rule: chunk.induct)
  case (1 n xs)
  show ?case
  proof (cases "n = 0 \<or> xs = []")
    case True
    with "1.prems" show ?thesis by (auto simp: chunk.simps)
  next
    case False
    then have eq: "chunk n xs = take n xs # chunk n (drop n xs)"
      by (simp add: chunk.simps)
    show ?thesis
    proof (cases "drop n xs = []")
      case True
      with "1.prems" eq show ?thesis by simp
    next
      case nonempty: False
      then have "length (take n xs) = n" by simp
      moreover from nonempty False have "chunk n (drop n xs) \<noteq> []"
        by (simp add: chunk.simps)
      ultimately show ?thesis
        using "1.prems" "1.IH" False eq by (auto split: if_splits)
    qed
  qed
qed

text \<open>The number of batches is the length divided by \<open>n\<close>, rounded up.\<close>

lemma length_chunk: "0 < n \<Longrightarrow> length (chunk n xs) = (length xs + (n - 1)) div n"
proof (induction n xs rule: chunk.induct)
  case (1 n xs)
  show ?case
  proof (cases "xs = []")
    case True
    with "1.prems" show ?thesis by simp
  next
    case False
    with "1.IH" "1.prems" have IH: "length (chunk n (drop n xs)) = (length xs - n + (n - 1)) div n"
      by simp
    show ?thesis
    proof (cases "length xs \<le> n")
      case True
      with False "1.prems" have "chunk n (drop n xs) = []" by simp
      moreover have "(length xs + (n - 1)) div n = 1"
      proof (rule div_nat_eqI)
        from False have "length xs \<noteq> 0" by simp
        with "1.prems" show "n * 1 \<le> length xs + (n - 1)" by arith
        from True "1.prems" show "length xs + (n - 1) < n * Suc 1" by arith
      qed
      ultimately show ?thesis using False "1.prems" by (simp add: chunk_nonempty_list)
    next
      case False
      then have eq: "length xs + (n - 1) = (length xs - n + (n - 1)) + n" by simp
      have "(length xs + (n - 1)) div n = ((length xs - n + (n - 1)) + n) div n"
        by (subst eq) (rule refl)
      also from "1.prems" have "\<dots> = (length xs - n + (n - 1)) div n + 1"
        by (intro div_add_self2) simp
      finally have "(length xs + (n - 1)) div n = (length xs - n + (n - 1)) div n + 1" .
      with IH \<open>xs \<noteq> []\<close> "1.prems" show ?thesis by (simp add: chunk_nonempty_list)
    qed
  qed
qed

end
