(* ===== verification/Store.thy ===== *)
theory Store
  imports Prelude
begin

text \<open>
  The relational store behind \<open>dbRead\<close>/\<open>dbWrite\<close> (Prisma client over the tables
  Bounty, BountyBenefactor, File, Image and ImageConnection). The client is a library and
  the schema is not under \<open>src/\<close>, so the tables and the client calls are modelled from
  the spec (section 3) and from the documented semantics of the Prisma calls the service
  makes: \<open>create\<close> and \<open>createMany\<close> append rows with fresh autoincrement ids,
  \<open>findMany\<close> filters in primary-key order, \<open>update\<close> and \<open>delete\<close> throw
  \<open>RecordNotFound\<close> when no row has the id, and deleting a bounty cascades to its
  benefactor rows (the foreign key of BountyBenefactor; File and ImageConnection are
  polymorphic on \<open>entityId\<close>/\<open>entityType\<close> and have no foreign key to Bounty).
  A table is a list of rows in primary-key order; a row type is a record.
\<close>

section \<open>Enumerations and rows\<close>

datatype currency = USD | BUZZ

text \<open>Prisma's \<open>ImageIngestionStatus\<close> (names suffixed where they clash with \<open>error\<close>).\<close>

datatype ingestion_status = Pending | Scanned | ErrorStatus | Blocked | NotFoundStatus

text \<open>The \<open>data\<close> spread of \<open>createBounty\<close>: the input without images, files, tags,
  unitAmount and currency, with the creator's id.\<close>

record bounty_data =
  userId :: nat
  name :: string
  description :: string
  startsAt :: nat
  expiresAt :: nat
  nsfw :: bool
  poi :: bool

record bounty = bounty_data +
  bountyId :: nat

record benefactor =
  bf_userId :: nat
  bf_bountyId :: nat
  bf_unitAmount :: int
  bf_currency :: currency

text \<open>A file as the client sends it, and the File row it becomes.\<close>

record file_input =
  f_name :: string
  f_url :: string
  f_sizeKB :: nat
  f_metadata :: string

record file_row = file_input +
  fileId :: nat
  f_entityId :: nat
  f_entityType :: string

text \<open>An image as the client sends it (\<open>resources\<close> are links to models that the
  service strips) and the Image row.\<close>

record image_input =
  i_url :: string
  i_name :: string
  i_meta :: "string option"
  i_resources :: "nat list"

record image =
  imageId :: nat
  img_url :: string
  img_name :: string
  img_meta :: "string option"  \<comment> \<open>\<open>None\<close> is \<open>Prisma.JsonNull\<close>\<close>
  img_userId :: nat
  img_ingestion :: ingestion_status

record image_connection =
  c_imageId :: nat
  c_entityId :: nat
  c_entityType :: string

text \<open>The tables, each with the next value of its autoincrement sequence.\<close>

record store =
  bounties :: "bounty list"
  bounty_seq :: nat
  benefactors :: "benefactor list"
  files :: "file_row list"
  file_seq :: nat
  images :: "image list"
  image_seq :: nat
  connections :: "image_connection list"

definition empty_store :: store where
  "empty_store = \<lparr>bounties = [], bounty_seq = 1, benefactors = [], files = [], file_seq = 1,
     images = [], image_seq = 1, connections = []\<rparr>"

section \<open>Client operations\<close>

subsection \<open>Bounty\<close>

definition mk_bounty :: "nat \<Rightarrow> bounty_data \<Rightarrow> bounty" where
  "mk_bounty i d = \<lparr>userId = userId d, name = name d, description = description d,
     startsAt = startsAt d, expiresAt = expiresAt d, nsfw = nsfw d, poi = poi d, bountyId = i\<rparr>"

text \<open>\<open>tx.bounty.create({ data })\<close>: the created row.\<close>

definition bounty_create :: "bounty_data \<Rightarrow> store \<Rightarrow> bounty \<times> store" where
  "bounty_create d s =
     (let b = mk_bounty (bounty_seq s) d
      in (b, s\<lparr>bounties := bounties s @ [b], bounty_seq := Suc (bounty_seq s)\<rparr>))"

text \<open>\<open>findUnique({ where: { id } })\<close>: \<open>None\<close> is \<open>null\<close>.\<close>

definition bounty_findUnique :: "nat \<Rightarrow> store \<Rightarrow> bounty option" where
  "bounty_findUnique i s = find (\<lambda>b. bountyId b = i) (bounties s)"

text \<open>
  \<open>findMany({ take, cursor: { id } })\<close>: rows in id order; with a cursor the page
  starts at the cursor row itself (Prisma includes it unless \<open>skip: 1\<close> is given), and
  a cursor naming no row gives the empty page.
\<close>

definition bounty_findMany :: "nat option \<Rightarrow> nat \<Rightarrow> store \<Rightarrow> bounty list" where
  "bounty_findMany cursor lim s =
     (case cursor of
        None \<Rightarrow> take lim (bounties s)
      | Some c \<Rightarrow>
          (if c \<in> bountyId ` set (bounties s)
           then take lim (filter (\<lambda>b. c \<le> bountyId b) (bounties s))
           else []))"

text \<open>The mutable fields of \<open>UpdateBountyInput\<close>; \<open>None\<close> leaves a field as it is.\<close>

record bounty_patch =
  p_name :: "string option"
  p_description :: "string option"
  p_startsAt :: "nat option"
  p_expiresAt :: "nat option"
  p_nsfw :: "bool option"
  p_poi :: "bool option"

definition apply_patch :: "bounty_patch \<Rightarrow> bounty \<Rightarrow> bounty" where
  "apply_patch p b =
     b\<lparr>name := case_option (name b) id (p_name p),
       description := case_option (description b) id (p_description p),
       startsAt := case_option (startsAt b) id (p_startsAt p),
       expiresAt := case_option (expiresAt b) id (p_expiresAt p),
       nsfw := case_option (nsfw b) id (p_nsfw p),
       poi := case_option (poi b) id (p_poi p)\<rparr>"

text \<open>\<open>tx.bounty.update({ where: { id }, data })\<close>.\<close>

definition bounty_update :: "nat \<Rightarrow> bounty_patch \<Rightarrow> store \<Rightarrow> (error + bounty) \<times> store" where
  "bounty_update i p s =
     (case bounty_findUnique i s of
        None \<Rightarrow> (Inl RecordNotFound, s)
      | Some b \<Rightarrow>
          (Inr (apply_patch p b),
           s\<lparr>bounties := map (\<lambda>b'. if bountyId b' = i then apply_patch p b' else b') (bounties s)\<rparr>))"

text \<open>\<open>tx.bounty.delete({ where: { id } })\<close>, cascading to the benefactor rows.\<close>

definition bounty_delete :: "nat \<Rightarrow> store \<Rightarrow> (error + bounty) \<times> store" where
  "bounty_delete i s =
     (case bounty_findUnique i s of
        None \<Rightarrow> (Inl RecordNotFound, s)
      | Some b \<Rightarrow>
          (Inr b, s\<lparr>bounties := filter (\<lambda>b'. bountyId b' \<noteq> i) (bounties s),
                    benefactors := filter (\<lambda>f. bf_bountyId f \<noteq> i) (benefactors s)\<rparr>))"

subsection \<open>BountyBenefactor\<close>

definition benefactor_create :: "benefactor \<Rightarrow> store \<Rightarrow> unit \<times> store" where
  "benefactor_create f s = ((), s\<lparr>benefactors := benefactors s @ [f]\<rparr>)"

subsection \<open>File\<close>

definition mk_file :: "nat \<Rightarrow> nat \<Rightarrow> string \<Rightarrow> file_input \<Rightarrow> file_row" where
  "mk_file i eid ety f = \<lparr>f_name = f_name f, f_url = f_url f, f_sizeKB = f_sizeKB f,
     f_metadata = f_metadata f, fileId = i, f_entityId = eid, f_entityType = ety\<rparr>"

text \<open>\<open>tx.file.createMany({ data })\<close> of rows already tagged with their entity.\<close>

definition new_file_rows :: "(nat \<times> string \<times> file_input) list \<Rightarrow> nat \<Rightarrow> file_row list" where
  "new_file_rows rows k = map (\<lambda>(i, (eid, ety, f)). mk_file i eid ety f) (zip [k..<k + length rows] rows)"

definition file_createMany :: "(nat \<times> string \<times> file_input) list \<Rightarrow> store \<Rightarrow> unit \<times> store" where
  "file_createMany rows s =
     ((), s\<lparr>files := files s @ new_file_rows rows (file_seq s), file_seq := file_seq s + length rows\<rparr>)"

definition file_matches :: "nat \<Rightarrow> string \<Rightarrow> file_row \<Rightarrow> bool" where
  "file_matches eid ety f \<longleftrightarrow> f_entityId f = eid \<and> f_entityType f = ety"

definition file_deleteMany :: "nat \<Rightarrow> string \<Rightarrow> store \<Rightarrow> unit \<times> store" where
  "file_deleteMany eid ety s = ((), s\<lparr>files := filter (Not \<circ> file_matches eid ety) (files s)\<rparr>)"

definition file_findMany :: "nat \<Rightarrow> string \<Rightarrow> store \<Rightarrow> file_row list" where
  "file_findMany eid ety s = filter (file_matches eid ety) (files s)"

subsection \<open>Image and ImageConnection\<close>

definition mk_image :: "nat \<Rightarrow> nat \<Rightarrow> image_input \<Rightarrow> image" where
  "mk_image i uid x = \<lparr>imageId = i, img_url = i_url x, img_name = i_name x, img_meta = i_meta x,
     img_userId = uid, img_ingestion = Pending\<rparr>"

text \<open>\<open>tx.image.createMany\<close>: new rows start in the schema's default state \<open>Pending\<close>.\<close>

definition new_image_rows :: "nat \<Rightarrow> image_input list \<Rightarrow> nat \<Rightarrow> image list" where
  "new_image_rows uid xs k = map (\<lambda>(i, x). mk_image i uid x) (zip [k..<k + length xs] xs)"

definition image_createMany :: "nat \<Rightarrow> image_input list \<Rightarrow> store \<Rightarrow> unit \<times> store" where
  "image_createMany uid xs s =
     ((), s\<lparr>images := images s @ new_image_rows uid xs (image_seq s), image_seq := image_seq s + length xs\<rparr>)"

text \<open>\<open>findMany({ where: { url: { in: urls }, userId } })\<close>.\<close>

definition image_findMany :: "string list \<Rightarrow> nat \<Rightarrow> store \<Rightarrow> image list" where
  "image_findMany urls uid s = filter (\<lambda>i. img_url i \<in> set urls \<and> img_userId i = uid) (images s)"

definition connection_createMany :: "image_connection list \<Rightarrow> store \<Rightarrow> unit \<times> store" where
  "connection_createMany cs s = ((), s\<lparr>connections := connections s @ cs\<rparr>)"

definition connection_matches :: "nat \<Rightarrow> string \<Rightarrow> image_connection \<Rightarrow> bool" where
  "connection_matches eid ety c \<longleftrightarrow> c_entityId c = eid \<and> c_entityType c = ety"

text \<open>\<open>imageConnection.findMany({ where, select: { image } })\<close>: the joined images in
  connection order.\<close>

definition connection_images :: "nat \<Rightarrow> string \<Rightarrow> store \<Rightarrow> image list" where
  "connection_images eid ety s =
     concat (map (\<lambda>c. filter (\<lambda>i. imageId i = c_imageId c) (images s))
                 (filter (connection_matches eid ety) (connections s)))"

section \<open>Well-formed stores\<close>

text \<open>
  What the schema and the autoincrement sequences guarantee, and what the service keeps:
  bounty ids are positive, strictly ascending (primary-key order) and below the sequence;
  file and image ids likewise; every benefactor row references a bounty (foreign key);
  every bounty has at least one benefactor (its creator's pledge); every connection
  references an image (foreign key); every file tagged \<open>Bounty\<close> belongs to an existing
  bounty (the service deletes a bounty's files with it); connections tagged \<open>Bounty\<close>
  name an id the bounty sequence has handed out (they outlive their bounty).
\<close>

definition ids_ok :: "nat list \<Rightarrow> nat \<Rightarrow> bool" where
  "ids_ok ids seq \<longleftrightarrow> 0 < seq \<and> sorted_wrt (<) ids \<and> (\<forall>i \<in> set ids. 0 < i \<and> i < seq)"

definition store_ok :: "store \<Rightarrow> bool" where
  "store_ok s \<longleftrightarrow>
     ids_ok (map bountyId (bounties s)) (bounty_seq s)
   \<and> ids_ok (map fileId (files s)) (file_seq s)
   \<and> ids_ok (map imageId (images s)) (image_seq s)
   \<and> (\<forall>f \<in> set (benefactors s). bf_bountyId f \<in> bountyId ` set (bounties s))
   \<and> (\<forall>b \<in> set (bounties s). \<exists>f \<in> set (benefactors s). bf_bountyId f = bountyId b)
   \<and> (\<forall>c \<in> set (connections s). c_imageId c \<in> imageId ` set (images s))
   \<and> (\<forall>f \<in> set (files s). f_entityType f = ''Bounty'' \<longrightarrow> f_entityId f \<in> bountyId ` set (bounties s))
   \<and> (\<forall>c \<in> set (connections s). c_entityType c = ''Bounty'' \<longrightarrow> c_entityId c < bounty_seq s)"

section \<open>Facts about the operations\<close>

lemma bountyId_mk_bounty [simp]: "bountyId (mk_bounty i d) = i"
  by (simp add: mk_bounty_def)

lemma mk_bounty_fields [simp]:
  "userId (mk_bounty i d) = userId d" "name (mk_bounty i d) = name d"
  "description (mk_bounty i d) = description d" "startsAt (mk_bounty i d) = startsAt d"
  "expiresAt (mk_bounty i d) = expiresAt d" "nsfw (mk_bounty i d) = nsfw d" "poi (mk_bounty i d) = poi d"
  by (simp_all add: mk_bounty_def)

lemma bountyId_apply_patch [simp]: "bountyId (apply_patch p b) = bountyId b"
  by (simp add: apply_patch_def)

lemma mk_file_fields [simp]:
  "fileId (mk_file i eid ety f) = i" "f_entityId (mk_file i eid ety f) = eid"
  "f_entityType (mk_file i eid ety f) = ety" "f_name (mk_file i eid ety f) = f_name f"
  "f_url (mk_file i eid ety f) = f_url f" "f_sizeKB (mk_file i eid ety f) = f_sizeKB f"
  "f_metadata (mk_file i eid ety f) = f_metadata f"
  by (simp_all add: mk_file_def)

lemma mk_image_fields [simp]:
  "imageId (mk_image i uid x) = i" "img_url (mk_image i uid x) = i_url x"
  "img_userId (mk_image i uid x) = uid" "img_ingestion (mk_image i uid x) = Pending"
  by (simp_all add: mk_image_def)

lemma bounty_findUnique_Some:
  "bounty_findUnique i s = Some b \<Longrightarrow> b \<in> set (bounties s) \<and> bountyId b = i"
  by (auto simp: bounty_findUnique_def find_Some_iff)

lemma bounty_findUnique_None:
  "bounty_findUnique i s = None \<longleftrightarrow> i \<notin> bountyId ` set (bounties s)"
  by (auto simp: bounty_findUnique_def find_None_iff)

text \<open>Ids handed out by a bulk insert are the next ones of the sequence.\<close>

lemma fileIds_new_file_rows [simp]: "map fileId (new_file_rows rows k) = [k..<k + length rows]"
  by (simp add: new_file_rows_def split_def comp_def map_fst_zip)

lemma imageIds_new_image_rows [simp]: "map imageId (new_image_rows uid xs k) = [k..<k + length xs]"
  by (simp add: new_image_rows_def split_def comp_def map_fst_zip)

lemma length_new_image_rows [simp]: "length (new_image_rows uid xs k) = length xs"
  by (simp add: new_image_rows_def)

lemma new_image_rows_owner:
  "i \<in> set (new_image_rows uid xs k) \<Longrightarrow> img_userId i = uid \<and> img_url i \<in> i_url ` set xs \<and> img_ingestion i = Pending"
  by (auto simp: new_image_rows_def dest: set_zip_rightD)

text \<open>A file row created for an entity is tagged with it.\<close>

lemma new_file_rows_entity:
  "f \<in> set (new_file_rows (map (\<lambda>x. (eid, ety, x)) xs) k) \<Longrightarrow> f_entityId f = eid \<and> f_entityType f = ety"
  by (auto simp: new_file_rows_def set_zip)

lemma new_file_rows_contents:
  "map (\<lambda>f. (f_name f, f_url f, f_sizeKB f, f_metadata f)) (new_file_rows (map (\<lambda>x. (eid, ety, x)) xs) k) =
   map (\<lambda>f. (f_name f, f_url f, f_sizeKB f, f_metadata f)) xs"
proof -
  let ?g = "\<lambda>f. (f_name f, f_url f, f_sizeKB f, f_metadata f)"
  have "map ?g (new_file_rows (map (\<lambda>x. (eid, ety, x)) xs) k) = map (?g \<circ> snd) (zip [k..<k + length xs] xs)"
    by (simp add: new_file_rows_def zip_map2 split_def)
  also have "\<dots> = map ?g (map snd (zip [k..<k + length xs] xs))"
    by (simp only: map_map)
  also have "map snd (zip [k..<k + length xs] xs) = xs"
    by (simp add: map_snd_zip)
  finally show ?thesis .
qed


subsection \<open>Sequences of ids\<close>

lemma ids_ok_append_upt:
  "ids_ok ids seq \<Longrightarrow> ids_ok (ids @ [seq..<seq + n]) (seq + n)"
  by (auto simp: ids_ok_def sorted_wrt_append)

lemma ids_ok_snoc:
  "ids_ok ids seq \<Longrightarrow> ids_ok (ids @ [seq]) (Suc seq)"
  using ids_ok_append_upt [of ids seq 1] by simp

lemma ids_ok_filter:
  "ids_ok (map g xs) seq \<Longrightarrow> ids_ok (map g (filter P xs)) seq"
  by (auto simp: ids_ok_def sorted_wrt_map sorted_wrt_filter)

lemma ids_ok_mono: "ids_ok ids seq \<Longrightarrow> seq \<le> seq' \<Longrightarrow> ids_ok ids seq'"
  by (auto simp: ids_ok_def)

lemma ids_ok_distinct: "ids_ok ids seq \<Longrightarrow> distinct ids"
  by (auto simp: ids_ok_def strict_sorted_iff)

lemma ids_ok_fresh: "ids_ok ids seq \<Longrightarrow> seq \<notin> set ids"
  by (auto simp: ids_ok_def)

end
