(* ===== verification/Collaborators.thy ===== *)
theory Collaborators
  imports Prelude
begin

text \<open>
  The two collaborators of the bounty service that live outside the database, modelled
  from the spec (section 6) because their code (\<open>buzz.service\<close>, \<open>image.service\<close>)
  is not under \<open>src/\<close>:
  \<^item> the Buzz ledger: per-account balances and the list of recorded transfers;
    \<open>getUserBuzzAccount\<close> reads a balance and \<open>createBuzzTransaction\<close> records a
    transfer. The contract in the spec puts no balance check in the transfer.
  \<^item> the ingestion pipeline: its log of submissions, one entry per concurrently issued
    batch of \<open>ingestImage\<close> calls (the service's batching is what builds the entries).
  Neither takes part in the database transaction: what they record stays recorded when
  the transaction is rolled back.
\<close>

datatype transaction_type = Purchase | Tip | Bounty

record transfer =
  t_from :: nat
  t_to :: nat
  t_amount :: int
  t_type :: transaction_type

record ledger =
  balances :: "nat \<Rightarrow> int"
  transfers :: "transfer list"

text \<open>\<open>getUserBuzzAccount({ accountId })\<close>: the account's balance.\<close>

definition getUserBuzzAccount :: "nat \<Rightarrow> ledger \<Rightarrow> int" where
  "getUserBuzzAccount a l = balances l a"

text \<open>\<open>createBuzzTransaction({ fromAccountId, toAccountId, amount, type })\<close>.\<close>

definition createBuzzTransaction :: "transfer \<Rightarrow> ledger \<Rightarrow> ledger" where
  "createBuzzTransaction t l =
     (let b1 = (balances l)(t_from t := balances l (t_from t) - t_amount t)
      in l\<lparr>balances := b1(t_to t := b1 (t_to t) + t_amount t), transfers := transfers l @ [t]\<rparr>)"

lemma createBuzzTransaction_from:
  "t_from t \<noteq> t_to t \<Longrightarrow>
   balances (createBuzzTransaction t l) (t_from t) = balances l (t_from t) - t_amount t"
  by (simp add: createBuzzTransaction_def Let_def)

lemma createBuzzTransaction_to:
  "t_from t \<noteq> t_to t \<Longrightarrow>
   balances (createBuzzTransaction t l) (t_to t) = balances l (t_to t) + t_amount t"
  by (simp add: createBuzzTransaction_def Let_def)

lemma createBuzzTransaction_other:
  "a \<noteq> t_from t \<Longrightarrow> a \<noteq> t_to t \<Longrightarrow> balances (createBuzzTransaction t l) a = balances l a"
  by (simp add: createBuzzTransaction_def Let_def)

lemma transfers_createBuzzTransaction [simp]:
  "transfers (createBuzzTransaction t l) = transfers l @ [t]"
  by (simp add: createBuzzTransaction_def Let_def)

end
