(* ===== verification/Bounty.thy ===== *)
theory Bounty
  imports Chunk Store Collaborators
begin

text \<open>
  The bounty workflow service, \<open>src/src/server/services/bounty.service.ts\<close>, one
  definition per exported function (and per block of \<open>createBounty\<close>), in the order of
  the file. A call runs against a \<open>world\<close>: the database, the Buzz ledger and the
  ingestion log. \<open>dbWrite.$transaction\<close> rolls the database back when its callback
  throws or its commit fails; the ledger and the ingestion log are not rolled back.
  Reads through \<open>dbRead\<close> are pure functions of the store.
\<close>

record world =
  db :: store
  ledger :: ledger
  ingest_log :: "nat list list"

section \<open>Plumbing: database calls and the transaction\<close>

text \<open>An awaited database call at call site \<open>p\<close> that cannot fail by itself.\<close>

definition dbE :: "fault_point list \<Rightarrow> fault_point \<Rightarrow> (store \<Rightarrow> 'a \<times> store) \<Rightarrow> ('a, world) eff" where
  "dbE F p f = callE F p (liftE (\<lambda>w. (fst (f (db w)), w\<lparr>db := snd (f (db w))\<rparr>)))"

text \<open>An awaited database call that may throw by itself (\<open>update\<close>, \<open>delete\<close>).\<close>

definition dbE' :: "fault_point list \<Rightarrow> fault_point \<Rightarrow> (store \<Rightarrow> (error + 'a) \<times> store) \<Rightarrow> ('a, world) eff" where
  "dbE' F p f = callE F p (\<lambda>w. (fst (f (db w)), w\<lparr>db := snd (f (db w))\<rparr>))"

text \<open>\<open>dbWrite.$transaction(async (tx) => body)\<close>.\<close>

definition transaction :: "fault_point list \<Rightarrow> ('a, world) eff \<Rightarrow> ('a, world) eff" where
  "transaction F body =
     (\<lambda>w. case body w of
            (Inl e, w') \<Rightarrow> (Inl e, w'\<lparr>db := db w\<rparr>)
          | (Inr a, w') \<Rightarrow>
              (if FCommit \<in> set F then (Inl (Fault FCommit), w'\<lparr>db := db w\<rparr>) else (Inr a, w')))"

section \<open>Reads\<close>

text \<open>\<open>getAllBounties({ input: { cursor, limit } })\<close>: a cursor of 0 is falsy and ignored.\<close>

definition getAllBounties :: "nat option \<Rightarrow> nat \<Rightarrow> store \<Rightarrow> bounty list" where
  "getAllBounties cursor lim s =
     bounty_findMany (case cursor of None \<Rightarrow> None | Some c \<Rightarrow> if c = 0 then None else Some c) lim s"

text \<open>\<open>getFilesByEntity({ id, type })\<close> of \<open>file.service\<close> (not under \<open>src/\<close>).\<close>

definition getFilesByEntity :: "nat \<Rightarrow> string \<Rightarrow> store \<Rightarrow> file_row list" where
  "getFilesByEntity eid ety s = file_findMany eid ety s"

definition getBountyById :: "nat \<Rightarrow> store \<Rightarrow> error + (bounty \<times> file_row list)" where
  "getBountyById i s =
     (case bounty_findUnique i s of
        None \<Rightarrow> Inl NotFound
      | Some b \<Rightarrow> Inr (b, getFilesByEntity (bountyId b) ''Bounty'' s))"

section \<open>createBounty\<close>

record create_input =
  ci_data :: bounty_data
  ci_unitAmount :: int
  ci_currency :: currency
  ci_files :: "file_input list option"
  ci_images :: "image_input list option"
  ci_tags :: "string list option"

text \<open>Lines 50--60: for BUZZ, the creator's balance must cover the amount. This runs
  before the transaction starts.\<close>

definition check_funds :: "fault_point list \<Rightarrow> nat \<Rightarrow> int \<Rightarrow> currency \<Rightarrow> (unit, world) eff" where
  "check_funds F uid amt cur =
     (case cur of
        BUZZ \<Rightarrow>
          bindE (callE F FBalanceRead (liftE (\<lambda>w. (getUserBuzzAccount uid (ledger w), w))))
                (\<lambda>bal. if bal < amt then throwE InsufficientFunds else returnE ())
      | _ \<Rightarrow> returnE ())"

text \<open>Lines 74--78 and 155--157: \<open>tx.file.createMany\<close> of the files tagged with the bounty.\<close>

definition create_files :: "fault_point list \<Rightarrow> nat \<Rightarrow> file_input list \<Rightarrow> (unit, world) eff" where
  "create_files F bid fs = dbE F FFileCreate (file_createMany (map (\<lambda>f. (bid, ''Bounty'', f)) fs))"

text \<open>Lines 103--108: the records of a batch that are submitted, those still pending.\<close>

definition pending_ids :: "image list \<Rightarrow> nat list" where
  "pending_ids batch = map imageId (filter (\<lambda>i. img_ingestion i = Pending) batch)"

text \<open>
  Lines 102--110: one batch. \<open>batch.map\<close> starts an \<open>ingestImage\<close> call for every
  pending record at once, so the whole batch is submitted; \<open>Promise.all\<close> then
  rejects if one of the calls rejects.
\<close>

definition ingest_batch :: "fault_point list \<Rightarrow> image list \<Rightarrow> (unit, world) eff" where
  "ingest_batch F batch =
     (\<lambda>w. let subs = pending_ids batch;
              w' = w\<lparr>ingest_log := ingest_log w @ [subs]\<rparr>
          in case find (\<lambda>i. FIngest i \<in> set F) subs of
               None \<Rightarrow> (Inr (), w')
             | Some i \<Rightarrow> (Inl (Fault (FIngest i)), w'))"

text \<open>Lines 100--111: \<open>for (const batch of chunk(imageRecords, 50)) await ...\<close>\<close>

definition ingest_batches :: "fault_point list \<Rightarrow> image list \<Rightarrow> (unit, world) eff" where
  "ingest_batches F recs = forE (chunk 50 recs) (ingest_batch F)"

definition mk_connection :: "nat \<Rightarrow> image \<Rightarrow> image_connection" where
  "mk_connection bid i = \<lparr>c_imageId = imageId i, c_entityId = bid, c_entityType = ''Bounty''\<rparr>"

text \<open>Lines 80--120: insert the images (resources stripped, meta or JsonNull, owner
  set), fetch them back by url and owner, ingest the pending ones, link them.\<close>

definition attach_images :: "fault_point list \<Rightarrow> nat \<Rightarrow> nat \<Rightarrow> image_input list \<Rightarrow> (unit, world) eff" where
  "attach_images F uid bid xs =
     bindE (dbE F FImageCreate (image_createMany uid xs)) (\<lambda>_.
     bindE (dbE F FImageFind (\<lambda>s. (image_findMany (map i_url xs) uid s, s))) (\<lambda>recs.
     bindE (ingest_batches F recs) (\<lambda>_.
     dbE F FConnectionCreate (connection_createMany (map (mk_connection bid) recs)))))"

text \<open>Lines 122--133: the BUZZ debit, a transfer to the platform account 0.\<close>

definition charge_buzz :: "fault_point list \<Rightarrow> nat \<Rightarrow> int \<Rightarrow> currency \<Rightarrow> (unit, world) eff" where
  "charge_buzz F uid amt cur =
     (case cur of
        BUZZ \<Rightarrow>
          callE F FTransfer (liftE (\<lambda>w. ((), w\<lparr>ledger := createBuzzTransaction
              \<lparr>t_from = uid, t_to = 0, t_amount = amt, t_type = Bounty\<rparr> (ledger w)\<rparr>)))
      | _ \<Rightarrow> returnE ())"

text \<open>Lines 62--136: the transaction callback.\<close>

definition create_tx :: "fault_point list \<Rightarrow> create_input \<Rightarrow> (bounty, world) eff" where
  "create_tx F inp =
     (let uid = userId (ci_data inp); amt = ci_unitAmount inp; cur = ci_currency inp in
      bindE (dbE F FBountyCreate (bounty_create (ci_data inp))) (\<lambda>b.
      bindE (dbE F FBenefactorCreate (benefactor_create
               \<lparr>bf_userId = uid, bf_bountyId = bountyId b, bf_unitAmount = amt, bf_currency = cur\<rparr>)) (\<lambda>_.
      bindE (case ci_files inp of None \<Rightarrow> returnE () | Some fs \<Rightarrow> create_files F (bountyId b) fs) (\<lambda>_.
      bindE (case ci_images inp of None \<Rightarrow> returnE () | Some xs \<Rightarrow> attach_images F uid (bountyId b) xs) (\<lambda>_.
      bindE (charge_buzz F uid amt cur) (\<lambda>_.
      returnE b))))))"

text \<open>Lines 41--139. Tags are accepted and ignored (the source's \<open>TODO.bounty: tags\<close>).\<close>

definition createBounty :: "fault_point list \<Rightarrow> create_input \<Rightarrow> (bounty, world) eff" where
  "createBounty F inp =
     bindE (check_funds F (userId (ci_data inp)) (ci_unitAmount inp) (ci_currency inp)) (\<lambda>_.
     transaction F (create_tx F inp))"

section \<open>updateBountyById and deleteBountyById\<close>

text \<open>
  Lines 142--164. Details and tags are accepted and ignored (\<open>TODO.bounty\<close>). The
  source's \<open>if (!bounty) return null\<close> (line 151) never fires: \<open>tx.bounty.update\<close>
  returns a row or throws \<open>RecordNotFound\<close>, so the result is a bounty or an error.
\<close>

definition updateBountyById ::
  "fault_point list \<Rightarrow> nat \<Rightarrow> bounty_patch \<Rightarrow> file_input list option \<Rightarrow> (bounty, world) eff" where
  "updateBountyById F i p fs =
     transaction F
       (bindE (dbE' F FBountyUpdate (bounty_update i p)) (\<lambda>b.
        bindE (case fs of
                 None \<Rightarrow> returnE ()
               | Some xs \<Rightarrow>
                   bindE (dbE F FFileDelete (file_deleteMany i ''Bounty'')) (\<lambda>_.
                   create_files F (bountyId b) xs)) (\<lambda>_.
        returnE b)))"

text \<open>Lines 166--177; \<open>if (!deletedBounty) return null\<close> (line 169) never fires either.\<close>

definition deleteBountyById :: "fault_point list \<Rightarrow> nat \<Rightarrow> (bounty, world) eff" where
  "deleteBountyById F i =
     transaction F
       (bindE (dbE' F FBountyDelete (bounty_delete i)) (\<lambda>b.
        bindE (dbE F FFileDelete (file_deleteMany i ''Bounty'')) (\<lambda>_.
        returnE b)))"

section \<open>Images and files of a bounty\<close>

definition getBountyImages :: "nat \<Rightarrow> store \<Rightarrow> image list" where
  "getBountyImages i s = connection_images i ''Bounty'' s"

record file_view =
  fv_id :: nat
  fv_url :: string
  fv_metadata :: string
  fv_sizeKB :: nat
  fv_name :: string

definition view_file :: "file_row \<Rightarrow> file_view" where
  "view_file f = \<lparr>fv_id = fileId f, fv_url = f_url f, fv_metadata = f_metadata f,
     fv_sizeKB = f_sizeKB f, fv_name = f_name f\<rparr>"

definition getBountyFiles :: "nat \<Rightarrow> store \<Rightarrow> file_view list" where
  "getBountyFiles i s = map view_file (file_findMany i ''Bounty'' s)"

end
