(* ===== verification/Bounty_Steps.thy ===== *)
theory Bounty_Steps
  imports Bounty
begin

text \<open>
  One characterisation per block of the service: when a block returns a value, and
  what world it leaves behind on each outcome. The properties of the service in
  \<open>Bounty_Props\<close> are assembled from these, never by unfolding the service whole.
\<close>

named_theorems step_simps "outcome characterisations of the service's blocks"

section \<open>What a successful creation writes\<close>

text \<open>A batch goes through when none of its pending records is a fault of the run.\<close>

definition batch_ok :: "fault_point list \<Rightarrow> image list \<Rightarrow> bool" where
  "batch_ok F batch \<longleftrightarrow> (\<forall>i \<in> set (pending_ids batch). FIngest i \<notin> set F)"

text \<open>The store after \<open>tx.image.createMany\<close> and the records fetched back from it.\<close>

definition images_added :: "nat \<Rightarrow> image_input list \<Rightarrow> store \<Rightarrow> store" where
  "images_added uid xs s = snd (image_createMany uid xs s)"

definition fetched :: "nat \<Rightarrow> image_input list \<Rightarrow> store \<Rightarrow> image list" where
  "fetched uid xs s = image_findMany (map i_url xs) uid (images_added uid xs s)"

text \<open>The creator's pledge row for bounty \<open>bid\<close>.\<close>

definition pledge :: "create_input \<Rightarrow> nat \<Rightarrow> benefactor" where
  "pledge inp bid = \<lparr>bf_userId = userId (ci_data inp), bf_bountyId = bid,
     bf_unitAmount = ci_unitAmount inp, bf_currency = ci_currency inp\<rparr>"

text \<open>The three groups of writes of a creation: the bounty with its pledge, the files,
  the images with their links.\<close>

definition with_bounty :: "create_input \<Rightarrow> store \<Rightarrow> store" where
  "with_bounty inp s =
     s\<lparr>bounties := bounties s @ [mk_bounty (bounty_seq s) (ci_data inp)], bounty_seq := Suc (bounty_seq s),
       benefactors := benefactors s @ [pledge inp (bounty_seq s)]\<rparr>"

definition with_files :: "create_input \<Rightarrow> nat \<Rightarrow> store \<Rightarrow> store" where
  "with_files inp bid s =
     (case ci_files inp of None \<Rightarrow> s | Some fs \<Rightarrow> snd (file_createMany (map (\<lambda>f. (bid, ''Bounty'', f)) fs) s))"

definition with_images :: "create_input \<Rightarrow> nat \<Rightarrow> store \<Rightarrow> store" where
  "with_images inp bid s =
     (case ci_images inp of None \<Rightarrow> s
      | Some xs \<Rightarrow> snd (connection_createMany (map (mk_connection bid) (fetched (userId (ci_data inp)) xs s))
                         (images_added (userId (ci_data inp)) xs s)))"

definition created_store :: "create_input \<Rightarrow> store \<Rightarrow> store" where
  "created_store inp s = with_images inp (bounty_seq s) (with_files inp (bounty_seq s) (with_bounty inp s))"

text \<open>The ingestion batches of a creation, and its effect on the ledger.\<close>

definition new_batches :: "create_input \<Rightarrow> store \<Rightarrow> image list list" where
  "new_batches inp s =
     (case ci_images inp of None \<Rightarrow> []
      | Some xs \<Rightarrow> chunk 50 (fetched (userId (ci_data inp)) xs
                               (with_files inp (bounty_seq s) (with_bounty inp s))))"

definition charged :: "create_input \<Rightarrow> ledger \<Rightarrow> ledger" where
  "charged inp l =
     (if ci_currency inp = BUZZ
      then createBuzzTransaction \<lparr>t_from = userId (ci_data inp), t_to = 0, t_amount = ci_unitAmount inp,
                                  t_type = Bounty\<rparr> l
      else l)"

text \<open>No call of the transaction callback is a fault of the run.\<close>

definition tx_faults_absent :: "fault_point list \<Rightarrow> create_input \<Rightarrow> store \<Rightarrow> bool" where
  "tx_faults_absent F inp s \<longleftrightarrow>
     FBountyCreate \<notin> set F \<and> FBenefactorCreate \<notin> set F
   \<and> (ci_files inp \<noteq> None \<longrightarrow> FFileCreate \<notin> set F)
   \<and> (ci_images inp \<noteq> None \<longrightarrow> FImageCreate \<notin> set F \<and> FImageFind \<notin> set F \<and> FConnectionCreate \<notin> set F
        \<and> (\<forall>b \<in> set (new_batches inp s). batch_ok F b))
   \<and> (ci_currency inp = BUZZ \<longrightarrow> FTransfer \<notin> set F)"

text \<open>The funds check passes.\<close>

definition funds_ok :: "fault_point list \<Rightarrow> create_input \<Rightarrow> ledger \<Rightarrow> bool" where
  "funds_ok F inp l \<longleftrightarrow>
     (ci_currency inp = BUZZ \<longrightarrow> FBalanceRead \<notin> set F \<and> ci_unitAmount inp \<le> balances l (userId (ci_data inp)))"

text \<open>What a creation may do to the ledger: nothing, or the one BUZZ transfer.\<close>

definition ledger_step :: "create_input \<Rightarrow> ledger \<Rightarrow> ledger \<Rightarrow> bool" where
  "ledger_step inp l l' \<longleftrightarrow> l' = l \<or> l' = charged inp l"

section \<open>Frame conditions of the blocks\<close>

text \<open>Which block leaves which part of the world alone, on every outcome.\<close>

lemma keeps_dbE [keeps_intros]: "keeps ledger (dbE F p f)" "keeps ingest_log (dbE F p f)"
  by (simp_all add: keeps_def dbE_def)

lemma keeps_dbE' [keeps_intros]: "keeps ledger (dbE' F p f)" "keeps ingest_log (dbE' F p f)"
  by (simp_all add: keeps_def dbE'_def)

lemma keeps_ingest_batch [keeps_intros]: "keeps ledger (ingest_batch F b)" "keeps db (ingest_batch F b)"
  by (simp_all add: keeps_def ingest_batch_def Let_def split: option.splits)

lemma keeps_create_files [keeps_intros]:
  "keeps ledger (create_files F bid fs)" "keeps ingest_log (create_files F bid fs)"
  by (simp_all add: create_files_def keeps_intros)

lemma keeps_attach_images [keeps_intros]: "keeps ledger (attach_images F uid bid xs)"
  by (simp add: attach_images_def ingest_batches_def keeps_intros)

lemma keeps_charge_buzz [keeps_intros]:
  "keeps db (charge_buzz F uid amt cur)" "keeps ingest_log (charge_buzz F uid amt cur)"
  by (cases cur; simp add: charge_buzz_def keeps_def)+

lemma keeps_charge_buzz_other [keeps_intros]: "cur \<noteq> BUZZ \<Longrightarrow> keeps ledger (charge_buzz F uid amt cur)"
  by (cases cur) (simp_all add: charge_buzz_def keeps_intros)

lemma keeps_check_funds [keeps_intros]: "keeps g (check_funds F uid amt cur)"
  by (cases cur) (auto simp: keeps_def check_funds_def bindE_def)

text \<open>The transaction undoes the store and leaves the rest as its body left it.\<close>

lemma keeps_transaction_outside:
  assumes body: "keeps g body" and outside: "\<And>w x. g (w\<lparr>db := x\<rparr>) = g w"
  shows "keeps g (transaction F body)"
  unfolding keeps_def
proof
  fix w
  obtain r w' where bw: "body w = (r, w')" by (cases "body w")
  from body bw have "g w' = g w" by (rule keeps_result)
  then show "g (snd (transaction F body w)) = g w"
    using bw outside by (cases r) (simp_all add: transaction_def)
qed

lemma keeps_transaction [keeps_intros]:
  "keeps ledger body \<Longrightarrow> keeps ledger (transaction F body)"
  "keeps ingest_log body \<Longrightarrow> keeps ingest_log (transaction F body)"
  by (simp_all add: keeps_transaction_outside)

lemma charge_buzz_ledger:
  "charge_buzz F uid amt cur w = (r, w') \<Longrightarrow>
     ledger w' = ledger w \<or> (cur = BUZZ \<and> ledger w' = createBuzzTransaction
        \<lparr>t_from = uid, t_to = 0, t_amount = amt, t_type = Bounty\<rparr> (ledger w))"
  by (cases cur) (auto simp: charge_buzz_def split: if_splits)

section \<open>Database calls and the transaction\<close>

lemma dbE_eq_Inr [step_simps]:
  "dbE F p f w = (Inr a, w') \<longleftrightarrow> p \<notin> set F \<and> a = fst (f (db w)) \<and> w' = w\<lparr>db := snd (f (db w))\<rparr>"
  by (auto simp: dbE_def)

lemma dbE_eq_Inl [step_simps]:
  "dbE F p f w = (Inl e, w') \<longleftrightarrow> p \<in> set F \<and> e = Fault p \<and> w' = w"
  by (auto simp: dbE_def)

lemma dbE'_apply [step_simps]:
  "dbE' F p f w = (if p \<in> set F then (Inl (Fault p), w) else (fst (f (db w)), w\<lparr>db := snd (f (db w))\<rparr>))"
  by (simp add: dbE'_def)

lemma transaction_eq_Inr [step_simps]:
  "transaction F body w = (Inr a, w') \<longleftrightarrow> FCommit \<notin> set F \<and> body w = (Inr a, w')"
  by (auto simp: transaction_def split: prod.splits sum.splits)

text \<open>A failed transaction leaves the database as it found it, and only the database.\<close>

lemma transaction_Inl:
  "transaction F body w = (Inl e, w') \<Longrightarrow> w' = (snd (body w))\<lparr>db := db w\<rparr>"
  by (auto simp: transaction_def split: prod.splits sum.splits if_splits)

text \<open>A failed transaction whose body touches only the store changes nothing at all.\<close>

lemma transaction_Inl_unchanged:
  assumes "keeps ledger body" and "keeps ingest_log body" and "transaction F body w = (Inl e, w')"
  shows "w' = w"
proof -
  obtain r w1 where bw: "body w = (r, w1)" by (cases "body w")
  from assms(3) bw have "w' = w1\<lparr>db := db w\<rparr>" by (auto dest: transaction_Inl)
  moreover from keeps_result [OF assms(1) bw] keeps_result [OF assms(2) bw]
  have "ledger w1 = ledger w" "ingest_log w1 = ingest_log w" .
  ultimately show ?thesis by (cases w, cases w1) simp
qed

lemma transaction_outside_db:
  "ledger (snd (transaction F body w)) = ledger (snd (body w))"
  "ingest_log (snd (transaction F body w)) = ingest_log (snd (body w))"
  by (auto simp: transaction_def split: prod.splits sum.splits)

section \<open>createBounty's blocks\<close>

lemma check_funds_world [simp]: "snd (check_funds F uid amt cur w) = w"
  by (cases cur) (auto simp: check_funds_def bindE_def)

lemma check_funds_same: "check_funds F uid amt cur w = (r, w') \<Longrightarrow> w' = w"
  by (metis check_funds_world snd_conv)

lemma check_funds_eq_Inr [step_simps]:
  "check_funds F uid amt cur w = (Inr u, w') \<longleftrightarrow>
     w' = w \<and> (cur = BUZZ \<longrightarrow> FBalanceRead \<notin> set F \<and> amt \<le> balances (ledger w) uid)"
  by (cases cur) (auto simp: check_funds_def bindE_def getUserBuzzAccount_def)

lemma create_files_eq_Inr [step_simps]:
  "create_files F bid fs w = (Inr u, w') \<longleftrightarrow>
     FFileCreate \<notin> set F \<and> w' = w\<lparr>db := snd (file_createMany (map (\<lambda>f. (bid, ''Bounty'', f)) fs) (db w))\<rparr>"
  by (simp add: create_files_def step_simps)

lemma charge_buzz_eq_Inr [step_simps]:
  "charge_buzz F uid amt cur w = (Inr u, w') \<longleftrightarrow>
     (if cur = BUZZ
      then FTransfer \<notin> set F \<and>
           w' = w\<lparr>ledger := createBuzzTransaction
                    \<lparr>t_from = uid, t_to = 0, t_amount = amt, t_type = Bounty\<rparr> (ledger w)\<rparr>
      else w' = w)"
  by (cases cur) (auto simp: charge_buzz_def)

subsection \<open>Ingestion batches\<close>

lemma ingest_batch_apply:
  "ingest_batch F batch w =
     (if batch_ok F batch then Inr () else Inl (Fault (FIngest (the (find (\<lambda>i. FIngest i \<in> set F) (pending_ids batch))))),
      w\<lparr>ingest_log := ingest_log w @ [pending_ids batch]\<rparr>)"
proof (cases "find (\<lambda>i. FIngest i \<in> set F) (pending_ids batch)")
  case None
  then have "batch_ok F batch" by (simp add: batch_ok_def find_None_iff)
  with None show ?thesis by (simp add: ingest_batch_def)
next
  case (Some i)
  then have "i \<in> set (pending_ids batch) \<and> FIngest i \<in> set F"
    by (metis find_Some_iff nth_mem)
  then have "\<not> batch_ok F batch" by (auto simp: batch_ok_def)
  with Some show ?thesis by (simp add: ingest_batch_def)
qed

lemma forE_ingest_Inr:
  "forE bs (ingest_batch F) w = (Inr u, w') \<longleftrightarrow>
     (\<forall>b \<in> set bs. batch_ok F b) \<and> w' = w\<lparr>ingest_log := ingest_log w @ map pending_ids bs\<rparr>"
  by (induction bs arbitrary: w) (auto simp: bindE_eq_Inr ingest_batch_apply)

text \<open>
  A failing batch is the last one submitted: the batches before it all went through, the
  failing one was submitted whole, and nothing after it was submitted.
\<close>

lemma forE_ingest_Inl:
  "forE bs (ingest_batch F) w = (Inl e, w') \<Longrightarrow>
     \<exists>k < length bs. w' = w\<lparr>ingest_log := ingest_log w @ take (Suc k) (map pending_ids bs)\<rparr>
       \<and> \<not> batch_ok F (bs ! k) \<and> (\<forall>j < k. batch_ok F (bs ! j))"
proof (induction bs arbitrary: w)
  case Nil
  then show ?case by simp
next
  case (Cons b bs)
  show ?case
  proof (cases "batch_ok F b")
    case False
    with Cons.prems show ?thesis
      by (auto simp: bindE_eq_Inl ingest_batch_apply intro!: exI [of _ 0])
  next
    case True
    then have "ingest_batch F b w = (Inr (), w\<lparr>ingest_log := ingest_log w @ [pending_ids b]\<rparr>)"
      by (simp add: ingest_batch_apply)
    with Cons.prems have "forE bs (ingest_batch F) (w\<lparr>ingest_log := ingest_log w @ [pending_ids b]\<rparr>) = (Inl e, w')"
      by simp
    from Cons.IH [OF this] obtain k where "k < length bs"
      and "w' = w\<lparr>ingest_log := ingest_log w @ pending_ids b # take (Suc k) (map pending_ids bs)\<rparr>"
      and "\<not> batch_ok F (bs ! k)" and "\<forall>j < k. batch_ok F (bs ! j)"
      by auto
    with True show ?thesis
      by (intro exI [of _ "Suc k"]) (auto simp: less_Suc_eq_0_disj)
  qed
qed

lemma forE_ingest_db [simp]:
  "db (snd (forE bs (ingest_batch F) w)) = db w"
  "ledger (snd (forE bs (ingest_batch F) w)) = ledger w"
  by (induction bs arbitrary: w) (auto simp: bindE_def ingest_batch_apply split: prod.splits sum.splits)

subsection \<open>Images\<close>

lemma attach_images_eq_Inr [step_simps]:
  "attach_images F uid bid xs w = (Inr u, w') \<longleftrightarrow>
     FImageCreate \<notin> set F \<and> FImageFind \<notin> set F \<and> FConnectionCreate \<notin> set F \<and>
     (\<forall>b \<in> set (chunk 50 (fetched uid xs (db w))). batch_ok F b) \<and>
     w' = w\<lparr>db := snd (connection_createMany (map (mk_connection bid) (fetched uid xs (db w)))
                        (images_added uid xs (db w))),
           ingest_log := ingest_log w @ map pending_ids (chunk 50 (fetched uid xs (db w)))\<rparr>"
  by (auto simp: attach_images_def bindE_eq_Inr step_simps ingest_batches_def forE_ingest_Inr
                 images_added_def fetched_def)

section \<open>The creation as a whole\<close>

lemma create_tx_eq_Inr:
  "create_tx F inp w = (Inr b, w') \<longleftrightarrow>
     tx_faults_absent F inp (db w) \<and> b = mk_bounty (bounty_seq (db w)) (ci_data inp) \<and>
     w' = w\<lparr>db := created_store inp (db w), ledger := charged inp (ledger w),
            ingest_log := ingest_log w @ map pending_ids (new_batches inp (db w))\<rparr>"
  by (auto simp: create_tx_def Let_def bindE_eq_Inr step_simps bounty_create_def benefactor_create_def
     tx_faults_absent_def created_store_def with_bounty_def with_files_def with_images_def new_batches_def
     charged_def pledge_def split: option.splits if_splits)

lemma createBounty_eq_Inr [step_simps]:
  "createBounty F inp w = (Inr b, w') \<longleftrightarrow>
     funds_ok F inp (ledger w) \<and> FCommit \<notin> set F \<and> tx_faults_absent F inp (db w) \<and>
     b = mk_bounty (bounty_seq (db w)) (ci_data inp) \<and>
     w' = w\<lparr>db := created_store inp (db w), ledger := charged inp (ledger w),
            ingest_log := ingest_log w @ map pending_ids (new_batches inp (db w))\<rparr>"
  by (auto simp: createBounty_def bindE_eq_Inr check_funds_eq_Inr transaction_eq_Inr create_tx_eq_Inr funds_ok_def)

text \<open>Failure: either the funds check threw and nothing happened, or the transaction
  threw and only its database writes were undone.\<close>

lemma createBounty_Inl:
  "createBounty F inp w = (Inl e, w') \<Longrightarrow>
     w' = w \<or> (funds_ok F inp (ledger w) \<and> w' = (snd (create_tx F inp w))\<lparr>db := db w\<rparr>)"
  by (auto simp: createBounty_def bindE_eq_Inl check_funds_eq_Inr funds_ok_def
           dest: transaction_Inl check_funds_same)

section \<open>The store after a creation, field by field\<close>

lemma fetched_frame:
  "images s' = images s \<Longrightarrow> image_seq s' = image_seq s \<Longrightarrow> fetched uid xs s' = fetched uid xs s"
  by (simp add: fetched_def images_added_def image_createMany_def image_findMany_def)

text \<open>The records fetched back: the creator's older images with one of the urls, then
  every image just inserted.\<close>

lemma fetched_split:
  "fetched uid xs s = image_findMany (map i_url xs) uid s @ new_image_rows uid xs (image_seq s)"
proof -
  have "filter (\<lambda>i. img_url i \<in> set (map i_url xs) \<and> img_userId i = uid) (new_image_rows uid xs (image_seq s))
        = new_image_rows uid xs (image_seq s)"
    by (rule filter_True) (auto dest: new_image_rows_owner)
  then show ?thesis
    by (simp add: fetched_def images_added_def image_createMany_def image_findMany_def)
qed

lemma created_store_fields [simp]:
  "bounties (created_store inp s) = bounties s @ [mk_bounty (bounty_seq s) (ci_data inp)]"
  "bounty_seq (created_store inp s) = Suc (bounty_seq s)"
  "benefactors (created_store inp s) = benefactors s @ [pledge inp (bounty_seq s)]"
  "files (created_store inp s) = files s @
     (case ci_files inp of None \<Rightarrow> [] | Some fs \<Rightarrow> new_file_rows (map (\<lambda>f. (bounty_seq s, ''Bounty'', f)) fs) (file_seq s))"
  "file_seq (created_store inp s) = file_seq s + (case ci_files inp of None \<Rightarrow> 0 | Some fs \<Rightarrow> length fs)"
  "images (created_store inp s) = images s @
     (case ci_images inp of None \<Rightarrow> [] | Some xs \<Rightarrow> new_image_rows (userId (ci_data inp)) xs (image_seq s))"
  "image_seq (created_store inp s) = image_seq s + (case ci_images inp of None \<Rightarrow> 0 | Some xs \<Rightarrow> length xs)"
  "connections (created_store inp s) = connections s @
     (case ci_images inp of None \<Rightarrow> []
      | Some xs \<Rightarrow> map (mk_connection (bounty_seq s)) (fetched (userId (ci_data inp)) xs s))"
  by (auto simp: created_store_def with_images_def with_files_def with_bounty_def images_added_def
      image_createMany_def connection_createMany_def file_createMany_def fetched_split image_findMany_def
      split: option.splits)

lemma new_batches_eq:
  "new_batches inp s =
     (case ci_images inp of None \<Rightarrow> [] | Some xs \<Rightarrow> chunk 50 (fetched (userId (ci_data inp)) xs s))"
  by (auto simp: new_batches_def with_files_def with_bounty_def file_createMany_def fetched_split
      image_findMany_def split: option.splits)

section \<open>The store invariant across a creation\<close>

lemma mk_connection_fields [simp]:
  "c_imageId (mk_connection bid i) = imageId i" "c_entityId (mk_connection bid i) = bid"
  "c_entityType (mk_connection bid i) = ''Bounty''"
  by (simp_all add: mk_connection_def)

lemma fetched_in_images:
  "i \<in> set (fetched uid xs s) \<Longrightarrow> i \<in> set (images s) \<or> i \<in> set (new_image_rows uid xs (image_seq s))"
  by (auto simp: fetched_split image_findMany_def)

lemma store_ok_created:
  assumes ok: "store_ok s"
  shows "store_ok (created_store inp s)"
proof -
  let ?s' = "created_store inp s" and ?seq = "bounty_seq s"
  from ok have ids: "ids_ok (map bountyId (bounties s)) ?seq" "ids_ok (map fileId (files s)) (file_seq s)"
      "ids_ok (map imageId (images s)) (image_seq s)"
    by (simp_all add: store_ok_def)
  have "ids_ok (map bountyId (bounties ?s')) (bounty_seq ?s')"
    using ids_ok_snoc [OF ids(1)] by simp
  moreover have "ids_ok (map fileId (files ?s')) (file_seq ?s')"
    using ids(2) ids_ok_append_upt [OF ids(2)] by (simp split: option.splits)
  moreover have "ids_ok (map imageId (images ?s')) (image_seq ?s')"
    using ids(3) ids_ok_append_upt [OF ids(3)] by (simp split: option.splits)
  moreover have "\<forall>f \<in> set (benefactors ?s'). bf_bountyId f \<in> bountyId ` set (bounties ?s')"
    using ok by (auto simp: store_ok_def pledge_def)
  moreover have "\<forall>b \<in> set (bounties ?s'). \<exists>f \<in> set (benefactors ?s'). bf_bountyId f = bountyId b"
    using ok by (auto simp: store_ok_def pledge_def)
  moreover have "\<forall>c \<in> set (connections ?s'). c_imageId c \<in> imageId ` set (images ?s')"
    using ok by (auto simp: store_ok_def split: option.splits dest!: fetched_in_images)
  moreover have "\<forall>f \<in> set (files ?s'). f_entityType f = ''Bounty'' \<longrightarrow> f_entityId f \<in> bountyId ` set (bounties ?s')"
    using ok by (auto simp: store_ok_def split: option.splits dest: new_file_rows_entity)
  moreover have "\<forall>c \<in> set (connections ?s'). c_entityType c = ''Bounty'' \<longrightarrow> c_entityId c < bounty_seq ?s'"
    using ok by (fastforce simp: store_ok_def split: option.splits)
  ultimately show ?thesis by (simp add: store_ok_def)
qed

text \<open>Creation keeps the store invariant on every outcome: a failure leaves the store
  as it was, a success leaves \<open>created_store\<close>.\<close>

lemma createBounty_store_ok:
  assumes "store_ok (db w)"
  shows "store_ok (db (snd (createBounty F inp w)))"
proof -
  obtain r w' where run: "createBounty F inp w = (r, w')" by (cases "createBounty F inp w")
  show ?thesis
  proof (cases r)
    case (Inl e)
    with run createBounty_Inl [of F inp w e w'] assms show ?thesis by auto
  next
    case (Inr b)
    with run have "db w' = created_store inp (db w)" by (simp add: step_simps)
    with run assms show ?thesis by (simp add: store_ok_created)
  qed
qed

section \<open>The ledger across a creation\<close>

text \<open>On every outcome the ledger is untouched or charged once: everything before the
  transfer keeps it, and the transaction does not undo it.\<close>

lemma moves_charge_buzz:
  "moves ledger (ledger_step inp) (charge_buzz F (userId (ci_data inp)) (ci_unitAmount inp) (ci_currency inp))"
  unfolding moves_def
proof
  fix w
  let ?c = "charge_buzz F (userId (ci_data inp)) (ci_unitAmount inp) (ci_currency inp)"
  obtain r w' where c: "?c w = (r, w')" by (cases "?c w")
  from charge_buzz_ledger [OF c] c show "ledger_step inp (ledger w) (ledger (snd (?c w)))"
    by (auto simp: ledger_step_def charged_def)
qed

lemma moves_create_tx: "moves ledger (ledger_step inp) (create_tx F inp)"
  unfolding create_tx_def Let_def
  by (intro moves_keeps_bindE moves_bindE_keeps moves_charge_buzz keeps_intros)
     (simp add: ledger_step_def)+

lemma createBounty_ledger:
  "createBounty F inp w = (r, w') \<Longrightarrow> ledger w' = ledger w \<or> ledger w' = charged inp (ledger w)"
proof -
  assume run: "createBounty F inp w = (r, w')"
  have "moves ledger (ledger_step inp) (transaction F (create_tx F inp))"
    unfolding moves_def
  proof
    fix v
    obtain q v' where cv: "create_tx F inp v = (q, v')" by (cases "create_tx F inp v")
    from movesD [OF moves_create_tx cv] have "ledger_step inp (ledger v) (ledger v')" .
    then show "ledger_step inp (ledger v) (ledger (snd (transaction F (create_tx F inp) v)))"
      using cv by (cases q) (simp_all add: transaction_def)
  qed
  then have "moves ledger (ledger_step inp) (createBounty F inp)"
    unfolding createBounty_def by (intro moves_keeps_bindE keeps_intros) (simp_all add: ledger_step_def)
  from movesD [OF this run] show ?thesis by (simp add: ledger_step_def)
qed

end
