(* ===== verification/Bounty_Props.thy ===== *)
theory Bounty_Props
  imports Bounty_Steps
begin

text \<open>
  The properties of \<open>bounty.service.ts\<close>: what each exported function does on every
  outcome, the store invariant, and the behaviours where the code and the spec part.
  Each is applied in a witness to a small concrete world: user 7 holding a given Buzz
  balance, an empty store, and a bounty with a given number of copies of one image.
\<close>

section \<open>Concrete worlds for the witnesses\<close>

definition demo_data :: bounty_data where
  "demo_data = \<lparr>userId = 7, name = ''LoRA'', description = ''a style'', startsAt = 1, expiresAt = 8,
     nsfw = False, poi = False\<rparr>"

definition demo_image :: image_input where
  "demo_image = \<lparr>i_url = ''cf-1'', i_name = ''ref'', i_meta = None, i_resources = [3]\<rparr>"

definition demo_file :: file_input where
  "demo_file = \<lparr>f_name = ''brief.pdf'', f_url = ''s3/brief'', f_sizeKB = 12, f_metadata = ''{}''\<rparr>"

definition demo_input :: "int \<Rightarrow> nat \<Rightarrow> create_input" where
  "demo_input amt n = \<lparr>ci_data = demo_data, ci_unitAmount = amt, ci_currency = BUZZ,
     ci_files = Some [demo_file], ci_images = Some (replicate n demo_image), ci_tags = None\<rparr>"

definition demo_world :: "int \<Rightarrow> world" where
  "demo_world bal = \<lparr>db = empty_store, ledger = \<lparr>balances = (\<lambda>a. if a = 7 then bal else 0), transfers = []\<rparr>,
     ingest_log = []\<rparr>"

text \<open>The same world where user 7 already owns an image with the url of \<open>demo_image\<close>
  (uploaded for a post, say).\<close>

definition demo_world_dup :: world where
  "demo_world_dup = (demo_world 1000)\<lparr>db := empty_store\<lparr>images :=
     [\<lparr>imageId = 1, img_url = ''cf-1'', img_name = ''old'', img_meta = None, img_userId = 7,
        img_ingestion = Scanned\<rparr>], image_seq := 2\<rparr>\<rparr>"

lemmas demo_defs = demo_data_def demo_image_def demo_file_def demo_input_def demo_world_def empty_store_def
  demo_world_dup_def

section \<open>Helpers\<close>

lemma store_ok_benefactor_below:
  "store_ok s \<Longrightarrow> f \<in> set (benefactors s) \<Longrightarrow> bf_bountyId f < bounty_seq s"
  by (auto simp: store_ok_def ids_ok_def)

lemma store_ok_connection_below:
  "store_ok s \<Longrightarrow> c \<in> set (connections s) \<Longrightarrow> c_entityType c = ''Bounty'' \<Longrightarrow> c_entityId c < bounty_seq s"
  by (auto simp: store_ok_def)

lemma pending_ids_concat: "pending_ids (concat bs) = concat (map pending_ids bs)"
  by (induction bs) (simp_all add: pending_ids_def)

lemma length_pending_ids: "length (pending_ids b) \<le> length b"
  by (simp add: pending_ids_def)

text \<open>After a creation, fetching the creator's images by the submitted urls finds exactly
  the records the creation fetched.\<close>

lemma image_findMany_created:
  "ci_images inp = Some xs \<Longrightarrow>
   image_findMany (map i_url xs) (userId (ci_data inp)) (created_store inp s) = fetched (userId (ci_data inp)) xs s"
  by (simp add: fetched_split image_findMany_def) (auto intro!: filter_True dest: new_image_rows_owner)

lemma demo_store_ok: "store_ok empty_store"
  by (simp add: empty_store_def store_ok_def ids_ok_def)

section \<open>createBounty\<close>

text \<open>
  C1. A BUZZ bounty whose amount exceeds the creator's balance is refused with
  InsufficientFunds, and the call changes nothing: no row, no transfer, no ingestion.
\<close>

theorem createBounty_insufficient_funds:
  assumes "ci_currency inp = BUZZ" and "FBalanceRead \<notin> set F"
    and "balances (ledger w) (userId (ci_data inp)) < ci_unitAmount inp"
  shows "createBounty F inp w = (Inl InsufficientFunds, w)"
  using assms by (simp add: createBounty_def check_funds_def getUserBuzzAccount_def bindE_def)

theorem createBounty_insufficient_funds_witness:
  "ci_currency (demo_input 500 1) = BUZZ \<and> FBalanceRead \<notin> set [] \<and>
   balances (ledger (demo_world 100)) (userId (ci_data (demo_input 500 1))) < ci_unitAmount (demo_input 500 1) \<and>
   createBounty [] (demo_input 500 1) (demo_world 100) = (Inl InsufficientFunds, demo_world 100)"
proof -
  have h: "ci_currency (demo_input 500 1) = BUZZ" "FBalanceRead \<notin> set []"
    "balances (ledger (demo_world 100)) (userId (ci_data (demo_input 500 1))) < ci_unitAmount (demo_input 500 1)"
    by (simp_all add: demo_defs)
  show ?thesis using h createBounty_insufficient_funds [OF h] by simp
qed

text \<open>
  C2. A successful creation writes exactly one benefactor row for the new bounty: the
  creator's pledge of the stated amount in the stated currency.
\<close>

theorem createBounty_single_pledge:
  assumes "store_ok (db w)" and "createBounty F inp w = (Inr b, w')"
  shows "filter (\<lambda>f. bf_bountyId f = bountyId b) (benefactors (db w')) =
           [\<lparr>bf_userId = userId (ci_data inp), bf_bountyId = bountyId b,
             bf_unitAmount = ci_unitAmount inp, bf_currency = ci_currency inp\<rparr>]"
proof -
  from assms(2) have b: "b = mk_bounty (bounty_seq (db w)) (ci_data inp)"
    and w': "db w' = created_store inp (db w)"
    by (auto simp: step_simps)
  have "filter (\<lambda>f. bf_bountyId f = bounty_seq (db w)) (benefactors (db w)) = []"
    using store_ok_benefactor_below [OF assms(1)] by (fastforce simp: filter_empty_conv)
  then show ?thesis by (simp add: b w' pledge_def)
qed

theorem createBounty_single_pledge_witness:
  "store_ok (db (demo_world 1000)) \<and>
   filter (\<lambda>f. bf_bountyId f = 1) (benefactors (db (snd (createBounty [] (demo_input 500 1) (demo_world 1000))))) =
     [\<lparr>bf_userId = 7, bf_bountyId = 1, bf_unitAmount = 500, bf_currency = BUZZ\<rparr>]"
proof -
  let ?r = "createBounty [] (demo_input 500 1) (demo_world 1000)"
  have ok: "store_ok (db (demo_world 1000))"
    by (simp add: demo_defs store_ok_def ids_ok_def)
  have "fst ?r = Inr (mk_bounty 1 demo_data)"
    by code_simp
  then have r: "?r = (Inr (mk_bounty 1 demo_data), snd ?r)"
    by (simp add: prod_eq_iff)
  have "filter (\<lambda>f. bf_bountyId f = bountyId (mk_bounty 1 demo_data)) (benefactors (db (snd ?r))) =
        [\<lparr>bf_userId = userId (ci_data (demo_input 500 1)), bf_bountyId = bountyId (mk_bounty 1 demo_data),
          bf_unitAmount = ci_unitAmount (demo_input 500 1), bf_currency = ci_currency (demo_input 500 1)\<rparr>]"
    by (rule createBounty_single_pledge [OF ok r])
  with ok show ?thesis by (simp add: demo_defs)
qed

text \<open>
  C3. A failed creation leaves the database as it was: whether the funds check threw or a
  call inside the transaction threw, no bounty, benefactor, file, image or link persists.
\<close>

theorem createBounty_failure_keeps_db:
  assumes "createBounty F inp w = (Inl e, w')"
  shows "db w' = db w"
  using createBounty_Inl [OF assms] by auto

theorem createBounty_failure_keeps_db_witness:
  "db (snd (createBounty [FConnectionCreate] (demo_input 500 1) (demo_world 1000))) = db (demo_world 1000)"
proof -
  let ?r = "createBounty [FConnectionCreate] (demo_input 500 1) (demo_world 1000)"
  have "fst ?r = Inl (Fault FConnectionCreate)"
    by code_simp
  then have r: "?r = (Inl (Fault FConnectionCreate), snd ?r)"
    by (simp add: prod_eq_iff)
  show ?thesis by (rule createBounty_failure_keeps_db [OF r])
qed

text \<open>
  C4. A successful BUZZ creation debits the creator and credits the platform account 0 by
  the bounty amount, recording one Bounty transfer.
\<close>

theorem createBounty_buzz_debit:
  assumes "createBounty F inp w = (Inr b, w')" and "ci_currency inp = BUZZ"
    and "userId (ci_data inp) \<noteq> 0"
  shows "balances (ledger w') (userId (ci_data inp)) = balances (ledger w) (userId (ci_data inp)) - ci_unitAmount inp
       \<and> balances (ledger w') 0 = balances (ledger w) 0 + ci_unitAmount inp
       \<and> transfers (ledger w') = transfers (ledger w) @
            [\<lparr>t_from = userId (ci_data inp), t_to = 0, t_amount = ci_unitAmount inp, t_type = Bounty\<rparr>]"
proof -
  from assms(1) have "ledger w' = charged inp (ledger w)" by (simp add: step_simps)
  with assms(2,3) show ?thesis
    by (simp add: charged_def createBuzzTransaction_from [where t = "\<lparr>t_from = _, t_to = 0, t_amount = _, t_type = Bounty\<rparr>", simplified]
                  createBuzzTransaction_to [where t = "\<lparr>t_from = _, t_to = 0, t_amount = _, t_type = Bounty\<rparr>", simplified])
qed

theorem createBounty_buzz_debit_witness:
  "balances (ledger (snd (createBounty [] (demo_input 500 1) (demo_world 1000)))) 7 = 500
   \<and> balances (ledger (snd (createBounty [] (demo_input 500 1) (demo_world 1000)))) 0 = 500"
proof -
  let ?r = "createBounty [] (demo_input 500 1) (demo_world 1000)"
  have "fst ?r = Inr (mk_bounty 1 demo_data)" by code_simp
  then have r: "?r = (Inr (mk_bounty 1 demo_data), snd ?r)" by (simp add: prod_eq_iff)
  have "ci_currency (demo_input 500 1) = BUZZ" "userId (ci_data (demo_input 500 1)) \<noteq> 0"
    by (simp_all add: demo_defs)
  from createBounty_buzz_debit [OF r this] show ?thesis by (simp add: demo_defs)
qed

text \<open>
  C5. A creation in another currency never touches the ledger, whatever its outcome.
\<close>

theorem createBounty_other_currency_no_ledger:
  assumes "ci_currency inp \<noteq> BUZZ"
  shows "ledger (snd (createBounty F inp w)) = ledger w"
proof -
  obtain r w' where run: "createBounty F inp w = (r, w')" by (cases "createBounty F inp w")
  from createBounty_ledger [OF run] assms have "ledger w' = ledger w" by (auto simp: charged_def)
  with run show ?thesis by simp
qed

theorem createBounty_other_currency_no_ledger_witness:
  "ci_currency (demo_input 500 1\<lparr>ci_currency := USD\<rparr>) \<noteq> BUZZ \<and>
   ledger (snd (createBounty [] (demo_input 500 1\<lparr>ci_currency := USD\<rparr>) (demo_world 0))) = ledger (demo_world 0)"
  using createBounty_other_currency_no_ledger [of "demo_input 500 1\<lparr>ci_currency := USD\<rparr>" "[]" "demo_world 0"]
  by simp

text \<open>
  C6. The BUZZ transfer is not part of the database transaction: when the commit fails
  after the callback succeeded, the call fails and the database is rolled back, but the
  creator stays debited (and the ingestion submissions stay made). The spec says no
  ledger transfer persists after a failure.
\<close>

theorem createBounty_commit_failure_keeps_debit:
  assumes "funds_ok F inp (ledger w)" and "tx_faults_absent F inp (db w)" and "FCommit \<in> set F"
  shows "createBounty F inp w =
           (Inl (Fault FCommit), w\<lparr>ledger := charged inp (ledger w),
                                    ingest_log := ingest_log w @ map pending_ids (new_batches inp (db w))\<rparr>)"
proof -
  have "create_tx F inp w = (Inr (mk_bounty (bounty_seq (db w)) (ci_data inp)),
          w\<lparr>db := created_store inp (db w), ledger := charged inp (ledger w),
            ingest_log := ingest_log w @ map pending_ids (new_batches inp (db w))\<rparr>)"
    using assms(2) by (simp add: create_tx_eq_Inr)
  moreover from assms(1) have "check_funds F (userId (ci_data inp)) (ci_unitAmount inp) (ci_currency inp) w = (Inr (), w)"
    by (simp add: check_funds_eq_Inr funds_ok_def)
  ultimately show ?thesis using assms(3) by (simp add: createBounty_def transaction_def)
qed

theorem createBounty_commit_failure_keeps_debit_witness:
  "fst (createBounty [FCommit] (demo_input 500 1) (demo_world 1000)) = Inl (Fault FCommit)
   \<and> db (snd (createBounty [FCommit] (demo_input 500 1) (demo_world 1000))) = empty_store
   \<and> balances (ledger (snd (createBounty [FCommit] (demo_input 500 1) (demo_world 1000)))) 7 = 500"
proof -
  have f: "funds_ok [FCommit] (demo_input 500 1) (ledger (demo_world 1000))"
    by (simp add: funds_ok_def demo_defs)
  have t: "tx_faults_absent [FCommit] (demo_input 500 1) (db (demo_world 1000))"
    by code_simp
  show ?thesis
    using createBounty_commit_failure_keeps_debit [OF f t] by (simp add: charged_def demo_defs createBuzzTransaction_def)
qed

text \<open>
  C7. The links a creation makes are not one per submitted image: the service re-fetches
  images by url and owner, so every older image of the creator with one of the urls is
  linked too. The new bounty gets the submitted images plus those older ones.
\<close>

theorem createBounty_connection_count:
  assumes "store_ok (db w)" and "ci_images inp = Some xs" and "createBounty F inp w = (Inr b, w')"
  shows "length (filter (connection_matches (bountyId b) ''Bounty'') (connections (db w'))) =
           length xs + length (image_findMany (map i_url xs) (userId (ci_data inp)) (db w))"
proof -
  from assms(3) have b: "bountyId b = bounty_seq (db w)" and w': "db w' = created_store inp (db w)"
    by (auto simp: step_simps)
  have "filter (connection_matches (bounty_seq (db w)) ''Bounty'') (connections (db w)) = []"
    using store_ok_connection_below [OF assms(1)] by (fastforce simp: filter_empty_conv connection_matches_def)
  moreover have "filter (connection_matches (bounty_seq (db w)) ''Bounty'')
                   (map (mk_connection (bounty_seq (db w))) (fetched (userId (ci_data inp)) xs (db w)))
                 = map (mk_connection (bounty_seq (db w))) (fetched (userId (ci_data inp)) xs (db w))"
    by (rule filter_True) (auto simp: connection_matches_def)
  ultimately show ?thesis using assms(2) by (simp add: b w' fetched_split)
qed

theorem createBounty_connection_count_witness:
  "length (filter (connection_matches 1 ''Bounty'')
     (connections (db (snd (createBounty [] (demo_input 500 1) demo_world_dup))))) = 2"
proof -
  let ?r = "createBounty [] (demo_input 500 1) demo_world_dup"
  have ok: "store_ok (db demo_world_dup)"
    by (simp add: demo_defs store_ok_def ids_ok_def)
  have imgs: "ci_images (demo_input 500 1) = Some [demo_image]" by (simp add: demo_input_def)
  have "fst ?r = Inr (mk_bounty 1 demo_data)" by code_simp
  then have r: "?r = (Inr (mk_bounty 1 demo_data), snd ?r)" by (simp add: prod_eq_iff)
  have "length (image_findMany (map i_url [demo_image]) (userId (ci_data (demo_input 500 1))) (db demo_world_dup)) = 1"
    by (simp add: demo_defs image_findMany_def)
  with createBounty_connection_count [OF ok imgs r] show ?thesis by simp
qed

text \<open>
  C8. A successful creation submits to the ingestion pipeline, in batches of at most 50,
  exactly the pending images among those it linked, in order.
\<close>

theorem createBounty_ingestion_batches:
  assumes "ci_images inp = Some xs" and "createBounty F inp w = (Inr b, w')"
  shows "\<exists>bs. ingest_log w' = ingest_log w @ bs \<and> (\<forall>bt \<in> set bs. length bt \<le> 50)
            \<and> concat bs = pending_ids (image_findMany (map i_url xs) (userId (ci_data inp)) (db w'))"
proof -
  let ?recs = "fetched (userId (ci_data inp)) xs (db w)"
  from assms have log: "ingest_log w' = ingest_log w @ map pending_ids (chunk 50 ?recs)"
    and w': "db w' = created_store inp (db w)"
    by (auto simp: step_simps new_batches_eq)
  have "\<forall>bt \<in> set (map pending_ids (chunk 50 ?recs)). length bt \<le> 50"
    using chunk_bounds length_pending_ids by (fastforce intro: order_trans)
  moreover have "concat (map pending_ids (chunk 50 ?recs)) = pending_ids ?recs"
    by (simp add: pending_ids_concat [symmetric] concat_chunk)
  ultimately show ?thesis
    using log assms(1) by (intro exI [of _ "map pending_ids (chunk 50 ?recs)"]) (simp add: w' image_findMany_created)
qed

theorem createBounty_ingestion_batches_witness:
  "\<exists>bs. ingest_log (snd (createBounty [] (demo_input 500 3) (demo_world 1000))) = [] @ bs
     \<and> (\<forall>bt \<in> set bs. length bt \<le> 50)
     \<and> concat bs = pending_ids (image_findMany [''cf-1'', ''cf-1'', ''cf-1''] 7
                      (db (snd (createBounty [] (demo_input 500 3) (demo_world 1000)))))"
proof -
  let ?r = "createBounty [] (demo_input 500 3) (demo_world 1000)"
  have imgs: "ci_images (demo_input 500 3) = Some (replicate 3 demo_image)" by (simp add: demo_input_def)
  have "fst ?r = Inr (mk_bounty 1 demo_data)" by code_simp
  then have r: "?r = (Inr (mk_bounty 1 demo_data), snd ?r)" by (simp add: prod_eq_iff)
  from createBounty_ingestion_batches [OF imgs r] show ?thesis
    by (simp add: demo_defs numeral_3_eq_3)
qed

text \<open>
  C9. Ingestion batches are strictly sequential: when a batch fails, the batches before it
  all went through, the failing batch was submitted whole, and no later batch was
  submitted.
\<close>

theorem ingest_batches_stop_at_failed_batch:
  assumes "ingest_batches F recs w = (Inl e, w')"
  shows "\<exists>k < length (chunk 50 recs).
           ingest_log w' = ingest_log w @ take (Suc k) (map pending_ids (chunk 50 recs))
           \<and> \<not> batch_ok F (chunk 50 recs ! k) \<and> (\<forall>j < k. batch_ok F (chunk 50 recs ! j))"
proof -
  from assms have "forE (chunk 50 recs) (ingest_batch F) w = (Inl e, w')"
    by (simp add: ingest_batches_def)
  from forE_ingest_Inl [OF this] obtain k where "k < length (chunk 50 recs)"
    and "w' = w\<lparr>ingest_log := ingest_log w @ take (Suc k) (map pending_ids (chunk 50 recs))\<rparr>"
    and "\<not> batch_ok F (chunk 50 recs ! k)" and "\<forall>j < k. batch_ok F (chunk 50 recs ! j)"
    by blast
  then show ?thesis by auto
qed

theorem ingest_batches_stop_at_failed_batch_witness:
  "\<exists>k < length (chunk 50 (fetched 7 (replicate 120 demo_image) empty_store)).
     ingest_log (snd (ingest_batches [FIngest 60] (fetched 7 (replicate 120 demo_image) empty_store) (demo_world 0)))
       = take (Suc k) (map pending_ids (chunk 50 (fetched 7 (replicate 120 demo_image) empty_store)))
     \<and> \<not> batch_ok [FIngest 60] (chunk 50 (fetched 7 (replicate 120 demo_image) empty_store) ! k)
     \<and> (\<forall>j < k. batch_ok [FIngest 60] (chunk 50 (fetched 7 (replicate 120 demo_image) empty_store) ! j))"
proof -
  let ?recs = "fetched 7 (replicate 120 demo_image) empty_store"
  let ?r = "ingest_batches [FIngest 60] ?recs (demo_world 0)"
  have "fst ?r = Inl (Fault (FIngest 60))" by code_simp
  then have r: "?r = (Inl (Fault (FIngest 60)), snd ?r)" by (simp add: prod_eq_iff)
  from ingest_batches_stop_at_failed_batch [OF r] show ?thesis by (simp add: demo_world_def)
qed

text \<open>
  The spec's scenario: a bounty with 120 images is ingested in three batches of 50,
  50 and 20 submissions.
\<close>

theorem createBounty_120_images_batches:
  "map length (ingest_log (snd (createBounty [] (demo_input 500 120) (demo_world 1000)))) = [50, 50, 20]"
  by code_simp



text \<open>
  C12. With no failing collaborator, a creation whose BUZZ amount the balance covers
  always returns the new bounty: the service has no other way to fail.
\<close>

theorem createBounty_fault_free_succeeds:
  assumes "ci_currency inp = BUZZ \<longrightarrow> ci_unitAmount inp \<le> balances (ledger w) (userId (ci_data inp))"
  shows "\<exists>b w'. createBounty [] inp w = (Inr b, w')"
  using assms by (simp add: createBounty_eq_Inr funds_ok_def tx_faults_absent_def batch_ok_def)

theorem createBounty_fault_free_succeeds_witness:
  "ci_unitAmount (demo_input 500 2) \<le> balances (ledger (demo_world 500)) (userId (ci_data (demo_input 500 2)))
   \<and> (\<exists>b w'. createBounty [] (demo_input 500 2) (demo_world 500) = (Inr b, w'))"
proof -
  have h: "ci_currency (demo_input 500 2) = BUZZ \<longrightarrow>
      ci_unitAmount (demo_input 500 2) \<le> balances (ledger (demo_world 500)) (userId (ci_data (demo_input 500 2)))"
    by (simp add: demo_defs)
  have "ci_unitAmount (demo_input 500 2) \<le> balances (ledger (demo_world 500)) (userId (ci_data (demo_input 500 2)))"
    by (simp add: demo_defs)
  with createBounty_fault_free_succeeds [OF h] show ?thesis by blast
qed

text \<open>
  C14. After a creation, \<open>getBountyImages\<close> of the new bounty returns exactly the
  creator's images with one of the submitted urls, in id order: every linked image once.
\<close>

theorem createBounty_images_linked:
  assumes "store_ok (db w)" and "ci_images inp = Some xs" and "createBounty F inp w = (Inr b, w')"
  shows "getBountyImages (bountyId b) (db w') = image_findMany (map i_url xs) (userId (ci_data inp)) (db w')"
proof -
  let ?s = "db w" and ?uid = "userId (ci_data inp)"
  let ?recs = "fetched ?uid xs ?s"
  from assms(3) have b: "bountyId b = bounty_seq ?s" and w': "db w' = created_store inp ?s"
    by (auto simp: step_simps)
  have ok': "store_ok (db w')" using store_ok_created [OF assms(1)] w' by simp
  then have "ids_ok (map imageId (images (db w'))) (image_seq (db w'))"
    by (simp add: store_ok_def)
  then have dist: "distinct (map imageId (images (db w')))"
    by (rule ids_ok_distinct)
  have recs: "set ?recs \<subseteq> set (images (db w'))"
    using assms(2) by (auto simp: w' fetched_split image_findMany_def)
  have old: "filter (connection_matches (bounty_seq ?s) ''Bounty'') (connections ?s) = []"
    using store_ok_connection_below [OF assms(1)] by (fastforce simp: filter_empty_conv connection_matches_def)
  have new: "filter (connection_matches (bounty_seq ?s) ''Bounty'') (map (mk_connection (bounty_seq ?s)) ?recs)
             = map (mk_connection (bounty_seq ?s)) ?recs"
    by (rule filter_True) (auto simp: connection_matches_def)
  have conns: "filter (connection_matches (bountyId b) ''Bounty'') (connections (db w')) =
                map (mk_connection (bounty_seq ?s)) ?recs"
    using assms(2) old new by (simp add: b w')
  have each: "map (\<lambda>c. filter (\<lambda>i. imageId i = c_imageId c) (images (db w'))) (map (mk_connection (bounty_seq ?s)) ?recs)
        = map (\<lambda>r. [r]) ?recs"
    using recs filter_key_unique [OF dist] by (auto intro!: map_cong)
  have "getBountyImages (bountyId b) (db w') =
        concat (map (\<lambda>c. filter (\<lambda>i. imageId i = c_imageId c) (images (db w'))) (map (mk_connection (bounty_seq ?s)) ?recs))"
    by (simp only: getBountyImages_def connection_images_def conns)
  also have "\<dots> = ?recs" by (simp only: each concat_map_singleton map_ident)
  finally show ?thesis using assms(2) by (simp add: w' image_findMany_created)
qed

theorem createBounty_images_linked_witness:
  "getBountyImages 1 (db (snd (createBounty [] (demo_input 500 1) demo_world_dup))) =
   image_findMany [''cf-1''] 7 (db (snd (createBounty [] (demo_input 500 1) demo_world_dup)))"
proof -
  let ?r = "createBounty [] (demo_input 500 1) demo_world_dup"
  have ok: "store_ok (db demo_world_dup)" by (simp add: demo_defs store_ok_def ids_ok_def)
  have imgs: "ci_images (demo_input 500 1) = Some [demo_image]" by (simp add: demo_input_def)
  have "fst ?r = Inr (mk_bounty 1 demo_data)" by code_simp
  then have r: "?r = (Inr (mk_bounty 1 demo_data), snd ?r)" by (simp add: prod_eq_iff)
  from createBounty_images_linked [OF ok imgs r] show ?thesis by (simp add: demo_defs)
qed

end
