(* ===== verification/Bounty_Race.thy ===== *)
theory Bounty_Race
  imports Bounty_Props
begin

text \<open>
  Two concurrent calls of \<open>createBounty\<close> (\<open>bounty.service.ts\<close>, lines 41--139). Each
  call awaits the balance read (line 52) before it opens its transaction (line 62), so the
  event loop may run both balance checks before either transaction: the schedule
  \<open>concurrent_creates\<close>. \<open>sequential_creates\<close> is the schedule in which the second call
  starts after the first has returned.
\<close>

definition concurrent_creates ::
  "fault_point list \<Rightarrow> create_input \<Rightarrow> create_input \<Rightarrow> (bounty \<times> bounty, world) eff" where
  "concurrent_creates F a b =
     bindE (check_funds F (userId (ci_data a)) (ci_unitAmount a) (ci_currency a)) (\<lambda>_.
     bindE (check_funds F (userId (ci_data b)) (ci_unitAmount b) (ci_currency b)) (\<lambda>_.
     bindE (transaction F (create_tx F a)) (\<lambda>x.
     bindE (transaction F (create_tx F b)) (\<lambda>y.
     returnE (x, y)))))"

definition sequential_creates ::
  "fault_point list \<Rightarrow> create_input \<Rightarrow> create_input \<Rightarrow> (bounty \<times> bounty, world) eff" where
  "sequential_creates F a b = bindE (createBounty F a) (\<lambda>x. bindE (createBounty F b) (\<lambda>y. returnE (x, y)))"

text \<open>When both checks pass and both transactions commit, both debits are applied to
  the balance both checks read.\<close>

lemma concurrent_creates_ledger:
  assumes "concurrent_creates F a b w = (Inr r, w')"
  shows "ledger w' = charged b (charged a (ledger w))
       \<and> (ci_currency a = BUZZ \<longrightarrow> ci_unitAmount a \<le> balances (ledger w) (userId (ci_data a)))
       \<and> (ci_currency b = BUZZ \<longrightarrow> ci_unitAmount b \<le> balances (ledger w) (userId (ci_data b)))"
  using assms by (auto simp: concurrent_creates_def bindE_eq_Inr check_funds_eq_Inr transaction_eq_Inr
      create_tx_eq_Inr)

lemma charged_balance_from:
  "ci_currency inp = BUZZ \<Longrightarrow> userId (ci_data inp) \<noteq> 0 \<Longrightarrow>
   balances (charged inp l) (userId (ci_data inp)) = balances l (userId (ci_data inp)) - ci_unitAmount inp"
  using createBuzzTransaction_from [of "\<lparr>t_from = userId (ci_data inp), t_to = 0, t_amount = ci_unitAmount inp,
      t_type = Bounty\<rparr>"] by (simp add: charged_def)

lemma tx_faults_absent_Nil [simp]: "tx_faults_absent [] inp s"
  by (simp add: tx_faults_absent_def batch_ok_def)

text \<open>With no failing collaborator, the transaction of a creation always commits.\<close>

lemma transaction_create_tx_Nil:
  "transaction [] (create_tx [] inp) w =
     (Inr (mk_bounty (bounty_seq (db w)) (ci_data inp)),
      w\<lparr>db := created_store inp (db w), ledger := charged inp (ledger w),
        ingest_log := ingest_log w @ map pending_ids (new_batches inp (db w))\<rparr>)"
  by (simp add: transaction_eq_Inr create_tx_eq_Inr)

lemma check_funds_covered:
  "amt \<le> balances (ledger w) uid \<Longrightarrow> check_funds [] uid amt cur w = (Inr (), w)"
  by (simp add: check_funds_eq_Inr)

text \<open>
  C10. The race: when the creator's balance covers each of two BUZZ creations but not
  both, the interleaving in which both balance checks run before either transaction
  commits both bounties and leaves the account overdrawn by the difference, while the
  same two calls run one after the other refuse the second with InsufficientFunds.
\<close>

theorem concurrent_creates_overdraw:
  assumes "ci_currency a = BUZZ" and "ci_currency b = BUZZ"
    and "userId (ci_data a) = u" and "userId (ci_data b) = u" and "u \<noteq> 0"
    and "ci_unitAmount a \<le> balances (ledger w) u" and "ci_unitAmount b \<le> balances (ledger w) u"
    and "balances (ledger w) u < ci_unitAmount a + ci_unitAmount b"
  shows "(\<exists>r w'. concurrent_creates [] a b w = (Inr r, w')
             \<and> balances (ledger w') u = balances (ledger w) u - ci_unitAmount a - ci_unitAmount b
             \<and> balances (ledger w') u < 0)
       \<and> fst (sequential_creates [] a b w) = Inl InsufficientFunds"
proof
  have ca: "balances (charged a l) u = balances l u - ci_unitAmount a" for l
    using charged_balance_from [of a l] assms(1,3,5) by simp
  have cb: "balances (charged b l) u = balances l u - ci_unitAmount b" for l
    using charged_balance_from [of b l] assms(2,4,5) by simp
  let ?w1 = "w\<lparr>db := created_store a (db w), ledger := charged a (ledger w),
               ingest_log := ingest_log w @ map pending_ids (new_batches a (db w))\<rparr>"
  let ?w2 = "?w1\<lparr>db := created_store b (db ?w1), ledger := charged b (ledger ?w1),
               ingest_log := ingest_log ?w1 @ map pending_ids (new_batches b (db ?w1))\<rparr>"
  have "concurrent_creates [] a b w =
      (Inr (mk_bounty (bounty_seq (db w)) (ci_data a), mk_bounty (bounty_seq (db ?w1)) (ci_data b)), ?w2)"
    using assms(3,4,6,7)
    by (simp add: concurrent_creates_def check_funds_covered transaction_create_tx_Nil del: transaction_eq_Inr)
  moreover have "balances (ledger ?w2) u = balances (ledger w) u - ci_unitAmount a - ci_unitAmount b"
    by (simp add: ca cb)
  ultimately show "\<exists>r w'. concurrent_creates [] a b w = (Inr r, w')
             \<and> balances (ledger w') u = balances (ledger w) u - ci_unitAmount a - ci_unitAmount b
             \<and> balances (ledger w') u < 0"
    using assms(8) by auto
next
  let ?w1 = "w\<lparr>db := created_store a (db w), ledger := charged a (ledger w),
               ingest_log := ingest_log w @ map pending_ids (new_batches a (db w))\<rparr>"
  have first: "createBounty [] a w = (Inr (mk_bounty (bounty_seq (db w)) (ci_data a)), ?w1)"
    using assms(3,6) by (simp add: createBounty_def check_funds_covered transaction_create_tx_Nil del: transaction_eq_Inr)
  have "balances (ledger ?w1) u < ci_unitAmount b"
    using charged_balance_from [of a "ledger w"] assms(1,3,5,8) by simp
  then have "createBounty [] b ?w1 = (Inl InsufficientFunds, ?w1)"
    using assms(2,4) by (simp add: createBounty_def check_funds_def getUserBuzzAccount_def bindE_def)
  with first show "fst (sequential_creates [] a b w) = Inl InsufficientFunds"
    by (simp add: sequential_creates_def bindE_def)
qed

theorem concurrent_creates_overdraw_witness:
  "\<exists>r w'. concurrent_creates [] (demo_input 400 0) (demo_input 400 0) (demo_world 500) = (Inr r, w')
      \<and> balances (ledger w') 7 = -300"
proof -
  have h: "ci_currency (demo_input 400 0) = BUZZ" "userId (ci_data (demo_input 400 0)) = 7" "(7::nat) \<noteq> 0"
    "ci_unitAmount (demo_input 400 0) \<le> balances (ledger (demo_world 500)) 7"
    "balances (ledger (demo_world 500)) 7 < ci_unitAmount (demo_input 400 0) + ci_unitAmount (demo_input 400 0)"
    by (simp_all add: demo_defs)
  have v: "balances (ledger (demo_world 500)) 7 - ci_unitAmount (demo_input 400 0) - ci_unitAmount (demo_input 400 0) = -300"
    by (simp add: demo_defs)
  from concurrent_creates_overdraw [OF h(1) h(1) h(2) h(2) h(3) h(4) h(4) h(5)] v show ?thesis by auto
qed

end
