(* ===== verification/Bounty_Edit_Props.thy ===== *)
theory Bounty_Edit_Props
  imports Bounty_Steps
begin

text \<open>
  The properties of \<open>updateBountyById\<close>, \<open>deleteBountyById\<close> and of the reads
  \<open>getBountyById\<close>, \<open>getAllBounties\<close>, \<open>getBountyFiles\<close>, \<open>getBountyImages\<close>.
  An abstract view of the store, the map from ids to bounties that \<open>findUnique\<close> reads,
  states what update and delete promise; the refinement lemmas show the service's writes
  implement it.
\<close>

section \<open>What a successful update or delete writes\<close>

definition updated_store :: "nat \<Rightarrow> bounty_patch \<Rightarrow> file_input list option \<Rightarrow> store \<Rightarrow> store" where
  "updated_store i p fs s =
     (let s1 = snd (bounty_update i p s)
      in case fs of
           None \<Rightarrow> s1
         | Some xs \<Rightarrow> snd (file_createMany (map (\<lambda>f. (i, ''Bounty'', f)) xs) (snd (file_deleteMany i ''Bounty'' s1))))"

definition deleted_store :: "nat \<Rightarrow> store \<Rightarrow> store" where
  "deleted_store i s = snd (file_deleteMany i ''Bounty'' (snd (bounty_delete i s)))"

text \<open>The abstract view: which bounty each id names.\<close>

definition bounty_map :: "store \<Rightarrow> nat \<Rightarrow> bounty option" where
  "bounty_map s = (\<lambda>i. bounty_findUnique i s)"

definition demo_store :: store where
  "demo_store = \<lparr>bounties = [mk_bounty 1 \<lparr>userId = 7, name = ''a'', description = ''d'', startsAt = 0,
       expiresAt = 9, nsfw = False, poi = False\<rparr>,
     mk_bounty 2 \<lparr>userId = 8, name = ''b'', description = ''e'', startsAt = 0, expiresAt = 9,
       nsfw = False, poi = False\<rparr>],
     bounty_seq = 3,
     benefactors = [\<lparr>bf_userId = 7, bf_bountyId = 1, bf_unitAmount = 500, bf_currency = BUZZ\<rparr>,
                    \<lparr>bf_userId = 8, bf_bountyId = 2, bf_unitAmount = 100, bf_currency = USD\<rparr>],
     files = [mk_file 1 1 ''Bounty'' \<lparr>f_name = ''old.pdf'', f_url = ''u1'', f_sizeKB = 3, f_metadata = ''{}''\<rparr>,
              mk_file 2 2 ''Bounty'' \<lparr>f_name = ''other.zip'', f_url = ''u2'', f_sizeKB = 9, f_metadata = ''{}''\<rparr>],
     file_seq = 3,
     images = [\<lparr>imageId = 1, img_url = ''cf'', img_name = ''r'', img_meta = None, img_userId = 7,
                 img_ingestion = Scanned\<rparr>],
     image_seq = 2,
     connections = [\<lparr>c_imageId = 1, c_entityId = 1, c_entityType = ''Bounty''\<rparr>]\<rparr>"

definition demo_edit_world :: world where
  "demo_edit_world = \<lparr>db = demo_store, ledger = \<lparr>balances = (\<lambda>_. 0), transfers = []\<rparr>, ingest_log = []\<rparr>"

definition demo_patch :: bounty_patch where
  "demo_patch = \<lparr>p_name = Some ''renamed'', p_description = None, p_startsAt = None, p_expiresAt = None,
     p_nsfw = None, p_poi = None\<rparr>"

definition demo_new_file :: file_input where
  "demo_new_file = \<lparr>f_name = ''new.pdf'', f_url = ''u3'', f_sizeKB = 4, f_metadata = ''{}''\<rparr>"

lemmas demo_edit_defs = demo_store_def demo_edit_world_def demo_patch_def demo_new_file_def

section \<open>The store after an update or a delete\<close>

lemma bounties_updated_store [simp]:
  "bounties (updated_store i p fs s) = map (\<lambda>b'. if bountyId b' = i then apply_patch p b' else b') (bounties s)"
proof (cases "bounty_findUnique i s")
  case None
  then have "i \<notin> bountyId ` set (bounties s)" by (simp add: bounty_findUnique_None)
  then have "map (\<lambda>b'. if bountyId b' = i then apply_patch p b' else b') (bounties s) = bounties s"
    by (intro map_idI) auto
  with None show ?thesis by (simp add: updated_store_def bounty_update_def file_createMany_def Let_def
      file_deleteMany_def split: option.splits)
next
  case (Some b)
  then show ?thesis by (simp add: updated_store_def bounty_update_def file_createMany_def Let_def
      file_deleteMany_def split: option.splits)
qed

lemma updated_store_fields [simp]:
  "bounty_seq (updated_store i p fs s) = bounty_seq s"
  "benefactors (updated_store i p fs s) = benefactors s"
  "images (updated_store i p fs s) = images s"
  "image_seq (updated_store i p fs s) = image_seq s"
  "connections (updated_store i p fs s) = connections s"
  "files (updated_store i p fs s) = (case fs of None \<Rightarrow> files s
     | Some xs \<Rightarrow> filter (Not \<circ> file_matches i ''Bounty'') (files s) @ new_file_rows (map (\<lambda>f. (i, ''Bounty'', f)) xs) (file_seq s))"
  "file_seq (updated_store i p fs s) = file_seq s + (case fs of None \<Rightarrow> 0 | Some xs \<Rightarrow> length xs)"
  by (simp_all add: updated_store_def bounty_update_def file_createMany_def file_deleteMany_def
      split: option.splits)

lemma deleted_store_fields [simp]:
  "bounty_findUnique i s \<noteq> None \<Longrightarrow> bounties (deleted_store i s) = filter (\<lambda>b'. bountyId b' \<noteq> i) (bounties s)"
  "bounty_findUnique i s \<noteq> None \<Longrightarrow> benefactors (deleted_store i s) = filter (\<lambda>f. bf_bountyId f \<noteq> i) (benefactors s)"
  "bounty_seq (deleted_store i s) = bounty_seq s"
  "images (deleted_store i s) = images s"
  "image_seq (deleted_store i s) = image_seq s"
  "connections (deleted_store i s) = connections s"
  "files (deleted_store i s) = filter (Not \<circ> file_matches i ''Bounty'') (files s)"
  "file_seq (deleted_store i s) = file_seq s"
  by (auto simp: deleted_store_def bounty_delete_def file_deleteMany_def split: option.splits)

lemma new_bounty_rows_match:
  "filter (file_matches i ''Bounty'') (new_file_rows (map (\<lambda>f. (i, ''Bounty'', f)) xs) k) =
   new_file_rows (map (\<lambda>f. (i, ''Bounty'', f)) xs) k"
  by (rule filter_True) (auto simp: file_matches_def dest: new_file_rows_entity)

lemma store_ok_id_below: "store_ok s \<Longrightarrow> i \<in> bountyId ` set (bounties s) \<Longrightarrow> i < bounty_seq s"
  by (auto simp: store_ok_def ids_ok_def)

section \<open>Outcomes\<close>

lemma keeps_update_body:
  "keeps ledger (bindE (dbE' F FBountyUpdate (bounty_update i p)) (\<lambda>b.
     bindE (case fs of None \<Rightarrow> returnE ()
            | Some xs \<Rightarrow> bindE (dbE F FFileDelete (file_deleteMany i ''Bounty'')) (\<lambda>_. create_files F (bountyId b) xs))
     (\<lambda>_. returnE b)))"
  "keeps ingest_log (bindE (dbE' F FBountyUpdate (bounty_update i p)) (\<lambda>b.
     bindE (case fs of None \<Rightarrow> returnE ()
            | Some xs \<Rightarrow> bindE (dbE F FFileDelete (file_deleteMany i ''Bounty'')) (\<lambda>_. create_files F (bountyId b) xs))
     (\<lambda>_. returnE b)))"
  by (intro keeps_intros)+

lemma bounty_update_found:
  "bounty_findUnique i s = Some b0 \<Longrightarrow> bounty_update i p s =
     (Inr (apply_patch p b0), s\<lparr>bounties := map (\<lambda>b'. if bountyId b' = i then apply_patch p b' else b') (bounties s)\<rparr>)"
  by (simp add: bounty_update_def)

lemma updateBountyById_eq_Inr:
  "updateBountyById F i p fs w = (Inr b, w') \<longleftrightarrow>
     FCommit \<notin> set F \<and> FBountyUpdate \<notin> set F \<and> (fs \<noteq> None \<longrightarrow> FFileDelete \<notin> set F \<and> FFileCreate \<notin> set F) \<and>
     (\<exists>b0. bounty_findUnique i (db w) = Some b0 \<and> b = apply_patch p b0) \<and>
     w' = w\<lparr>db := updated_store i p fs (db w)\<rparr>"
  by (auto simp: updateBountyById_def transaction_eq_Inr bindE_eq_Inr step_simps bounty_update_def
      updated_store_def file_deleteMany_def dest: bounty_findUnique_Some split: option.splits if_splits)

lemma deleteBountyById_eq_Inr:
  "deleteBountyById F i w = (Inr b, w') \<longleftrightarrow>
     FCommit \<notin> set F \<and> FBountyDelete \<notin> set F \<and> FFileDelete \<notin> set F \<and>
     bounty_findUnique i (db w) = Some b \<and> w' = w\<lparr>db := deleted_store i (db w)\<rparr>"
  by (auto simp: deleteBountyById_def transaction_eq_Inr bindE_eq_Inr step_simps bounty_delete_def
      deleted_store_def split: option.splits if_splits)

lemma updateBountyById_Inl:
  "updateBountyById F i p fs w = (Inl e, w') \<Longrightarrow> w' = w"
  unfolding updateBountyById_def by (rule transaction_Inl_unchanged [OF keeps_update_body])

lemma deleteBountyById_Inl:
  "deleteBountyById F i w = (Inl e, w') \<Longrightarrow> w' = w"
  unfolding deleteBountyById_def by (erule transaction_Inl_unchanged [rotated 2]) (intro keeps_intros)+

section \<open>The store invariant across an update or a delete\<close>

lemma bountyIds_patched [simp]:
  "map (bountyId \<circ> (\<lambda>b'. if bountyId b' = i then apply_patch p b' else b')) bs = map bountyId bs"
  by (induction bs) auto

lemma bountyIds_set_patched [simp]:
  "(\<lambda>b'. bountyId (if bountyId b' = i then apply_patch p b' else b')) ` A = bountyId ` A"
  by (rule image_cong) simp_all

lemma files_ok_updated:
  assumes ok: "store_ok s"
  shows "ids_ok (map fileId (files (updated_store i p fs s))) (file_seq (updated_store i p fs s))"
proof (cases fs)
  case None
  with ok show ?thesis by (simp add: store_ok_def)
next
  case (Some xs)
  from ok have "ids_ok (map fileId (files s)) (file_seq s)" by (simp add: store_ok_def)
  then have "ids_ok (map fileId (filter (Not \<circ> file_matches i ''Bounty'') (files s))) (file_seq s)"
    by (rule ids_ok_filter)
  from ids_ok_append_upt [OF this, of "length xs"] Some show ?thesis
    by (simp add: fileIds_new_file_rows)
qed

lemma store_ok_updated:
  assumes ok: "store_ok s" and found: "bounty_findUnique i s = Some b0"
  shows "store_ok (updated_store i p fs s)"
proof -
  let ?s' = "updated_store i p fs s"
  have "map bountyId (bounties ?s') = map bountyId (bounties s)" by simp
  then have ids: "bountyId ` set (bounties ?s') = bountyId ` set (bounties s)" by (metis list.set_map)
  from found have i: "i \<in> bountyId ` set (bounties s)"
    by (auto dest: bounty_findUnique_Some)
  have f: "\<forall>f \<in> set (files ?s'). f_entityType f = ''Bounty'' \<longrightarrow> f_entityId f \<in> bountyId ` set (bounties ?s')"
  proof (cases fs)
    case None
    with ok show ?thesis unfolding ids by (simp add: store_ok_def)
  next
    case (Some xs)
    with ok i show ?thesis unfolding ids by (auto simp: store_ok_def dest: new_file_rows_entity)
  qed
  from ok have b: "ids_ok (map bountyId (bounties ?s')) (bounty_seq ?s')"
    and bf: "\<forall>b \<in> set (bounties ?s'). \<exists>f \<in> set (benefactors ?s'). bf_bountyId f = bountyId b"
    and im: "ids_ok (map imageId (images ?s')) (image_seq ?s')"
    and c1: "\<forall>c \<in> set (connections ?s'). c_imageId c \<in> imageId ` set (images ?s')"
    and c2: "\<forall>c \<in> set (connections ?s'). c_entityType c = ''Bounty'' \<longrightarrow> c_entityId c < bounty_seq ?s'"
    by (auto simp: store_ok_def)
  from ok have fk: "\<forall>f \<in> set (benefactors ?s'). bf_bountyId f \<in> bountyId ` set (bounties ?s')"
    unfolding ids by (simp add: store_ok_def)
  show ?thesis
    unfolding store_ok_def using b files_ok_updated [OF ok] im fk bf c1 f c2 by (intro conjI)
qed

lemma store_ok_deleted:
  assumes ok: "store_ok s" and found: "bounty_findUnique i s \<noteq> None"
  shows "store_ok (deleted_store i s)"
proof -
  let ?s' = "deleted_store i s"
  from ok have "ids_ok (map bountyId (bounties s)) (bounty_seq s)" "ids_ok (map fileId (files s)) (file_seq s)"
    by (simp_all add: store_ok_def)
  then have "ids_ok (map bountyId (bounties ?s')) (bounty_seq ?s')" "ids_ok (map fileId (files ?s')) (file_seq ?s')"
    using found by (simp_all add: ids_ok_filter)
  moreover have "\<forall>f \<in> set (benefactors ?s'). bf_bountyId f \<in> bountyId ` set (bounties ?s')"
    using ok found by (fastforce simp: store_ok_def)
  moreover have "\<forall>b \<in> set (bounties ?s'). \<exists>f \<in> set (benefactors ?s'). bf_bountyId f = bountyId b"
    using ok found by (fastforce simp: store_ok_def)
  moreover have "\<forall>f \<in> set (files ?s'). f_entityType f = ''Bounty'' \<longrightarrow> f_entityId f \<in> bountyId ` set (bounties ?s')"
    using ok found by (fastforce simp: store_ok_def file_matches_def)
  ultimately show ?thesis using ok found by (simp add: store_ok_def)
qed

section \<open>Reads\<close>

text \<open>A page requested from an existing id starts at that bounty and goes up in id order.\<close>

lemma getAllBounties_from:
  assumes ok: "store_ok s" and c: "c \<in> bountyId ` set (bounties s)" and lim: "0 < lim"
  shows "\<exists>b. bountyId b = c \<and> getAllBounties (Some c) lim s =
           b # take (lim - 1) (filter (\<lambda>b'. c < bountyId b') (bounties s))"
proof -
  from c obtain b where b: "b \<in> set (bounties s)" "bountyId b = c" by auto
  from ok have sorted: "sorted_wrt (<) (map bountyId (bounties s))" and pos: "0 < c"
    using c by (auto simp: store_ok_def ids_ok_def)
  have "filter (\<lambda>b'. c \<le> bountyId b') (bounties s) = b # filter (\<lambda>b'. c < bountyId b') (bounties s)"
    using filter_from_member [OF sorted b(1)] b(2) by simp
  with c pos lim b(2) show ?thesis
    by (intro exI [of _ b]) (simp add: getAllBounties_def bounty_findMany_def take_Cons')
qed

lemma getAllBounties_in_store: "set (getAllBounties cur lim s) \<subseteq> set (bounties s)"
  by (auto simp: getAllBounties_def bounty_findMany_def split: option.splits if_splits dest: in_set_takeD)

section \<open>Boundary inputs\<close>

text \<open>Line 23: a cursor of 0 is falsy, so it asks for the first page.\<close>

lemma getAllBounties_cursor_zero: "getAllBounties (Some 0) lim s = getAllBounties None lim s"
  by (simp add: getAllBounties_def)

lemma getAllBounties_first_page: "getAllBounties None lim s = take lim (bounties s)"
  by (simp add: getAllBounties_def bounty_findMany_def)

lemma getAllBounties_limit_zero: "getAllBounties cur 0 s = []"
  by (simp add: getAllBounties_def bounty_findMany_def split: option.splits)

text \<open>A cursor that names no bounty (a deleted one, say) gives an empty page, so a client
  paging past a deleted bounty stops.\<close>

lemma getAllBounties_unknown_cursor:
  "c \<noteq> 0 \<Longrightarrow> c \<notin> bountyId ` set (bounties s) \<Longrightarrow> getAllBounties (Some c) lim s = []"
  by (simp add: getAllBounties_def bounty_findMany_def)

text \<open>An empty image list still runs the image block (lines 80--120) but inserts,
  ingests and links nothing.\<close>

lemma fetched_Nil [simp]: "fetched uid [] s = []"
  by (simp add: fetched_def image_findMany_def)

lemma new_image_rows_Nil [simp]: "new_image_rows uid [] k = []"
  by (simp add: new_image_rows_def)

lemma createBounty_no_images:
  assumes "ci_images inp = Some []" and "createBounty F inp w = (Inr b, w')"
  shows "ingest_log w' = ingest_log w \<and> connections (db w') = connections (db w)
       \<and> images (db w') = images (db w)"
proof -
  from assms(2) have w': "w' = w\<lparr>db := created_store inp (db w), ledger := charged inp (ledger w),
      ingest_log := ingest_log w @ map pending_ids (new_batches inp (db w))\<rparr>"
    by (simp add: createBounty_eq_Inr)
  with assms(1) show ?thesis
    by (simp add: new_batches_def created_store_def with_images_def connection_createMany_def
        images_added_def image_createMany_def chunk_Nil with_files_def with_bounty_def file_createMany_def
        split: option.splits)
qed

section \<open>updateBountyById\<close>

text \<open>
  C15. Updating an id that names no bounty fails with the client's RecordNotFound and
  writes nothing. The spec (and the source's \<open>if (!bounty) return null\<close>) expects a
  null result instead; that branch cannot be reached.
\<close>

theorem updateBountyById_missing_record:
  assumes "bounty_findUnique i (db w) = None" and "FBountyUpdate \<notin> set F"
  shows "updateBountyById F i p fs w = (Inl RecordNotFound, w)"
  using assms by (simp add: updateBountyById_def transaction_def step_simps bounty_update_def)

theorem updateBountyById_missing_record_witness:
  "bounty_findUnique 5 (db demo_edit_world) = None \<and> FBountyUpdate \<notin> set [] \<and>
   updateBountyById [] 5 demo_patch None demo_edit_world = (Inl RecordNotFound, demo_edit_world)"
proof -
  have h: "bounty_findUnique 5 (db demo_edit_world) = None" "FBountyUpdate \<notin> set []"
    by (simp_all add: demo_edit_defs bounty_findUnique_def)
  from updateBountyById_missing_record [OF h] h show ?thesis by simp
qed

text \<open>
  C16. An update with a file list replaces the bounty's files wholesale: afterwards
  \<open>getBountyFiles\<close> returns exactly the new files, in the order given.
\<close>

theorem updateBountyById_replaces_files:
  assumes "updateBountyById F i p (Some xs) w = (Inr b, w')"
  shows "map (\<lambda>v. (fv_name v, fv_url v, fv_sizeKB v, fv_metadata v)) (getBountyFiles i (db w')) =
         map (\<lambda>f. (f_name f, f_url f, f_sizeKB f, f_metadata f)) xs"
proof -
  from assms have w': "db w' = updated_store i p (Some xs) (db w)"
    by (simp add: updateBountyById_eq_Inr)
  have "file_findMany i ''Bounty'' (db w') = new_file_rows (map (\<lambda>f. (i, ''Bounty'', f)) xs) (file_seq (db w))"
    by (simp add: w' file_findMany_def new_bounty_rows_match)
  then show ?thesis
    by (simp add: getBountyFiles_def view_file_def comp_def new_file_rows_contents [simplified comp_def])
qed

theorem updateBountyById_replaces_files_witness:
  "map (\<lambda>v. (fv_name v, fv_url v, fv_sizeKB v, fv_metadata v))
     (getBountyFiles 1 (db (snd (updateBountyById [] 1 demo_patch (Some [demo_new_file]) demo_edit_world)))) =
   [(''new.pdf'', ''u3'', 4, ''{}'')]"
proof -
  let ?r = "updateBountyById [] 1 demo_patch (Some [demo_new_file]) demo_edit_world"
  have "fst ?r = Inr (apply_patch demo_patch (hd (bounties demo_store)))" by code_simp
  then have r: "?r = (Inr (apply_patch demo_patch (hd (bounties demo_store))), snd ?r)" by (simp add: prod_eq_iff)
  from updateBountyById_replaces_files [OF r] show ?thesis by (simp add: demo_edit_defs)
qed

text \<open>
  C17. Refinement: on the abstract map from ids to bounties, a successful update is the
  map update at the id, with the patched row.
\<close>

theorem updateBountyById_refines_map:
  assumes "updateBountyById F i p fs w = (Inr b, w')"
  shows "bounty_map (db w') = (bounty_map (db w))(i := Some b)"
proof -
  from assms obtain b0 where found: "bounty_findUnique i (db w) = Some b0" and b: "b = apply_patch p b0"
    and w': "db w' = updated_store i p fs (db w)"
    by (auto simp: updateBountyById_eq_Inr)
  let ?f = "\<lambda>b'. if bountyId b' = i then apply_patch p b' else b'"
  have "bounty_findUnique j (db w') = map_option ?f (bounty_findUnique j (db w))" for j
    by (simp add: w' bounty_findUnique_def find_map_same_key)
  moreover have "map_option ?f (bounty_findUnique j (db w)) = bounty_findUnique j (db w)" if "j \<noteq> i" for j
    using that by (cases "bounty_findUnique j (db w)") (auto dest: bounty_findUnique_Some)
  ultimately show ?thesis
    using found b by (auto simp: bounty_map_def fun_eq_iff dest: bounty_findUnique_Some)
qed

theorem updateBountyById_refines_map_witness:
  "bounty_map (db (snd (updateBountyById [] 1 demo_patch None demo_edit_world))) =
   (bounty_map demo_store)(1 := Some (apply_patch demo_patch (hd (bounties demo_store))))"
proof -
  let ?r = "updateBountyById [] 1 demo_patch None demo_edit_world"
  have "fst ?r = Inr (apply_patch demo_patch (hd (bounties demo_store)))" by code_simp
  then have r: "?r = (Inr (apply_patch demo_patch (hd (bounties demo_store))), snd ?r)" by (simp add: prod_eq_iff)
  from updateBountyById_refines_map [OF r] show ?thesis by (simp add: demo_edit_world_def)
qed

text \<open>
  C18. A successful update writes only the bounty row and that bounty's files: the other
  entities' files, the benefactors, images, links, the ledger and the ingestion log are
  unchanged.
\<close>

theorem updateBountyById_frame:
  assumes "updateBountyById F i p fs w = (Inr b, w')"
  shows "filter (Not \<circ> file_matches i ''Bounty'') (files (db w')) = filter (Not \<circ> file_matches i ''Bounty'') (files (db w))
       \<and> benefactors (db w') = benefactors (db w) \<and> images (db w') = images (db w)
       \<and> connections (db w') = connections (db w) \<and> ledger w' = ledger w \<and> ingest_log w' = ingest_log w"
proof -
  from assms have w': "w' = w\<lparr>db := updated_store i p fs (db w)\<rparr>"
    by (simp add: updateBountyById_eq_Inr)
  have "filter (Not \<circ> file_matches i ''Bounty'') (new_file_rows (map (\<lambda>f. (i, ''Bounty'', f)) xs) k) = []" for xs k
    by (auto simp: filter_empty_conv file_matches_def dest: new_file_rows_entity)
  then show ?thesis by (simp add: w' comp_def split: option.splits)
qed

theorem updateBountyById_frame_witness:
  "filter (Not \<circ> file_matches 1 ''Bounty'')
     (files (db (snd (updateBountyById [] 1 demo_patch (Some [demo_new_file]) demo_edit_world)))) =
   filter (Not \<circ> file_matches 1 ''Bounty'') (files demo_store)
   \<and> connections (db (snd (updateBountyById [] 1 demo_patch (Some [demo_new_file]) demo_edit_world))) =
       connections demo_store"
proof -
  let ?r = "updateBountyById [] 1 demo_patch (Some [demo_new_file]) demo_edit_world"
  have "fst ?r = Inr (apply_patch demo_patch (hd (bounties demo_store)))" by code_simp
  then have r: "?r = (Inr (apply_patch demo_patch (hd (bounties demo_store))), snd ?r)" by (simp add: prod_eq_iff)
  from updateBountyById_frame [OF r] show ?thesis by (simp add: demo_edit_world_def)
qed

text \<open>
  C19. A failed update changes nothing: the transaction rolls the store back and the
  update has no effect outside the store.
\<close>

theorem updateBountyById_failure_no_effect:
  assumes "updateBountyById F i p fs w = (Inl e, w')"
  shows "w' = w \<and> (e = RecordNotFound \<or> e \<in> Fault ` {FBountyUpdate, FFileDelete, FFileCreate, FCommit})"
proof
  from assms show "w' = w" by (rule updateBountyById_Inl)
  from assms show "e = RecordNotFound \<or> e \<in> Fault ` {FBountyUpdate, FFileDelete, FFileCreate, FCommit}"
    by (auto simp: updateBountyById_def transaction_def bindE_def step_simps bounty_update_def create_files_def
        dbE_def split: prod.splits sum.splits option.splits if_splits)
qed

theorem updateBountyById_failure_no_effect_witness:
  "snd (updateBountyById [FFileCreate] 1 demo_patch (Some [demo_new_file]) demo_edit_world) = demo_edit_world"
proof -
  let ?r = "updateBountyById [FFileCreate] 1 demo_patch (Some [demo_new_file]) demo_edit_world"
  have "fst ?r = Inl (Fault FFileCreate)" by code_simp
  then have r: "?r = (Inl (Fault FFileCreate), snd ?r)" by (simp add: prod_eq_iff)
  from updateBountyById_failure_no_effect [OF r] show ?thesis by simp
qed

text \<open>Updates keep the store well formed, on every outcome.\<close>

lemma updateBountyById_preserves_store_ok:
  assumes "store_ok (db w)"
  shows "store_ok (db (snd (updateBountyById F i p fs w)))"
proof -
  obtain r w' where run: "updateBountyById F i p fs w = (r, w')" by (cases "updateBountyById F i p fs w")
  show ?thesis
  proof (cases r)
    case (Inl e)
    with run updateBountyById_Inl [of F i p fs w e w'] assms show ?thesis by simp
  next
    case (Inr b)
    with run obtain b0 where "bounty_findUnique i (db w) = Some b0" and "db w' = updated_store i p fs (db w)"
      by (auto simp: updateBountyById_eq_Inr)
    with run assms show ?thesis by (simp add: store_ok_updated)
  qed
qed

section \<open>deleteBountyById\<close>

text \<open>
  C21. Refinement: on the abstract map from ids to bounties a successful delete removes
  the id; it returns the deleted row, and the bounty's files are gone.
\<close>

theorem deleteBountyById_refines_map:
  assumes "deleteBountyById F i w = (Inr b, w')"
  shows "bounty_map (db w') = (bounty_map (db w))(i := None) \<and> bountyId b = i \<and> getBountyFiles i (db w') = []"
proof -
  from assms have found: "bounty_findUnique i (db w) = Some b" and w': "db w' = deleted_store i (db w)"
    by (auto simp: deleteBountyById_eq_Inr)
  then have "bounty_findUnique j (db w') = (if j = i then None else bounty_findUnique j (db w))" for j
    by (auto simp: bounty_findUnique_def find_filter find_None_iff intro: arg_cong2 [where f = find])
  moreover have "getBountyFiles i (db w') = []"
    by (simp add: w' getBountyFiles_def file_findMany_def comp_def)
  ultimately show ?thesis
    using found by (auto simp: bounty_map_def fun_eq_iff dest: bounty_findUnique_Some)
qed

theorem deleteBountyById_refines_map_witness:
  "bounty_map (db (snd (deleteBountyById [] 1 demo_edit_world))) = (bounty_map demo_store)(1 := None)
   \<and> getBountyFiles 1 (db (snd (deleteBountyById [] 1 demo_edit_world))) = []"
proof -
  let ?r = "deleteBountyById [] 1 demo_edit_world"
  have "fst ?r = Inr (hd (bounties demo_store))" by code_simp
  then have r: "?r = (Inr (hd (bounties demo_store)), snd ?r)" by (simp add: prod_eq_iff)
  from deleteBountyById_refines_map [OF r] show ?thesis by (simp add: demo_edit_world_def)
qed

text \<open>
  C22. Deleting an id that names no bounty fails with RecordNotFound and writes nothing;
  the spec expects a null result (the source's check on line 169 cannot fire).
\<close>

theorem deleteBountyById_missing_record:
  assumes "bounty_findUnique i (db w) = None" and "FBountyDelete \<notin> set F"
  shows "deleteBountyById F i w = (Inl RecordNotFound, w)"
  using assms by (simp add: deleteBountyById_def transaction_def step_simps bounty_delete_def)

theorem deleteBountyById_missing_record_witness:
  "bounty_findUnique 5 (db demo_edit_world) = None \<and> FBountyDelete \<notin> set [] \<and>
   deleteBountyById [] 5 demo_edit_world = (Inl RecordNotFound, demo_edit_world)"
proof -
  have h: "bounty_findUnique 5 (db demo_edit_world) = None" "FBountyDelete \<notin> set []"
    by (simp_all add: demo_edit_defs bounty_findUnique_def)
  from deleteBountyById_missing_record [OF h] h show ?thesis by simp
qed

text \<open>
  C23. Deleting a bounty leaves its image links: the ImageConnection rows are not removed,
  so \<open>getBountyImages\<close> of the deleted id still returns its images.
\<close>

theorem deleteBountyById_keeps_image_links:
  assumes "deleteBountyById F i w = (Inr b, w')"
  shows "bounty_findUnique i (db w') = None \<and> connections (db w') = connections (db w)
       \<and> getBountyImages i (db w') = getBountyImages i (db w)"
proof -
  from assms have w': "db w' = deleted_store i (db w)" and found: "bounty_findUnique i (db w) = Some b"
    by (auto simp: deleteBountyById_eq_Inr)
  then have "bounty_findUnique i (db w') = None"
    by (simp add: bounty_findUnique_def find_filter find_None_iff)
  with w' show ?thesis by (simp add: getBountyImages_def connection_images_def)
qed

theorem deleteBountyById_keeps_image_links_witness:
  "bounty_findUnique 1 (db (snd (deleteBountyById [] 1 demo_edit_world))) = None
   \<and> getBountyImages 1 (db (snd (deleteBountyById [] 1 demo_edit_world))) = images demo_store"
proof -
  let ?r = "deleteBountyById [] 1 demo_edit_world"
  have "fst ?r = Inr (hd (bounties demo_store))" by code_simp
  then have r: "?r = (Inr (hd (bounties demo_store)), snd ?r)" by (simp add: prod_eq_iff)
  have "getBountyImages 1 demo_store = images demo_store" by code_simp
  with deleteBountyById_keeps_image_links [OF r] show ?thesis by (simp add: demo_edit_world_def)
qed

text \<open>Deletes keep the store well formed, on every outcome: the cascade removes the
  bounty's pledges with it.\<close>

lemma deleteBountyById_preserves_store_ok:
  assumes "store_ok (db w)"
  shows "store_ok (db (snd (deleteBountyById F i w)))"
proof -
  obtain r w' where run: "deleteBountyById F i w = (r, w')" by (cases "deleteBountyById F i w")
  show ?thesis
  proof (cases r)
    case (Inl e)
    with run deleteBountyById_Inl [of F i w e w'] assms show ?thesis by simp
  next
    case (Inr b)
    with run have "bounty_findUnique i (db w) = Some b" and "db w' = deleted_store i (db w)"
      by (auto simp: deleteBountyById_eq_Inr)
    with run assms show ?thesis by (simp add: store_ok_deleted)
  qed
qed

text \<open>\<open>getBountyById\<close> fails with NotFound exactly when no bounty has the id.\<close>

lemma getBountyById_not_found:
  "getBountyById i s = Inl NotFound \<longleftrightarrow> i \<notin> bountyId ` set (bounties s)"
  by (simp add: getBountyById_def bounty_findUnique_None [symmetric] split: option.splits)

lemma getBountyById_found:
  assumes "getBountyById i s = Inr (b, fs)"
  shows "b \<in> set (bounties s) \<and> bountyId b = i \<and> fs = file_findMany i ''Bounty'' s"
  using assms by (auto simp: getBountyById_def getFilesByEntity_def split: option.splits
      dest: bounty_findUnique_Some)

lemma getBountyById_cases: "getBountyById i s = Inl NotFound \<or> (\<exists>r. getBountyById i s = Inr r)"
  by (simp add: getBountyById_def split: option.splits)

text \<open>
  C25. \<open>getBountyById\<close> either fails with NotFound, exactly when no bounty has the id, or
  returns the stored row with that id together with its current files; it has no other
  outcome.
\<close>

theorem getBountyById_spec:
  "(getBountyById i s = Inl NotFound \<longleftrightarrow> i \<notin> bountyId ` set (bounties s))
   \<and> (\<forall>b fs. getBountyById i s = Inr (b, fs) \<longrightarrow>
          b \<in> set (bounties s) \<and> bountyId b = i \<and> fs = file_findMany i ''Bounty'' s)
   \<and> (getBountyById i s = Inl NotFound \<or> (\<exists>r. getBountyById i s = Inr r))"
proof -
  have a: "getBountyById i s = Inl NotFound \<longleftrightarrow> i \<notin> bountyId ` set (bounties s)"
    by (rule getBountyById_not_found)
  have b: "\<forall>b fs. getBountyById i s = Inr (b, fs) \<longrightarrow>
            b \<in> set (bounties s) \<and> bountyId b = i \<and> fs = file_findMany i ''Bounty'' s"
    by (intro allI impI) (rule getBountyById_found)
  have c: "getBountyById i s = Inl NotFound \<or> (\<exists>r. getBountyById i s = Inr r)"
    by (rule getBountyById_cases)
  from a b c show ?thesis by (intro conjI)
qed

theorem getBountyById_spec_witness:
  "getBountyById 2 demo_store = Inr (hd (tl (bounties demo_store)), [hd (tl (files demo_store))])
   \<and> hd (tl (bounties demo_store)) \<in> set (bounties demo_store)
   \<and> getBountyById 5 demo_store = Inl NotFound"
proof -
  have r: "getBountyById 2 demo_store = Inr (hd (tl (bounties demo_store)), [hd (tl (files demo_store))])"
    by code_simp
  have "5 \<notin> bountyId ` set (bounties demo_store)" by (simp add: demo_edit_defs)
  moreover have "getBountyById 5 demo_store = Inl NotFound \<longleftrightarrow> 5 \<notin> bountyId ` set (bounties demo_store)"
    by (rule conjunct1 [OF getBountyById_spec [of 5 demo_store]])
  moreover have "\<forall>b fs. getBountyById 2 demo_store = Inr (b, fs) \<longrightarrow>
      b \<in> set (bounties demo_store) \<and> bountyId b = 2 \<and> fs = file_findMany 2 ''Bounty'' demo_store"
    by (rule conjunct1 [OF conjunct2 [OF getBountyById_spec [of 2 demo_store]]])
  ultimately show ?thesis using r by simp
qed

text \<open>
  C27. Cursor pagination includes the cursor's own row: a page requested from an existing
  id starts with that bounty, then the ones with larger ids, at most \<open>limit\<close> in all.
  The spec says a page holds the ids strictly greater than the cursor.
\<close>

theorem getAllBounties_cursor_inclusive:
  assumes "store_ok s" and "c \<in> bountyId ` set (bounties s)" and "0 < lim"
  shows "getAllBounties (Some c) lim s \<noteq> [] \<and> bountyId (hd (getAllBounties (Some c) lim s)) = c
       \<and> length (getAllBounties (Some c) lim s) \<le> lim
       \<and> (\<forall>b \<in> set (getAllBounties (Some c) lim s). c \<le> bountyId b)"
proof -
  from getAllBounties_from [OF assms] obtain b where "bountyId b = c"
    and eq: "getAllBounties (Some c) lim s = b # take (lim - 1) (filter (\<lambda>b'. c < bountyId b') (bounties s))"
    by blast
  with assms(3) show ?thesis by (auto dest: in_set_takeD)
qed

theorem getAllBounties_cursor_inclusive_witness:
  "store_ok demo_store \<and> (2::nat) \<in> bountyId ` set (bounties demo_store) \<and> 0 < (5::nat) \<and>
   bountyId (hd (getAllBounties (Some 2) 5 demo_store)) = 2"
proof -
  have h: "store_ok demo_store" "(2::nat) \<in> bountyId ` set (bounties demo_store)" "0 < (5::nat)"
    by (simp_all add: demo_edit_defs store_ok_def ids_ok_def mk_bounty_def mk_file_def)
  from getAllBounties_cursor_inclusive [OF h] h show ?thesis by simp
qed

end
