(* ===== verification/Bounty_Service.thy ===== *)
theory Bounty_Service
  imports Bounty_Props Bounty_Edit_Props
begin

text \<open>
  The bounty service (\<open>src/src/server/services/bounty.service.ts\<close>) as a whole: its
  state-changing entry points \<open>createBounty\<close>, \<open>updateBountyById\<close> and
  \<open>deleteBountyById\<close> called one after another, each with any collaborator failing,
  as a step relation on the world; and a creation read back through \<open>getBountyById\<close>.
  The reads change nothing and are not steps.
\<close>

inductive svc_step :: "world \<Rightarrow> world \<Rightarrow> bool" where
  create: "svc_step w (snd (createBounty F inp w))"
| update: "svc_step w (snd (updateBountyById F i p fs w))"
| delete: "svc_step w (snd (deleteBountyById F i w))"

inductive_cases svc_stepE: "svc_step w w'"

section \<open>Reading a creation back\<close>

text \<open>The new bounty's id is not in use, and no file is tagged with it yet.\<close>

lemma findUnique_created:
  assumes "store_ok s"
  shows "bounty_findUnique (bounty_seq s) (created_store inp s) = Some (mk_bounty (bounty_seq s) (ci_data inp))"
proof -
  have "bounty_seq s \<notin> bountyId ` set (bounties s)"
    using store_ok_id_below [OF assms] by blast
  then have "find (\<lambda>b. bountyId b = bounty_seq s) (bounties s) = None"
    by (auto simp: find_None_iff image_iff)
  then show ?thesis by (simp add: bounty_findUnique_def)
qed

lemma files_created:
  assumes "store_ok s"
  shows "file_findMany (bounty_seq s) ''Bounty'' (created_store inp s) =
     (case ci_files inp of None \<Rightarrow> [] | Some fs \<Rightarrow> new_file_rows (map (\<lambda>f. (bounty_seq s, ''Bounty'', f)) fs) (file_seq s))"
proof -
  have "filter (file_matches (bounty_seq s) ''Bounty'') (files s) = []"
    using assms store_ok_id_below [OF assms] by (fastforce simp: filter_empty_conv store_ok_def file_matches_def)
  then show ?thesis
    by (simp add: file_findMany_def new_bounty_rows_match split: option.splits)
qed

lemma svc_step_store_ok:
  assumes "svc_step w w'" and "store_ok (db w)"
  shows "store_ok (db w')"
  using assms(1)
proof (cases rule: svc_step.cases)
  case (create F inp)
  with assms(2) show ?thesis by (simp add: createBounty_store_ok)
next
  case (update F i p fs)
  with assms(2) show ?thesis by (simp add: updateBountyById_preserves_store_ok)
next
  case (delete F i)
  with assms(2) show ?thesis by (simp add: deleteBountyById_preserves_store_ok)
qed

section \<open>Properties\<close>

text \<open>
  C13. A creation reads back: after \<open>createBounty\<close> returns a bounty, \<open>getBountyById\<close>
  of its id returns that same row together with exactly the submitted files (name,
  url, size and metadata, in order), and no file of any other entity.
\<close>

theorem createBounty_then_getBountyById:
  assumes "store_ok (db w)" and "createBounty F inp w = (Inr b, w')"
  shows "\<exists>fs. getBountyById (bountyId b) (db w') = Inr (b, fs)
           \<and> map (\<lambda>f. (f_name f, f_url f, f_sizeKB f, f_metadata f)) fs =
             map (\<lambda>f. (f_name f, f_url f, f_sizeKB f, f_metadata f)) (case ci_files inp of None \<Rightarrow> [] | Some xs \<Rightarrow> xs)"
proof -
  from assms(2) have b: "b = mk_bounty (bounty_seq (db w)) (ci_data inp)"
    and s: "db w' = created_store inp (db w)"
    by (simp_all add: createBounty_eq_Inr)
  let ?fs = "file_findMany (bounty_seq (db w)) ''Bounty'' (created_store inp (db w))"
  have "getBountyById (bountyId b) (db w') = Inr (b, ?fs)"
    using findUnique_created [OF assms(1)] by (simp add: b s getBountyById_def getFilesByEntity_def)
  moreover have "map (\<lambda>f. (f_name f, f_url f, f_sizeKB f, f_metadata f)) ?fs =
      map (\<lambda>f. (f_name f, f_url f, f_sizeKB f, f_metadata f)) (case ci_files inp of None \<Rightarrow> [] | Some xs \<Rightarrow> xs)"
    by (simp add: files_created [OF assms(1)] new_file_rows_contents split: option.splits)
  ultimately show ?thesis by blast
qed

theorem createBounty_then_getBountyById_witness:
  "\<exists>b w' fs. createBounty [] (demo_input 0 0) demo_edit_world = (Inr b, w')
      \<and> getBountyById (bountyId b) (db w') = Inr (b, fs) \<and> map f_name fs = [''brief.pdf'']"
proof -
  let ?r = "createBounty [] (demo_input 0 0) demo_edit_world"
  have ok: "store_ok (db demo_edit_world)"
    by (simp add: demo_edit_defs store_ok_def ids_ok_def mk_bounty_def mk_file_def)
  have "(case fst ?r of Inr _ \<Rightarrow> True | Inl _ \<Rightarrow> False)" by code_simp
  then obtain b where "fst ?r = Inr b" by (cases "fst ?r") auto
  then obtain w' where run: "?r = (Inr b, w')" by (cases ?r) auto
  from createBounty_then_getBountyById [OF ok run] obtain fs
    where g: "getBountyById (bountyId b) (db w') = Inr (b, fs)"
      and m: "map (\<lambda>f. (f_name f, f_url f, f_sizeKB f, f_metadata f)) fs =
              map (\<lambda>f. (f_name f, f_url f, f_sizeKB f, f_metadata f)) (case ci_files (demo_input 0 0) of None \<Rightarrow> [] | Some xs \<Rightarrow> xs)"
    by blast
  from arg_cong [where f = "map fst", OF m] have n: "map f_name fs = [''brief.pdf'']"
    by (simp add: comp_def demo_defs)
  show ?thesis
  proof (intro exI conjI)
    show "createBounty [] (demo_input 0 0) demo_edit_world = (Inr b, w')" by (rule run)
    show "getBountyById (bountyId b) (db w') = Inr (b, fs)" by (rule g)
    show "map f_name fs = [''brief.pdf'']" by (rule n)
  qed
qed

text \<open>
  C24. The store invariant holds in every world the service can reach: from a well-formed
  store, any sequence of creations, updates and deletions, each of them succeeding or
  failing at any collaborator, keeps every bounty pledged, every benefactor row and
  every Bounty-tagged file attached to an existing bounty, and the ids ascending.
\<close>

theorem service_reachable_store_ok:
  assumes "svc_step\<^sup>*\<^sup>* w0 w" and "store_ok (db w0)"
  shows "store_ok (db w)"
  using assms by (induction rule: rtranclp_induct) (auto intro: svc_step_store_ok)

theorem service_reachable_store_ok_witness:
  "store_ok (db (snd (deleteBountyById [] 1 (snd (updateBountyById [] 2 demo_patch (Some [demo_new_file])
      (snd (createBounty [] (demo_input 0 1) demo_edit_world)))))))"
proof -
  let ?w1 = "snd (createBounty [] (demo_input 0 1) demo_edit_world)"
  let ?w2 = "snd (updateBountyById [] 2 demo_patch (Some [demo_new_file]) ?w1)"
  have ok: "store_ok (db demo_edit_world)"
    by (simp add: demo_edit_defs store_ok_def ids_ok_def mk_bounty_def mk_file_def)
  have s1: "svc_step demo_edit_world ?w1" by (rule svc_step.create)
  have s2: "svc_step ?w1 ?w2" by (rule svc_step.update)
  have s3: "svc_step ?w2 (snd (deleteBountyById [] 1 ?w2))" by (rule svc_step.delete)
  have "svc_step\<^sup>*\<^sup>* demo_edit_world (snd (deleteBountyById [] 1 ?w2))"
    using converse_rtranclp_into_rtranclp [OF s1 converse_rtranclp_into_rtranclp [OF s2 r_into_rtranclp [where r = svc_step, OF s3]]] .
  from service_reachable_store_ok [OF this ok] show ?thesis .
qed

end
