(* ===== verification/BountyForm.thy ===== *)
theory BountyForm
  imports Complex_Main Bounty_Steps
begin

text \<open>
  The bounty creation form, \<open>src/src/components/Bounty/BountyCreateForm.tsx\<close>: its values
  (the \<open>react-hook-form\<close> state), the schema refinement, the type selector's handler, the
  Save button, and \<open>handleSubmit\<close>, which calls the service's \<open>createBounty\<close>
  (\<open>Bounty.createBounty\<close>) through the \<open>createBounty\<close> mutation and then navigates.
  Dates are the numbers the service stores. The Prisma enums are datatypes with the
  constructors of \<open>@prisma/client\<close>. \<open>useBuzzTransaction\<close> is not under \<open>src/\<close>; its
  \<open>conditionalPerformTransaction\<close> is modelled from its contract: below the amount it
  opens the buy-Buzz prompt instead of running the callback. What the form shows, the
  uploads and the stored draft are in \<open>BountyForm_View\<close>.
\<close>

datatype bounty_type =
    ModelCreation | LoraCreation | EmbedCreation | DataSetCreation | DataSetCaption
  | ImageCreation | VideoCreation | Other

datatype bounty_mode = Individual | Split

datatype entry_mode = Open | BenefactorsOnly

record details =
  d_baseModel :: "string option"
  d_modelFormat :: "string option"
  d_modelSize :: "string option"

record form_values =
  fm_name :: string
  fm_description :: string
  fm_tags :: "string list"
  fm_unitAmount :: int
  fm_nsfw :: bool
  fm_poi :: "bool option"
  fm_currency :: currency
  fm_type :: bounty_type
  fm_mode :: bounty_mode
  fm_entryMode :: entry_mode
  fm_minBenefactorUnitAmount :: int
  fm_entryLimit :: nat
  fm_files :: "file_input list"
  fm_startsAt :: nat
  fm_expiresAt :: nat
  fm_details :: "details option"

text \<open>An entry of \<open>useCFImageUpload\<close>'s \<open>files\<close>.\<close>

record upload =
  up_id :: string
  up_url :: string
  up_status :: string
  up_name :: string
  up_meta :: "string option"
  up_type :: string
  up_progress :: rat

section \<open>Form state\<close>

text \<open>Lines 167--187, for the minimum amount of \<open>constants.bounties\<close>, the current date and
  the end of the day a week ahead. \<open>poi\<close> has no default.\<close>

definition default_values :: "int \<Rightarrow> nat \<Rightarrow> nat \<Rightarrow> form_values" where
  "default_values minAmt now weekEnd =
     \<lparr>fm_name = [], fm_description = [], fm_tags = [], fm_unitAmount = minAmt, fm_nsfw = False,
      fm_poi = None, fm_currency = BUZZ, fm_type = LoraCreation, fm_mode = Individual,
      fm_entryMode = BenefactorsOnly, fm_minBenefactorUnitAmount = minAmt, fm_entryLimit = 1,
      fm_files = [], fm_startsAt = now, fm_expiresAt = weekEnd,
      fm_details = Some \<lparr>d_baseModel = Some ''SD 1.5'', d_modelFormat = None, d_modelSize = None\<rparr>\<rparr>"

text \<open>Lines 88--94: the refinement added to the input schema.\<close>

definition formRefine :: "form_values \<Rightarrow> bool" where
  "formRefine v \<longleftrightarrow> \<not> (fm_nsfw v \<and> fm_poi v = Some True)"

text \<open>Lines 213--217.\<close>

definition requireBaseModelSelection :: "bounty_type \<Rightarrow> bool" where
  "requireBaseModelSelection t = list_ex (\<lambda>x. x = t) [ModelCreation, LoraCreation, EmbedCreation]"

text \<open>\<open>form.setValue('details.k', x)\<close> creates the details object when it is undefined.\<close>

definition upd_details :: "(details \<Rightarrow> details) \<Rightarrow> details option \<Rightarrow> details option" where
  "upd_details f d =
     Some (f (case d of None \<Rightarrow> \<lparr>d_baseModel = None, d_modelFormat = None, d_modelSize = None\<rparr> | Some x \<Rightarrow> x))"

text \<open>Lines 290--307: the select stores the type, then the handler resets the details.\<close>

definition on_type_change :: "bounty_type \<Rightarrow> form_values \<Rightarrow> form_values" where
  "on_type_change t v =
     (let v' = v\<lparr>fm_type := t\<rparr> in
      case t of
        ModelCreation \<Rightarrow>
          v'\<lparr>fm_details := upd_details (\<lambda>d. d\<lparr>d_modelSize := Some ''full''\<rparr>)
                           (upd_details (\<lambda>d. d\<lparr>d_modelFormat := Some ''SafeTensor''\<rparr>)
                             (upd_details (\<lambda>d. d\<lparr>d_baseModel := Some ''SD 1.5''\<rparr>) (fm_details v')))\<rparr>
      | LoraCreation \<Rightarrow>
          v'\<lparr>fm_details := upd_details (\<lambda>d. d\<lparr>d_modelSize := None\<rparr>)
                           (upd_details (\<lambda>d. d\<lparr>d_modelFormat := None\<rparr>)
                             (upd_details (\<lambda>d. d\<lparr>d_baseModel := Some ''SD 1.5''\<rparr>) (fm_details v')))\<rparr>
      | EmbedCreation \<Rightarrow>
          v'\<lparr>fm_details := upd_details (\<lambda>d. d\<lparr>d_modelSize := None\<rparr>)
                           (upd_details (\<lambda>d. d\<lparr>d_modelFormat := None\<rparr>)
                             (upd_details (\<lambda>d. d\<lparr>d_baseModel := Some ''SD 1.5''\<rparr>) (fm_details v')))\<rparr>
      | _ \<Rightarrow> v'\<lparr>fm_details := None\<rparr>)"

text \<open>Line 260: \<open>[nsfw, poi].every((item) => !!item)\<close>.\<close>

definition hasPoiInNsfw :: "form_values \<Rightarrow> bool" where
  "hasPoiInNsfw v = list_all (\<lambda>x. x = Some True) [Some (fm_nsfw v), fm_poi v]"

datatype save_button =
    BuzzTransactionButton (sb_loading: bool) (sb_disabled: bool) (sb_label: string) (sb_buzzAmount: int) (sb_color: string)
  | SaveButton (sb_loading: bool) (sb_disabled: bool) (sb_label: string)

text \<open>Lines 614--627, for the mutation's \<open>creating\<close> flag.\<close>

definition save_button :: "form_values \<Rightarrow> bool \<Rightarrow> save_button" where
  "save_button v creating =
     (if fm_currency v = BUZZ
      then BuzzTransactionButton creating (hasPoiInNsfw v) ''Save'' (fm_unitAmount v) ''yellow.7''
      else SaveButton creating (hasPoiInNsfw v) ''Save'')"

section \<open>Submission\<close>

text \<open>Lines 239--241: the uploads that finished, with the Cloudflare id as url.\<close>

definition filteredImages :: "upload list \<Rightarrow> image_input list" where
  "filteredImages ups =
     map (\<lambda>u. \<lparr>i_url = up_id u, i_name = up_name u, i_meta = up_meta u, i_resources = []\<rparr>)
       (filter (\<lambda>u. up_status u = ''success'') ups)"

text \<open>The mutation's input as the service receives it, the user id taken from the session.\<close>

definition form_input :: "nat \<Rightarrow> form_values \<Rightarrow> image_input list \<Rightarrow> create_input" where
  "form_input uid v imgs =
     \<lparr>ci_data = \<lparr>userId = uid, name = fm_name v, description = fm_description v, startsAt = fm_startsAt v,
                  expiresAt = fm_expiresAt v, nsfw = fm_nsfw v, poi = (fm_poi v = Some True)\<rparr>,
      ci_unitAmount = fm_unitAmount v, ci_currency = fm_currency v, ci_files = Some (fm_files v),
      ci_images = Some imgs, ci_tags = Some (fm_tags v)\<rparr>"

datatype ui_effect = Navigate string | ClearStorage | BuyBuzzPrompt int

text \<open>Lines 243--251: create, then navigate to the bounty and clear the saved draft; a
  rejected call is swallowed (the mutation's own handler shows the error).\<close>

definition performTransaction ::
  "fault_point list \<Rightarrow> nat \<Rightarrow> form_values \<Rightarrow> image_input list \<Rightarrow> world \<Rightarrow> ui_effect list \<times> world" where
  "performTransaction F uid v imgs w =
     (case createBounty F (form_input uid v imgs) w of
        (Inr b, w') \<Rightarrow> ([Navigate (''/bounties/'' @ nat_to_string (bountyId b)), ClearStorage], w')
      | (Inl _, w') \<Rightarrow> ([], w'))"

definition conditionalPerformTransaction ::
  "int \<Rightarrow> int \<Rightarrow> (world \<Rightarrow> ui_effect list \<times> world) \<Rightarrow> world \<Rightarrow> ui_effect list \<times> world" where
  "conditionalPerformTransaction bal amt perform w =
     (if bal < amt then ([BuyBuzzPrompt (amt - bal)], w) else perform w)"

text \<open>Lines 238--258, for the balance the client holds.\<close>

definition handleSubmit ::
  "fault_point list \<Rightarrow> nat \<Rightarrow> int \<Rightarrow> upload list \<Rightarrow> form_values \<Rightarrow> world \<Rightarrow> ui_effect list \<times> world" where
  "handleSubmit F uid bal ups v w =
     (let imgs = filteredImages ups in
      if fm_currency v = BUZZ
      then conditionalPerformTransaction bal (fm_unitAmount v) (performTransaction F uid v imgs) w
      else performTransaction F uid v imgs w)"

section \<open>Example form\<close>

definition demo_form :: form_values where
  "demo_form = (default_values 500 1 8)\<lparr>fm_name := ''cat'', fm_description := ''a cat''\<rparr>"

definition demo_ups :: "upload list" where
  "demo_ups = [\<lparr>up_id = ''cf-1'', up_url = ''blob:1'', up_status = ''success'', up_name = ''a.png'', up_meta = None,
                 up_type = ''image'', up_progress = 100\<rparr>,
              \<lparr>up_id = ''cf-2'', up_url = ''blob:2'', up_status = ''uploading'', up_name = ''b.png'', up_meta = None,
                 up_type = ''image'', up_progress = 45.5\<rparr>]"

definition demo_form_world :: "int \<Rightarrow> world" where
  "demo_form_world bal = \<lparr>db = empty_store, ledger = \<lparr>balances = (\<lambda>a. if a = 7 then bal else 0), transfers = []\<rparr>,
     ingest_log = []\<rparr>"

lemmas demo_form_defs = demo_form_def default_values_def demo_ups_def demo_form_world_def empty_store_def

section \<open>Properties\<close>

text \<open>
  C33. The Save button is disabled exactly when the schema refinement would reject the
  values (mature content depicting a real person), whatever the currency.
\<close>

theorem save_button_disabled_iff_rejected:
  "sb_disabled (save_button v creating) \<longleftrightarrow> \<not> formRefine v"
  by (simp add: save_button_def hasPoiInNsfw_def formRefine_def)

text \<open>
  C34. Submitting a form whose creation goes through calls the service once with the
  finished uploads and then navigates to the new bounty's page and clears the draft.
\<close>

theorem handleSubmit_creates_bounty:
  assumes "FCommit \<notin> set F" and "tx_faults_absent F (form_input uid v (filteredImages ups)) (db w)"
    and "fm_currency v = BUZZ \<longrightarrow> FBalanceRead \<notin> set F \<and> fm_unitAmount v \<le> bal \<and> fm_unitAmount v \<le> balances (ledger w) uid"
  shows "handleSubmit F uid bal ups v w =
           ([Navigate (''/bounties/'' @ nat_to_string (bounty_seq (db w))), ClearStorage],
            snd (createBounty F (form_input uid v (filteredImages ups)) w))"
proof -
  let ?inp = "form_input uid v (filteredImages ups)"
  from assms obtain w' where run: "createBounty F ?inp w = (Inr (mk_bounty (bounty_seq (db w)) (ci_data ?inp)), w')"
    by (simp add: createBounty_eq_Inr funds_ok_def form_input_def)
  with assms(3) show ?thesis
    by (auto simp: handleSubmit_def conditionalPerformTransaction_def performTransaction_def Let_def)
qed

theorem handleSubmit_creates_bounty_witness:
  "fst (handleSubmit [] 7 1000 demo_ups demo_form (demo_form_world 1000)) = [Navigate ''/bounties/1'', ClearStorage]"
proof -
  have h: "FCommit \<notin> set []"
    "tx_faults_absent [] (form_input 7 demo_form (filteredImages demo_ups)) (db (demo_form_world 1000))"
    "fm_currency demo_form = BUZZ \<longrightarrow> FBalanceRead \<notin> set [] \<and> fm_unitAmount demo_form \<le> 1000
       \<and> fm_unitAmount demo_form \<le> balances (ledger (demo_form_world 1000)) 7"
    by (simp_all add: tx_faults_absent_def batch_ok_def demo_form_defs)
  have "bounty_seq (db (demo_form_world 1000)) = 1" by (simp add: demo_form_defs)
  moreover have "nat_to_string 1 = ''1''" by code_simp
  ultimately show ?thesis using handleSubmit_creates_bounty [OF h] by simp
qed

text \<open>
  C35. A BUZZ submission above the balance the client holds never reaches the service:
  it opens the buy-Buzz prompt for the missing amount and changes nothing.
\<close>

theorem handleSubmit_buy_prompt:
  assumes "fm_currency v = BUZZ" and "bal < fm_unitAmount v"
  shows "handleSubmit F uid bal ups v w = ([BuyBuzzPrompt (fm_unitAmount v - bal)], w)"
  using assms by (simp add: handleSubmit_def conditionalPerformTransaction_def Let_def)

theorem handleSubmit_buy_prompt_witness:
  "fm_currency demo_form = BUZZ \<and> 100 < fm_unitAmount demo_form \<and>
   handleSubmit [] 7 100 demo_ups demo_form (demo_form_world 100) = ([BuyBuzzPrompt 400], demo_form_world 100)"
proof -
  have h: "fm_currency demo_form = BUZZ" "100 < fm_unitAmount demo_form" by (simp_all add: demo_form_defs)
  have "fm_unitAmount demo_form - 100 = 400" by (simp add: demo_form_defs)
  with handleSubmit_buy_prompt [OF h] h show ?thesis by simp
qed

text \<open>
  C36. When the service rejects the creation the form stays: no navigation, the saved
  draft is not cleared, and the database is as it was.
\<close>

theorem handleSubmit_failure_keeps_draft:
  assumes "createBounty F (form_input uid v (filteredImages ups)) w = (Inl e, w')"
  shows "ClearStorage \<notin> set (fst (handleSubmit F uid bal ups v w))
       \<and> (\<forall>u. Navigate u \<notin> set (fst (handleSubmit F uid bal ups v w)))
       \<and> db (snd (handleSubmit F uid bal ups v w)) = db w"
proof -
  from createBounty_Inl [OF assms] have "db w' = db w" by auto
  with assms show ?thesis
    by (auto simp: handleSubmit_def conditionalPerformTransaction_def performTransaction_def Let_def)
qed

theorem handleSubmit_failure_keeps_draft_witness:
  "fst (handleSubmit [FConnectionCreate] 7 1000 demo_ups demo_form (demo_form_world 1000)) = []
   \<and> db (snd (handleSubmit [FConnectionCreate] 7 1000 demo_ups demo_form (demo_form_world 1000))) = empty_store"
proof -
  let ?inp = "form_input 7 demo_form (filteredImages demo_ups)"
  have "fst (createBounty [FConnectionCreate] ?inp (demo_form_world 1000)) = Inl (Fault FConnectionCreate)"
    by code_simp
  then obtain w' where r: "createBounty [FConnectionCreate] ?inp (demo_form_world 1000) =
      (Inl (Fault FConnectionCreate), w')"
    by (cases "createBounty [FConnectionCreate] ?inp (demo_form_world 1000)") auto
  have v: "fm_currency demo_form = BUZZ" "fm_unitAmount demo_form = 500" by (simp_all add: demo_form_defs)
  have "fst (handleSubmit [FConnectionCreate] 7 1000 demo_ups demo_form (demo_form_world 1000)) = []"
    using r v by (simp add: handleSubmit_def conditionalPerformTransaction_def performTransaction_def Let_def)
  with handleSubmit_failure_keeps_draft [OF r] show ?thesis by (simp add: demo_form_world_def)
qed

text \<open>
  C37. After the type selector changes, the details carry the default base model exactly
  when the form shows the base-model selector for the new type.
\<close>

theorem on_type_change_base_model:
  "fm_type (on_type_change t v) = t \<and>
   ((\<exists>d. fm_details (on_type_change t v) = Some d \<and> d_baseModel d = Some ''SD 1.5'')
      \<longleftrightarrow> requireBaseModelSelection t)"
  by (cases t) (simp_all add: on_type_change_def upd_details_def requireBaseModelSelection_def)

end
