(* ===== verification/BountyForm_View.thy ===== *)
theory BountyForm_View
  imports BountyForm
begin

text \<open>
  What the bounty creation form (\<open>src/src/components/Bounty/BountyCreateForm.tsx\<close>) shows
  and keeps besides its submission: the fields shown for given values, the award and
  entry mode radios, the upload preview grid, dropping and removing uploads, the draft
  \<open>useFormStorage\<close> keeps, and the buy-Buzz message.
\<close>

section \<open>What the form shows\<close>

text \<open>Lines 189--190: two sections of the form are switched off in this version.\<close>

definition bountyModeEnabled :: bool where
  "bountyModeEnabled = False"

definition bountyEntryModeEnabled :: bool where
  "bountyEntryModeEnabled = False"

datatype form_field =
    NameInput | TypeSelect | BaseModelSelect | DescriptionEditor | ImagesDropzone
  | ImagePreviewGrid | StartDatePicker | DeadlinePicker | AwardModeRadio
  | UnitAmountInput (amount_format: "string option") | EntryLimitInput
  | MinBenefactorAmountInput (mba_max: int) (mba_format: "string option")
  | EntryModeRadio | AttachmentsUpload
  | ModelFormatControl | ModelSizeControl | TagsInput | PoiSwitch | NsfwSwitch | PoiInNsfwAlert
  | DiscardButton | SaveControl save_button

text \<open>The \<open>format\<close> prop of the amount inputs: a currency format unless the currency is BUZZ.\<close>

definition amount_format :: "currency \<Rightarrow> string option" where
  "amount_format cur = (if cur \<noteq> BUZZ then Some ''currency'' else None)"

text \<open>Lines 269--523, the main column, for the number of uploads.\<close>

definition main_column :: "form_values \<Rightarrow> nat \<Rightarrow> form_field list" where
  "main_column v nImages =
     [NameInput, TypeSelect] @ (if requireBaseModelSelection (fm_type v) then [BaseModelSelect] else []) @
     [DescriptionEditor, ImagesDropzone] @ (if nImages > 0 then [ImagePreviewGrid] else []) @
     [StartDatePicker, DeadlinePicker] @ (if bountyModeEnabled then [AwardModeRadio] else []) @
     [UnitAmountInput (amount_format (fm_currency v)), EntryLimitInput] @
     (if fm_mode v = Split then [MinBenefactorAmountInput (fm_unitAmount v) (amount_format (fm_currency v))] else []) @
     (if bountyEntryModeEnabled then [EntryModeRadio] else []) @ [AttachmentsUpload]"

text \<open>Lines 524--628: the side column and the buttons.\<close>

definition side_column :: "form_values \<Rightarrow> bool \<Rightarrow> form_field list" where
  "side_column v creating =
     (if fm_type v = ModelCreation then [ModelFormatControl, ModelSizeControl] else []) @
     [TagsInput, PoiSwitch, NsfwSwitch] @ (if hasPoiInNsfw v then [PoiInNsfwAlert] else []) @
     [DiscardButton, SaveControl (save_button v creating)]"

definition form_fields :: "form_values \<Rightarrow> nat \<Rightarrow> bool \<Rightarrow> form_field list" where
  "form_fields v nImages creating = main_column v nImages @ side_column v creating"

datatype preview_tile =
    MediaTile (mt_src: string) (mt_alt: string) (mt_remove: string) (mt_metaPopover: bool)
  | ProgressTile (pt_value: rat) (pt_label: string) (pt_color: string)

text \<open>Lines 351--404: one tile per upload, newest first; a finished upload shows the media,
  a remove button and, for images, the meta popover; an unfinished one its progress.\<close>

definition preview_tile :: "upload \<Rightarrow> preview_tile" where
  "preview_tile u =
     (if up_status u = ''success'' then MediaTile (up_id u) (up_name u) (up_id u) (up_type u = ''image'')
      else ProgressTile (up_progress u) (nat_to_string (nat (floor (up_progress u))) @ ''%'')
             (if up_progress u < 100 then ''blue'' else ''green''))"

definition preview_tiles :: "upload list \<Rightarrow> preview_tile list" where
  "preview_tiles ups = map preview_tile (rev ups)"

section \<open>Uploads and the saved draft\<close>

text \<open>\<open>useCFImageUpload\<close> (not under \<open>src/\<close>), from its contract: \<open>uploadToCF\<close> appends
  an entry in progress under a local id; when Cloudflare answers the entry takes the
  Cloudflare id and succeeds; \<open>removeImage\<close> drops the entry with the id.\<close>

definition uploadToCF :: "string \<Rightarrow> string \<Rightarrow> string \<Rightarrow> upload list \<Rightarrow> upload list" where
  "uploadToCF lid fname ftype ups =
     ups @ [\<lparr>up_id = lid, up_url = ''blob:'' @ lid, up_status = ''uploading'', up_name = fname,
             up_meta = None, up_type = ftype, up_progress = 0\<rparr>]"

definition upload_done :: "string \<Rightarrow> string \<Rightarrow> string option \<Rightarrow> upload list \<Rightarrow> upload list" where
  "upload_done lid cfid meta ups =
     map (\<lambda>u. if up_id u = lid then u\<lparr>up_id := cfid, up_status := ''success'', up_meta := meta, up_progress := 100\<rparr> else u) ups"

definition removeImage :: "string \<Rightarrow> upload list \<Rightarrow> upload list" where
  "removeImage i ups = filter (\<lambda>u. up_id u \<noteq> i) ups"

text \<open>Lines 159--163: every dropped file is sent to Cloudflare, in order.\<close>

definition handleDropImages :: "(string \<times> string \<times> string) list \<Rightarrow> upload list \<Rightarrow> upload list" where
  "handleDropImages dropped ups = foldl (\<lambda>acc (lid, fname, ftype). uploadToCF lid fname ftype acc) ups dropped"

text \<open>Lines 192--207: the fields \<open>useFormStorage\<close> keeps under \<open>bounty_new\<close>.\<close>

record draft =
  dr_mode :: bounty_mode
  dr_name :: string
  dr_nsfw :: bool
  dr_currency :: currency
  dr_description :: string
  dr_entryMode :: entry_mode
  dr_unitAmount :: int
  dr_type :: bounty_type

definition draft_of :: "form_values \<Rightarrow> draft" where
  "draft_of v =
     \<lparr>dr_mode = fm_mode v, dr_name = fm_name v, dr_nsfw = fm_nsfw v, dr_currency = fm_currency v,
      dr_description = fm_description v, dr_entryMode = fm_entryMode v, dr_unitAmount = fm_unitAmount v,
      dr_type = fm_type v\<rparr>"

text \<open>Restoring a saved draft into the form (the hook's reset with the stored values).\<close>

definition restore_draft :: "draft \<Rightarrow> form_values \<Rightarrow> form_values" where
  "restore_draft d v =
     v\<lparr>fm_mode := dr_mode d, fm_name := dr_name d, fm_nsfw := dr_nsfw d, fm_currency := dr_currency d,
       fm_description := dr_description d, fm_entryMode := dr_entryMode d, fm_unitAmount := dr_unitAmount d,
       fm_type := dr_type d\<rparr>"

text \<open>\<open>numberWithCommas\<close> of \<open>~/utils/number-helpers\<close> on naturals: a comma every three
  digits from the right.\<close>

fun group3 :: "string \<Rightarrow> string" where
  "group3 (a # b # c # d # rest) = a # b # c # CHR '','' # group3 (d # rest)"
| "group3 xs = xs"

definition numberWithCommas :: "nat \<Rightarrow> string" where
  "numberWithCommas n = rev (group3 (rev (nat_to_string n)))"

text \<open>Lines 220--223: the message of the buy-Buzz prompt.\<close>

definition buy_message :: "nat \<Rightarrow> string" where
  "buy_message required =
     ''You don't have enough funds to create this bounty. Buy '' @ numberWithCommas required @
     '' more BUZZ to perform this action.''"

section \<open>Award and entry modes\<close>

text \<open>The enum values as strings, and \<open>getDisplayName\<close> of \<open>~/utils/string-helpers\<close>
  (not under \<open>src/\<close>): a space before every capital but the first.\<close>

definition mode_value :: "bounty_mode \<Rightarrow> string" where
  "mode_value m = (case m of Individual \<Rightarrow> ''Individual'' | Split \<Rightarrow> ''Split'')"

definition entry_mode_value :: "entry_mode \<Rightarrow> string" where
  "entry_mode_value m = (case m of Open \<Rightarrow> ''Open'' | BenefactorsOnly \<Rightarrow> ''BenefactorsOnly'')"

definition is_upper :: "char \<Rightarrow> bool" where
  "is_upper c \<longleftrightarrow> (let n = of_char c :: nat in 65 \<le> n \<and> n \<le> 90)"

definition getDisplayName :: "string \<Rightarrow> string" where
  "getDisplayName s = (case s of [] \<Rightarrow> [] | c # cs \<Rightarrow> c # concat (map (\<lambda>d. if is_upper d then [CHR '' '', d] else [d]) cs))"

text \<open>Lines 75--86: the descriptions of the modes.\<close>

definition bountyModeDescription :: "bounty_mode \<Rightarrow> string" where
  "bountyModeDescription m =
     (case m of
        Individual \<Rightarrow> ''Only you will be the supporter of this bounty. This is great if you are offering a good reward for a really specific resource that you want tailored for your specific needs. The number of entries might be limited if the reward you are offering is not enticing enough.''
      | Split \<Rightarrow> ''Other users can become a supporter in your bounty and select other entries to support. This is great for incentivizing a large number of people to contribute to submit entries to your bounty.'')"

definition bountyEntryModeDescription :: "entry_mode \<Rightarrow> string" where
  "bountyEntryModeDescription m =
     (case m of
        Open \<Rightarrow> ''Any user, at any time, can support an entry and gain access to its files.''
      | BenefactorsOnly \<Rightarrow> ''Only people who become supporters in your bounty can support an entry and gain access to the files. Each supporter can only select 1 entry they support. So at best, each supporter will have access to 1 set of files.'')"

text \<open>Lines 634--642: a radio's label, the name over the dimmed description.\<close>

datatype radio_item = RadioItem (ri_label: string) (ri_description: string)

text \<open>Lines 437--449 and 489--501: one radio per enum value, in the enum's order.\<close>

definition award_mode_options :: "(string \<times> radio_item) list" where
  "award_mode_options =
     map (\<lambda>m. (mode_value m, RadioItem (getDisplayName (mode_value m)) (bountyModeDescription m))) [Individual, Split]"

definition entry_mode_options :: "(string \<times> radio_item) list" where
  "entry_mode_options =
     map (\<lambda>m. (entry_mode_value m, RadioItem (getDisplayName (entry_mode_value m)) (bountyEntryModeDescription m)))
       [Open, BenefactorsOnly]"

section \<open>Facts\<close>

lemma form_fields_base_model:
  "BaseModelSelect \<in> set (form_fields v n c) \<longleftrightarrow> requireBaseModelSelection (fm_type v)"
  by (simp add: form_fields_def main_column_def side_column_def bountyModeEnabled_def
      bountyEntryModeEnabled_def)

lemma form_fields_alert_iff_disabled:
  "PoiInNsfwAlert \<in> set (form_fields v n c) \<longleftrightarrow> sb_disabled (save_button v c)"
  by (simp add: form_fields_def main_column_def side_column_def save_button_def bountyModeEnabled_def
      bountyEntryModeEnabled_def)

lemma preview_tiles_removable:
  "MediaTile s a r m \<in> set (preview_tiles ups) \<Longrightarrow>
     \<exists>u \<in> set ups. up_status u = ''success'' \<and> r = up_id u \<and> s = up_id u"
  by (auto simp: preview_tiles_def preview_tile_def split: if_splits)

lemma length_preview_tiles: "length (preview_tiles ups) = length ups"
  by (simp add: preview_tiles_def)

lemma draft_roundtrip: "draft_of (restore_draft d v) = d"
  by (simp add: draft_of_def restore_draft_def)

lemma restore_own_draft: "restore_draft (draft_of v) v = v"
  by (simp add: draft_of_def restore_draft_def)

lemma handleDropImages_append:
  "handleDropImages dropped ups =
     ups @ map (\<lambda>(lid, fname, ftype). \<lparr>up_id = lid, up_url = ''blob:'' @ lid, up_status = ''uploading'',
       up_name = fname, up_meta = None, up_type = ftype, up_progress = 0\<rparr>) dropped"
  by (induction dropped arbitrary: ups) (auto simp: handleDropImages_def uploadToCF_def)

lemma filteredImages_drop [simp]: "filteredImages (handleDropImages dropped ups) = filteredImages ups"
  by (simp add: handleDropImages_append filteredImages_def split_def)

lemma filteredImages_remove: "filteredImages (removeImage i ups) = filter (\<lambda>x. i_url x \<noteq> i) (filteredImages ups)"
  by (induction ups) (auto simp: filteredImages_def removeImage_def)

lemma award_mode_options_complete: "map fst award_mode_options = map mode_value [Individual, Split]"
  by (simp add: award_mode_options_def)

lemma entry_mode_labels:
  "map (ri_label \<circ> snd) entry_mode_options = [''Open'', ''Benefactors Only'']"
  by code_simp

text \<open>The radio groups are switched off, so the form never shows them.\<close>

lemma mode_radios_hidden:
  "AwardModeRadio \<notin> set (form_fields v n c) \<and> EntryModeRadio \<notin> set (form_fields v n c)"
  by (simp add: form_fields_def main_column_def side_column_def bountyModeEnabled_def
      bountyEntryModeEnabled_def)

end
