(* ===== verification/HiddenTags.thy ===== *)
theory HiddenTags
  imports Prelude
begin

text \<open>
  The hidden-tags card of the account page, \<open>src/src/components/Account/HiddenTagsSection.tsx\<close>.
  Its state is the search text and the user's hidden-tag preferences; the preferences
  are owned by the \<open>useToggleHiddenPreferences\<close> hook (not under \<open>src/\<close>), whose tag
  toggle is modelled from its contract: a hidden tag is un-hidden, any other tag is hidden.
  The query string sent to \<open>tag.getAll\<close> is the search lower-cased and trimmed, on the
  ASCII range of JavaScript's \<open>toLowerCase\<close> and \<open>trim\<close>. The rendered card (suggestions, search
  icon, badges) is a function of the state, \<open>HiddenTagsSection\<close>.
\<close>

record hidden_tag =
  ht_id :: nat
  ht_name :: string
  ht_hidden :: bool

record tag_ref =
  tr_id :: nat
  tr_name :: string

record suggestion =
  sg_id :: nat
  sg_value :: string

record hts_state =
  hts_search :: string
  hts_tags :: "hidden_tag list"

section \<open>The query string\<close>

definition is_space :: "char \<Rightarrow> bool" where
  "is_space c \<longleftrightarrow> (let n = of_char c :: nat in n = 32 \<or> (9 \<le> n \<and> n \<le> 13))"

definition lower_char :: "char \<Rightarrow> char" where
  "lower_char c = (let n = of_char c :: nat in if 65 \<le> n \<and> n \<le> 90 then char_of (n + 32) else c)"

definition upper_char :: "char \<Rightarrow> char" where
  "upper_char c = (let n = of_char c :: nat in if 97 \<le> n \<and> n \<le> 122 then char_of (n - 32) else c)"

definition trim :: "string \<Rightarrow> string" where
  "trim s = rev (dropWhile is_space (rev (dropWhile is_space s)))"

text \<open>Line 19: \<open>debouncedSearch.toLowerCase().trim()\<close>.\<close>

definition search_query :: "string \<Rightarrow> string" where
  "search_query s = trim (map lower_char s)"

section \<open>The lists shown\<close>

text \<open>Line 15: the preferences flagged hidden.\<close>

definition hiddenTags :: "hidden_tag list \<Rightarrow> hidden_tag list" where
  "hiddenTags tags = filter ht_hidden tags"

text \<open>Lines 21--24: the suggestions, the query's tags that are not already hidden;
  no data yet gives no suggestions.\<close>

definition modelTags :: "tag_ref list option \<Rightarrow> hidden_tag list \<Rightarrow> suggestion list" where
  "modelTags items tags =
     (case items of
        None \<Rightarrow> []
      | Some xs \<Rightarrow> map (\<lambda>x. \<lparr>sg_id = tr_id x, sg_value = tr_name x\<rparr>)
                     (filter (\<lambda>x. \<not> list_ex (\<lambda>y. ht_id y = tr_id x) (hiddenTags tags)) xs))"

section \<open>Toggling a tag\<close>

text \<open>The tag toggle of \<open>useToggleHiddenPreferences\<close> (\<open>kind: 'tag'\<close>).\<close>

definition toggle_tag :: "tag_ref \<Rightarrow> hidden_tag list \<Rightarrow> hidden_tag list" where
  "toggle_tag t tags =
     (let others = filter (\<lambda>y. ht_id y \<noteq> tr_id t) tags in
      if list_ex (\<lambda>y. ht_id y = tr_id t \<and> ht_hidden y) tags then others
      else others @ [\<lparr>ht_id = tr_id t, ht_name = tr_name t, ht_hidden = True\<rparr>])"

text \<open>Lines 28--31: await the mutation, then clear the search; a rejected mutation
  skips the clear.\<close>

definition handleToggleBlockedTag :: "fault_point list \<Rightarrow> tag_ref \<Rightarrow> (unit, hts_state) eff" where
  "handleToggleBlockedTag F t =
     bindE (callE F FToggleHidden (liftE (\<lambda>st. ((), st\<lparr>hts_tags := toggle_tag t (hts_tags st)\<rparr>))))
       (\<lambda>_. liftE (\<lambda>st. ((), st\<lparr>hts_search := []\<rparr>)))"

text \<open>Lines 47--50: picking a suggestion toggles its tag (the focus call is I/O).\<close>

definition onItemSubmit :: "fault_point list \<Rightarrow> suggestion \<Rightarrow> (unit, hts_state) eff" where
  "onItemSubmit F item = handleToggleBlockedTag F \<lparr>tr_id = sg_id item, tr_name = sg_value item\<rparr>"

text \<open>Line 69: the cross on a hidden tag's badge toggles that tag.\<close>

definition onBadgeClick :: "fault_point list \<Rightarrow> hidden_tag \<Rightarrow> (unit, hts_state) eff" where
  "onBadgeClick F tag = handleToggleBlockedTag F \<lparr>tr_id = ht_id tag, tr_name = ht_name tag\<rparr>"

section \<open>What the card shows\<close>

datatype search_icon = LoaderIcon | SearchIcon

record hts_view =
  v_suggestions :: "suggestion list"
  v_value :: string
  v_icon :: search_icon
  v_badges :: "(nat \<times> string) list option"

text \<open>Lines 33--86: the autocomplete (its suggestions, the search as its value, a loader
  while the query runs) and, when some tag is hidden, one badge per hidden tag.\<close>

definition HiddenTagsSection :: "tag_ref list option \<Rightarrow> bool \<Rightarrow> hts_state \<Rightarrow> hts_view" where
  "HiddenTagsSection items isLoading st =
     \<lparr>v_suggestions = modelTags items (hts_tags st), v_value = hts_search st,
      v_icon = (if isLoading then LoaderIcon else SearchIcon),
      v_badges = (let hs = hiddenTags (hts_tags st) in
                  if length hs > 0 then Some (map (\<lambda>t. (ht_id t, ht_name t)) hs) else None)\<rparr>"

section \<open>Example state\<close>

definition demo_tags :: "hidden_tag list" where
  "demo_tags = [\<lparr>ht_id = 1, ht_name = ''anime'', ht_hidden = True\<rparr>,
                \<lparr>ht_id = 2, ht_name = ''photo'', ht_hidden = False\<rparr>]"

definition demo_items :: "tag_ref list option" where
  "demo_items = Some [\<lparr>tr_id = 1, tr_name = ''anime''\<rparr>, \<lparr>tr_id = 3, tr_name = ''cat''\<rparr>]"

definition demo_hts :: hts_state where
  "demo_hts = \<lparr>hts_search = ''ca'', hts_tags = demo_tags\<rparr>"

section \<open>Facts\<close>

lemma is_space_lower_char [simp]: "is_space (lower_char c) = is_space c"
  by (auto simp: is_space_def lower_char_def Let_def)

lemma lower_upper_char [simp]: "lower_char (upper_char c) = lower_char c"
  by (auto simp: lower_char_def upper_char_def Let_def)

lemma lower_comp_upper [simp]: "lower_char \<circ> upper_char = lower_char"
  by (rule ext) simp

lemma lower_char_space: "is_space c \<Longrightarrow> lower_char c = c"
  by (auto simp: is_space_def lower_char_def Let_def)

lemma dropWhile_all_append: "list_all P p \<Longrightarrow> dropWhile P (p @ xs) = dropWhile P xs"
  by (induction p) auto

lemma dropWhile_all: "list_all P xs \<Longrightarrow> dropWhile P xs = []"
  by (induction xs) auto

lemma dropWhile_append_tail:
  "list_all P q \<Longrightarrow> dropWhile P (xs @ q) = (if list_all P xs then [] else dropWhile P xs @ q)"
  by (induction xs) (auto simp: list_all_iff dropWhile_eq_Nil_conv)

lemma trim_pad:
  assumes "list_all is_space p" and "list_all is_space q"
  shows "trim (p @ xs @ q) = trim xs"
proof (cases "list_all is_space xs")
  case True
  with assms show ?thesis
    by (simp add: trim_def dropWhile_all_append dropWhile_all)
next
  case False
  then have "\<not> list_all is_space (rev (dropWhile is_space xs))"
    by (auto simp: list_all_iff dropWhile_eq_Nil_conv[symmetric] simp del: dropWhile_eq_Nil_conv)
  with False assms show ?thesis
    by (simp add: trim_def dropWhile_all_append dropWhile_append_tail)
qed

lemma lower_spaces: "list_all is_space p \<Longrightarrow> map lower_char p = p"
  by (induction p) (auto simp: lower_char_space)

lemma list_all_space_lower: "list_all is_space p \<Longrightarrow> list_all is_space (map lower_char p)"
  by (simp add: lower_spaces)

lemma hiddenTags_toggle:
  "ht_id ` set (hiddenTags (toggle_tag t tags)) =
     (if tr_id t \<in> ht_id ` set (hiddenTags tags) then ht_id ` set (hiddenTags tags) - {tr_id t}
      else insert (tr_id t) (ht_id ` set (hiddenTags tags)))"
proof (cases "list_ex (\<lambda>y. ht_id y = tr_id t \<and> ht_hidden y) tags")
  case True
  then show ?thesis by (auto simp: toggle_tag_def hiddenTags_def list_ex_iff image_iff Let_def)
next
  case False
  let ?n = "\<lparr>ht_id = tr_id t, ht_name = tr_name t, ht_hidden = True\<rparr>"
  from False have "set (hiddenTags (toggle_tag t tags)) = insert ?n (set (hiddenTags tags))"
    by (auto simp: toggle_tag_def hiddenTags_def list_ex_iff Let_def)
  with False show ?thesis by (auto simp: hiddenTags_def list_ex_iff)
qed

lemma handleToggleBlockedTag_ok:
  "FToggleHidden \<notin> set F \<Longrightarrow>
   handleToggleBlockedTag F t st = (Inr (), st\<lparr>hts_search := [], hts_tags := toggle_tag t (hts_tags st)\<rparr>)"
  by (simp add: handleToggleBlockedTag_def)

lemma handleToggleBlockedTag_fail:
  "FToggleHidden \<in> set F \<Longrightarrow> handleToggleBlockedTag F t st = (Inl (Fault FToggleHidden), st)"
  by (simp add: handleToggleBlockedTag_def)


lemma HiddenTagsSection_disjoint:
  "v_badges (HiddenTagsSection items l st) = Some bs \<Longrightarrow>
   s \<in> set (v_suggestions (HiddenTagsSection items l st)) \<Longrightarrow> sg_id s \<notin> fst ` set bs"
  by (fastforce simp: HiddenTagsSection_def modelTags_def list_ex_iff Let_def split: option.splits if_splits)

section \<open>Properties\<close>

text \<open>
  C29. Picking a suggestion hides its tag: the toggle succeeds, the search is cleared,
  the tag is among the hidden tags and is no longer suggested.
\<close>

theorem onItemSubmit_hides_tag:
  assumes "s \<in> set (modelTags items (hts_tags st))" and "FToggleHidden \<notin> set F"
  shows "\<exists>st'. onItemSubmit F s st = (Inr (), st') \<and> hts_search st' = []
           \<and> sg_id s \<in> ht_id ` set (hiddenTags (hts_tags st'))
           \<and> s \<notin> set (modelTags items (hts_tags st'))"
proof -
  let ?t = "\<lparr>tr_id = sg_id s, tr_name = sg_value s\<rparr>"
  from assms(1) have notin: "sg_id s \<notin> ht_id ` set (hiddenTags (hts_tags st))"
    by (auto simp: modelTags_def list_ex_iff split: option.splits)
  have hid: "ht_id ` set (hiddenTags (toggle_tag ?t (hts_tags st))) = insert (sg_id s) (ht_id ` set (hiddenTags (hts_tags st)))"
    using hiddenTags_toggle [of ?t "hts_tags st"] notin by simp
  then have "sg_id s \<in> ht_id ` set (hiddenTags (toggle_tag ?t (hts_tags st)))" by simp
  then have "s \<notin> set (modelTags items (toggle_tag ?t (hts_tags st)))"
    by (auto simp: modelTags_def list_ex_iff image_iff split: option.splits)
  with hid assms(2) show ?thesis by (simp add: onItemSubmit_def handleToggleBlockedTag_ok)
qed

theorem onItemSubmit_hides_tag_witness:
  "\<lparr>sg_id = 3, sg_value = ''cat''\<rparr> \<in> set (modelTags demo_items (hts_tags demo_hts)) \<and> FToggleHidden \<notin> set [] \<and>
   hts_search (snd (onItemSubmit [] \<lparr>sg_id = 3, sg_value = ''cat''\<rparr> demo_hts)) = []"
proof -
  have h: "\<lparr>sg_id = 3, sg_value = ''cat''\<rparr> \<in> set (modelTags demo_items (hts_tags demo_hts))"
    "FToggleHidden \<notin> set []"
    by (simp_all add: modelTags_def demo_items_def demo_hts_def demo_tags_def hiddenTags_def)
  from onItemSubmit_hides_tag [OF h] h show ?thesis by auto
qed

text \<open>
  C30. The cross on a hidden tag's badge un-hides exactly that tag.
\<close>

theorem onBadgeClick_unhides_tag:
  assumes "tag \<in> set (hiddenTags (hts_tags st))" and "FToggleHidden \<notin> set F"
  shows "ht_id ` set (hiddenTags (hts_tags (snd (onBadgeClick F tag st)))) =
           ht_id ` set (hiddenTags (hts_tags st)) - {ht_id tag}
       \<and> hts_search (snd (onBadgeClick F tag st)) = []"
  using assms hiddenTags_toggle [of "\<lparr>tr_id = ht_id tag, tr_name = ht_name tag\<rparr>" "hts_tags st"]
  by (simp add: onBadgeClick_def handleToggleBlockedTag_ok)

theorem onBadgeClick_unhides_tag_witness:
  "hd demo_tags \<in> set (hiddenTags (hts_tags demo_hts)) \<and> FToggleHidden \<notin> set [] \<and>
   ht_id ` set (hiddenTags (hts_tags (snd (onBadgeClick [] (hd demo_tags) demo_hts)))) = {}"
proof -
  have h: "hd demo_tags \<in> set (hiddenTags (hts_tags demo_hts))" "FToggleHidden \<notin> set []"
    by (simp_all add: demo_hts_def demo_tags_def hiddenTags_def)
  have "ht_id ` set (hiddenTags (hts_tags demo_hts)) - {ht_id (hd demo_tags)} = {}"
    by (simp add: demo_hts_def demo_tags_def hiddenTags_def)
  with onBadgeClick_unhides_tag [OF h] h show ?thesis by simp
qed

text \<open>
  C31. The query sent to the tag search ignores surrounding whitespace and ASCII letter
  case: padding the search with blanks or typing it in capitals gives the same query.
\<close>

theorem search_query_normalises:
  assumes "list_all is_space p" and "list_all is_space q"
  shows "search_query (p @ map upper_char s @ q) = search_query s"
proof -
  have "map lower_char (p @ map upper_char s @ q) = p @ map lower_char s @ q"
    using assms by (simp add: lower_spaces)
  with trim_pad [OF assms] show ?thesis by (simp add: search_query_def)
qed

theorem search_query_normalises_witness:
  "list_all is_space '' '' \<and> list_all is_space ''  '' \<and>
   search_query ('' '' @ map upper_char ''cat'' @ ''  '') = ''cat''"
proof -
  have h: "list_all is_space '' ''" "list_all is_space ''  ''" by (simp_all add: is_space_def)
  have e1: "search_query ('' '' @ map upper_char ''cat'' @ ''  '') = search_query ''cat''"
    by (rule search_query_normalises [OF h])
  have e2: "search_query ''cat'' = ''cat''" by code_simp
  show ?thesis by (simp only: e1 e2 h simp_thms)
qed


text \<open>
  C28. The card keeps hidden tags out of the search: the suggestions are exactly the
  tags the search returned minus the ones the user has hidden, so a hidden tag is never
  offered again, while a preference that is not hidden does not suppress its tag; and
  no suggested tag also has a badge.
\<close>

theorem HiddenTagsSection_suggestions:
  "sg_id ` set (v_suggestions (HiddenTagsSection (Some xs) l st)) =
     tr_id ` set xs - ht_id ` {t \<in> set (hts_tags st). ht_hidden t}
   \<and> (\<forall>bs. v_badges (HiddenTagsSection (Some xs) l st) = Some bs \<longrightarrow>
          sg_id ` set (v_suggestions (HiddenTagsSection (Some xs) l st)) \<inter> fst ` set bs = {})"
proof
  show "sg_id ` set (v_suggestions (HiddenTagsSection (Some xs) l st)) =
      tr_id ` set xs - ht_id ` {t \<in> set (hts_tags st). ht_hidden t}"
  proof -
    let ?H = "ht_id ` {t \<in> set (hts_tags st). ht_hidden t}"
    let ?P = "\<lambda>x. \<not> list_ex (\<lambda>y. ht_id y = tr_id x) (hiddenTags (hts_tags st))"
    have "v_suggestions (HiddenTagsSection (Some xs) l st) =
        map (\<lambda>x. \<lparr>sg_id = tr_id x, sg_value = tr_name x\<rparr>) (filter ?P xs)"
      by (simp add: HiddenTagsSection_def modelTags_def)
    then have "sg_id ` set (v_suggestions (HiddenTagsSection (Some xs) l st)) = tr_id ` {x \<in> set xs. ?P x}"
      by (simp add: image_image)
    moreover have p: "?P x \<longleftrightarrow> tr_id x \<notin> ?H" for x
      by (force simp: list_ex_iff hiddenTags_def image_iff)
    moreover have "{x \<in> set xs. ?P x} = {x \<in> set xs. tr_id x \<notin> ?H}"
      using p by blast
    ultimately have "sg_id ` set (v_suggestions (HiddenTagsSection (Some xs) l st)) = tr_id ` {x \<in> set xs. tr_id x \<notin> ?H}"
      by simp
    also have "\<dots> = tr_id ` set xs - ?H" by (auto simp: image_iff)
    finally show ?thesis .
  qed
  show "\<forall>bs. v_badges (HiddenTagsSection (Some xs) l st) = Some bs \<longrightarrow>
      sg_id ` set (v_suggestions (HiddenTagsSection (Some xs) l st)) \<inter> fst ` set bs = {}"
    by (auto dest: HiddenTagsSection_disjoint)
qed

theorem HiddenTagsSection_suggestions_witness:
  "sg_id ` set (v_suggestions (HiddenTagsSection demo_items False demo_hts)) = {3}
   \<and> v_badges (HiddenTagsSection demo_items False demo_hts) = Some [(1, ''anime'')]"
proof -
  let ?xs = "[\<lparr>tr_id = 1, tr_name = ''anime''\<rparr>, \<lparr>tr_id = 3, tr_name = ''cat''\<rparr>]"
  have d: "demo_items = Some ?xs" by (simp add: demo_items_def)
  have b: "v_badges (HiddenTagsSection demo_items False demo_hts) = Some [(1, ''anime'')]" by code_simp
  have "{t \<in> set (hts_tags demo_hts). ht_hidden t} = {\<lparr>ht_id = 1, ht_name = ''anime'', ht_hidden = True\<rparr>}"
    by (auto simp: demo_hts_def demo_tags_def)
  then have h: "ht_id ` {t \<in> set (hts_tags demo_hts). ht_hidden t} = {1}" by simp
  from conjunct1 [OF HiddenTagsSection_suggestions [of ?xs False demo_hts]] h d
  have "sg_id ` set (v_suggestions (HiddenTagsSection demo_items False demo_hts)) = {3}" by auto
  with b show ?thesis by simp
qed

end
