(* ===== verification/PlanBenefits.thy ===== *)
theory PlanBenefits
  imports Main
begin

text \<open>
  The benefit list of the subscription plans, \<open>src/src/components/Stripe/PlanBenefitList.tsx\<close>,
  rendered to a tree of blocks: a Mantine \<open>List\<close> whose items carry their own theme icon
  or fall back to the list's icon, a divider, and the list of default benefits. React nodes
  are modelled by the strings they display (contents, icon and colour names).
\<close>

record benefit_item =
  b_content :: string
  b_icon :: "string option"
  b_iconColor :: "string option"
  b_iconVariant :: "string option"

datatype theme_icon = ThemeIcon (ti_color: string) (ti_size: nat) (ti_variant: "string option") (ti_icon: string)

datatype list_item = ListItem (li_key: nat) (li_icon: "theme_icon option") (li_content: string)

datatype block = BList (bl_icon: theme_icon) (bl_items: "list_item list") | BDivider

definition benefitIconSize :: nat where
  "benefitIconSize = 18"

definition themeIconSize :: nat where
  "themeIconSize = benefitIconSize + 6"

text \<open>Lines 14--23: the defaults, a content and, for the first, an icon.\<close>

definition defaultBenefits :: "(string \<times> string option) list" where
  "defaultBenefits =
     [(''Ad free browsing'', Some ''IconAdCircleOff''), (''Civitai Link'', None), (''Civitai Archive'', None),
      (''Unique Supporter Badge each month'', None), (''Can equip special cosmetics'', None),
      (''Exclusive Discord channels'', None), (''Early access content'', None),
      (''Early access to new features'', None)]"

text \<open>Lines 32--36 and 65--69: the icon every item without its own shows.\<close>

definition list_icon :: theme_icon where
  "list_icon = ThemeIcon ''gray'' themeIconSize None ''IconCircleCheck''"

text \<open>Lines 38--56: one item; a falsy icon gives no item icon, else a theme icon whose
  colour defaults to teal.\<close>

definition render_benefit :: "nat \<Rightarrow> benefit_item \<Rightarrow> list_item" where
  "render_benefit i b =
     ListItem i (map_option (\<lambda>ic. ThemeIcon (case b_iconColor b of None \<Rightarrow> ''teal'' | Some c \<Rightarrow> c)
                                     themeIconSize (b_iconVariant b) ic) (b_icon b))
       (b_content b)"

text \<open>Lines 25--79; \<open>useDefaultBenefits\<close> defaults to true.\<close>

definition PlanBenefitList :: "benefit_item list \<Rightarrow> bool option \<Rightarrow> block list" where
  "PlanBenefitList benefits useDefault =
     BList list_icon (map (\<lambda>(i, b). render_benefit i b) (enumerate 0 benefits)) #
     (if case useDefault of None \<Rightarrow> True | Some u \<Rightarrow> u
      then [BDivider, BList list_icon (map (\<lambda>(i, (c, _)). ListItem i None c) (enumerate 0 defaultBenefits))]
      else [])"

text \<open>What a reader sees: each item's content with the icon it shows.\<close>

fun shown :: "block list \<Rightarrow> (theme_icon \<times> string) list" where
  "shown [] = []"
| "shown (BList ic items # bs) =
     map (\<lambda>it. (case li_icon it of None \<Rightarrow> ic | Some i \<Rightarrow> i, li_content it)) items @ shown bs"
| "shown (BDivider # bs) = shown bs"

definition item_shown :: "benefit_item \<Rightarrow> theme_icon \<times> string" where
  "item_shown b =
     (case b_icon b of
        None \<Rightarrow> list_icon
      | Some ic \<Rightarrow> ThemeIcon (case b_iconColor b of None \<Rightarrow> ''teal'' | Some c \<Rightarrow> c) themeIconSize (b_iconVariant b) ic,
      b_content b)"

lemma shown_render:
  "map (\<lambda>it. (case li_icon it of None \<Rightarrow> ic | Some i \<Rightarrow> i, li_content it))
     (map (\<lambda>(i, b). render_benefit i b) (enumerate n bs)) =
   map (\<lambda>b. (case b_icon b of None \<Rightarrow> ic
                | Some x \<Rightarrow> ThemeIcon (case b_iconColor b of None \<Rightarrow> ''teal'' | Some c \<Rightarrow> c)
                             themeIconSize (b_iconVariant b) x, b_content b)) bs"
  by (induction bs arbitrary: n) (auto simp: render_benefit_def split: option.splits)

text \<open>
  C32. The plan card shows each benefit in order with its own icon (teal unless a colour
  is given) or the gray check, then, unless defaults are switched off, the eight default
  benefits, all with the gray check: the icon declared for ``Ad free browsing'' is never
  shown.
\<close>

theorem PlanBenefitList_shown:
  "shown (PlanBenefitList bs u) =
     map item_shown bs @
     (if u = Some False then [] else map (\<lambda>(c, _). (list_icon, c)) defaultBenefits)"
proof -
  have d: "map (\<lambda>it. (case li_icon it of None \<Rightarrow> list_icon | Some i \<Rightarrow> i, li_content it))
             (map (\<lambda>(i, (c, _)). ListItem i None c) (enumerate 0 defaultBenefits)) =
           map (\<lambda>(c, _). (list_icon, c)) defaultBenefits"
    by (simp add: defaultBenefits_def)
  have "map (\<lambda>b. (case b_icon b of None \<Rightarrow> list_icon
                | Some x \<Rightarrow> ThemeIcon (case b_iconColor b of None \<Rightarrow> ''teal'' | Some c \<Rightarrow> c)
                             themeIconSize (b_iconVariant b) x, b_content b)) bs = map item_shown bs"
    by (simp add: item_shown_def)
  with d shown_render [of list_icon 0 bs] show ?thesis
    by (cases u) (auto simp: PlanBenefitList_def)
qed

end
