(* ===== verification/Leaderboard.thy ===== *)
theory Leaderboard
  imports Prelude
begin

text \<open>
  The leaderboard page, \<open>src/src/pages/leaderboard/[id].tsx\<close>. The router query is an
  association list of its parameters (the dynamic segment \<open>id\<close> among them); a query
  parameter that \<open>removeEmpty\<close> drops is absent. \<open>leaderboardQuerySchema.parse\<close> either
  returns the parsed query or throws (\<open>None\<close>); \<open>numericString\<close> is read on strings of
  digits and \<open>stringDate\<close> on the ISO form \<open>YYYY-MM-DD\<close> of a date. The page's state is the query, the
  loaded leaderboards and positions, and the two \<open>useState\<close> selections; its events are
  a step relation: the leaderboards arriving, a click on a leaderboard or on a position
  badge, the legends toggle, and the render-time \<open>router.replace\<close>. What the page
  shows is in \<open>Leaderboard_View\<close>.
\<close>

type_synonym query = "(string \<times> string) list"

record leaderboard =
  lb_id :: string
  lb_title :: string
  lb_description :: string
  lb_scoringDescription :: string

record lb_position =
  lp_leaderboardId :: string
  lp_position :: nat

datatype board = Season | Legend

record lb_query =
  q_id :: string
  q_date :: "string option"
  q_position :: "nat option"
  q_board :: board

section \<open>The query\<close>

definition board_name :: "board \<Rightarrow> string" where
  "board_name b = (case b of Season \<Rightarrow> ''season'' | Legend \<Rightarrow> ''legend'')"

text \<open>Line 46: \<open>z.enum(['season', 'legend']).default('season')\<close>.\<close>

definition parse_board :: "string option \<Rightarrow> board option" where
  "parse_board s =
     (case s of None \<Rightarrow> Some Season
      | Some x \<Rightarrow> if x = ''season'' then Some Season else if x = ''legend'' then Some Legend else None)"

text \<open>\<open>stringDate()\<close> of \<open>utils/zod-helpers\<close> (not under \<open>src/\<close>): a string is
  converted by \<open>new Date(value)\<close> and \<open>z.date()\<close> rejects an invalid date, so the parse
  throws; an absent date is accepted. Modelled on the ISO form \<open>YYYY-MM-DD\<close>, where
  V8 accepts a month from 1 to 12 and a day from 1 to 31 (an overflowing day rolls into
  the next month); every other string is treated as an invalid date.\<close>

definition stringDate :: "string \<Rightarrow> bool" where
  "stringDate d \<longleftrightarrow>
     length d = 10 \<and> d ! 4 = CHR ''-'' \<and> d ! 7 = CHR ''-''
   \<and> list_all is_digit (take 4 d @ take 2 (drop 5 d) @ drop 8 d)
   \<and> 1 \<le> digits_value (take 2 (drop 5 d)) \<and> digits_value (take 2 (drop 5 d)) \<le> 12
   \<and> 1 \<le> digits_value (drop 8 d) \<and> digits_value (drop 8 d) \<le> 31"

text \<open>Lines 42--47.\<close>

definition parse_query :: "query \<Rightarrow> lb_query option" where
  "parse_query q =
     (case parse_board (map_of q ''board'') of
        None \<Rightarrow> None
      | Some b \<Rightarrow>
          Option.bind
            (case map_of q ''position'' of
               None \<Rightarrow> Some None
             | Some p \<Rightarrow> map_option Some (parse_nat p))
          (\<lambda>pos.
             case map_of q ''date'' of
               Some d \<Rightarrow> if stringDate d then Some \<lparr>q_id = (case map_of q ''id'' of None \<Rightarrow> ''overall'' | Some i \<Rightarrow> i),
                                   q_date = Some d, q_position = pos, q_board = b\<rparr> else None
             | None \<Rightarrow> Some \<lparr>q_id = (case map_of q ''id'' of None \<Rightarrow> ''overall'' | Some i \<Rightarrow> i),
                            q_date = None, q_position = pos, q_board = b\<rparr>))"

text \<open>\<open>removeEmpty({...query, k: v})\<close>: set, or drop when \<open>v\<close> is undefined.\<close>

definition set_param :: "string \<Rightarrow> string option \<Rightarrow> query \<Rightarrow> query" where
  "set_param k v q =
     (case v of
        None \<Rightarrow> filter (\<lambda>(k', _). k' \<noteq> k) q
      | Some x \<Rightarrow> if k \<in> fst ` set q then map (\<lambda>(k', y). if k' = k then (k', x) else (k', y)) q
                  else q @ [(k, x)])"

section \<open>Positions and badges\<close>

text \<open>Lines 91--96: the reduce into a record, later items overwriting earlier ones.\<close>

definition leaderboardPositions :: "lb_position list \<Rightarrow> string \<Rightarrow> nat option" where
  "leaderboardPositions raw = foldl (\<lambda>acc item. acc(lp_leaderboardId item \<mapsto> lp_position item)) Map.empty raw"

datatype badge = LoadingBadge | PositionBadge (pb_color: string) (pb_text: string) (pb_position: nat)

text \<open>Lines 313--360: nothing without a user, a loader while loading, nothing for an
  absent or zero position, else a badge coloured by rank.\<close>

definition UserPosition :: "bool \<Rightarrow> nat option \<Rightarrow> bool \<Rightarrow> badge option" where
  "UserPosition hasUser position loading =
     (if \<not> hasUser then None
      else if loading then Some LoadingBadge
      else case position of
             None \<Rightarrow> None
           | Some p \<Rightarrow> if p = 0 then None
                       else Some (PositionBadge (if p \<le> 10 then ''yellow'' else if p \<le> 100 then ''blue'' else ''gray'')
                                                (''#'' @ nat_to_string p) p))"

section \<open>The page\<close>

record lb_page =
  pg_query :: query
  pg_leaderboards :: "leaderboard list"
  pg_positions :: "lb_position list"
  pg_hasUser :: bool
  pg_selected :: "leaderboard option"
  pg_selPos :: "nat option"
  pg_drawerOpen :: bool

text \<open>Lines 106--109: the selection disagrees with the URL.\<close>

definition needs_redirect :: "lb_query \<Rightarrow> leaderboard option \<Rightarrow> nat option \<Rightarrow> bool" where
  "needs_redirect q sel selPos \<longleftrightarrow>
     (case sel of None \<Rightarrow> False | Some l \<Rightarrow> lb_id l \<noteq> q_id q)
   \<or> (case selPos of None \<Rightarrow> False | Some p \<Rightarrow> p \<noteq> 0 \<and> Some p \<noteq> q_position q)"

text \<open>Lines 110--122: the query after \<open>replace\<close>: the path's id (\<open>undefined\<close> printed when
  nothing is selected), then the position and the board when they are not empty.\<close>

definition redirect_query :: "lb_query \<Rightarrow> leaderboard option \<Rightarrow> nat option \<Rightarrow> query" where
  "redirect_query q sel selPos =
     [(''id'', case sel of None \<Rightarrow> ''undefined'' | Some l \<Rightarrow> lb_id l)]
     @ (case selPos of None \<Rightarrow> [] | Some p \<Rightarrow> if p = 0 then [] else [(''position'', nat_to_string p)])
     @ (if q_board q = Season then [] else [(''board'', board_name (q_board q))])"

text \<open>Lines 274--286: the legends toggle keeps the query and sets or drops \<open>board\<close>.\<close>

definition setBoard :: "board \<Rightarrow> query \<Rightarrow> query" where
  "setBoard b q = set_param ''board'' (if b = Season then None else Some (board_name b)) q"

text \<open>Lines 106--123: the render-time redirect, a step of its own since it runs on every
  render without an event.\<close>

inductive redirect_step :: "lb_page \<Rightarrow> lb_page \<Rightarrow> bool" where
  replace: "parse_query (pg_query pg) = Some q \<Longrightarrow> needs_redirect q (pg_selected pg) (pg_selPos pg) \<Longrightarrow>
     redirect_step pg (pg\<lparr>pg_query := redirect_query q (pg_selected pg) (pg_selPos pg)\<rparr>)"

text \<open>The events. Lines 65--69: the leaderboards arrive and the one named by the URL is
  selected unless already; lines 146--150 and 138--142: clicks on a leaderboard or a
  position badge, which also close the drawer; line 296: the legends toggle; lines 188
  and 255 (\<open>useDisclosure\<close>, line 63): the drawer button and the drawer's close; and
  the redirect.\<close>

inductive lb_step :: "lb_page \<Rightarrow> lb_page \<Rightarrow> bool" where
  loaded: "parse_query (pg_query pg) = Some q \<Longrightarrow>
     lb_step pg (pg\<lparr>pg_leaderboards := data, pg_positions := raw,
                    pg_selected := (if map_option lb_id (pg_selected pg) \<noteq> Some (q_id q)
                                    then find (\<lambda>x. lb_id x = q_id q) data else pg_selected pg)\<rparr>)"
| nav_click: "l \<in> set (pg_leaderboards pg) \<Longrightarrow>
     lb_step pg (pg\<lparr>pg_selected := Some l, pg_selPos := None, pg_drawerOpen := False\<rparr>)"
| position_click: "l \<in> set (pg_leaderboards pg) \<Longrightarrow>
     UserPosition (pg_hasUser pg) (leaderboardPositions (pg_positions pg) (lb_id l)) False = Some (PositionBadge c t p) \<Longrightarrow>
     lb_step pg (pg\<lparr>pg_selPos := Some p, pg_selected := Some l, pg_drawerOpen := False\<rparr>)"
| toggle: "lb_step pg (pg\<lparr>pg_query := setBoard b (pg_query pg)\<rparr>)"
| drawer_toggle: "lb_step pg (pg\<lparr>pg_drawerOpen := \<not> pg_drawerOpen pg\<rparr>)"
| drawer_close: "lb_step pg (pg\<lparr>pg_drawerOpen := False\<rparr>)"
| redirect: "redirect_step pg pg' \<Longrightarrow> lb_step pg pg'"

section \<open>Typed queries\<close>

text \<open>A query whose every parameter has a value of its key's type: a position of decimal
  digits, a board the enum names, a date \<open>stringDate\<close> accepts.\<close>

definition schema_value :: "string \<Rightarrow> string \<Rightarrow> bool" where
  "schema_value k v \<longleftrightarrow>
     (if k = ''position'' then parse_nat v \<noteq> None else if k = ''board'' then parse_board (Some v) \<noteq> None
      else if k = ''date'' then stringDate v else True)"

definition query_typed :: "query \<Rightarrow> bool" where
  "query_typed q \<longleftrightarrow> list_all (\<lambda>(k, v). schema_value k v) q"

text \<open>Whether the page would redirect on its next render.\<close>

definition redirect_pending :: "lb_page \<Rightarrow> nat" where
  "redirect_pending pg =
     (case parse_query (pg_query pg) of
        None \<Rightarrow> 0
      | Some q \<Rightarrow> if needs_redirect q (pg_selected pg) (pg_selPos pg) then 1 else 0)"

text \<open>The page never throws on its own URL, and a selected position is never zero.\<close>

definition page_ok :: "lb_page \<Rightarrow> bool" where
  "page_ok pg \<longleftrightarrow> parse_query (pg_query pg) \<noteq> None \<and> pg_selPos pg \<noteq> Some 0"

section \<open>Example page\<close>

definition demo_boards :: "leaderboard list" where
  "demo_boards = [\<lparr>lb_id = ''overall'', lb_title = ''Overall'', lb_description = ''Top creators'',
                   lb_scoringDescription = ''score''\<rparr>,
                  \<lparr>lb_id = ''new'', lb_title = ''New'', lb_description = ''New creators'',
                   lb_scoringDescription = ''score''\<rparr>]"

definition demo_page :: lb_page where
  "demo_page = \<lparr>pg_query = [(''id'', ''overall'')], pg_leaderboards = demo_boards,
     pg_positions = [\<lparr>lp_leaderboardId = ''new'', lp_position = 12\<rparr>, \<lparr>lp_leaderboardId = ''new'', lp_position = 5\<rparr>],
     pg_hasUser = True, pg_selected = None, pg_selPos = None, pg_drawerOpen = False\<rparr>"

section \<open>Facts\<close>

inductive_cases redirect_stepE: "redirect_step pg pg'"

lemma map_of_replace_other:
  "k'' \<noteq> k \<Longrightarrow> map_of (map (\<lambda>(k', y). if k' = k then (k', x) else (k', y)) q) k'' = map_of q k''"
  by (induction q) (auto simp: split_def)

lemma map_of_replace_same:
  "k \<in> fst ` set q \<Longrightarrow> map_of (map (\<lambda>(k', y). if k' = k then (k', x) else (k', y)) q) k = Some x"
  by (induction q) (auto simp: split_def)

lemma map_of_set_param:
  "map_of (set_param k v q) k' = (if k' = k then v else map_of q k')"
proof (cases v)
  case None
  then show ?thesis by (induction q) (auto simp: set_param_def)
next
  case (Some x)
  show ?thesis
  proof (cases "k \<in> fst ` set q")
    case True
    with Some show ?thesis by (simp add: set_param_def map_of_replace_other map_of_replace_same)
  next
    case False
    then have "map_of q k = None" by (simp add: map_of_eq_None_iff)
    with False Some show ?thesis by (auto simp: set_param_def map_of_append map_add_def split: option.splits)
  qed
qed

lemma parse_board_name [simp]: "parse_board (Some (board_name b)) = Some b"
  by (cases b) (simp_all add: parse_board_def board_name_def)

lemma parse_query_Some:
  "parse_query q = Some x \<longleftrightarrow>
     parse_board (map_of q ''board'') = Some (q_board x) \<and>
     (case map_of q ''position'' of None \<Rightarrow> q_position x = None | Some p \<Rightarrow> parse_nat p \<noteq> None \<and> q_position x = parse_nat p) \<and>
     q_id x = (case map_of q ''id'' of None \<Rightarrow> ''overall'' | Some i \<Rightarrow> i) \<and>
     (case map_of q ''date'' of None \<Rightarrow> q_date x = None | Some d \<Rightarrow> stringDate d \<and> q_date x = Some d)"
  by (cases x) (auto simp: parse_query_def bind_eq_Some_conv map_option_eq_Some split: option.splits)

lemma parse_setBoard:
  "parse_query q = Some x \<Longrightarrow> parse_query (setBoard b q) = Some (x\<lparr>q_board := b\<rparr>)"
  by (cases b) (simp_all add: parse_query_Some setBoard_def map_of_set_param parse_board_def board_name_def
      split: option.splits)

lemma parse_redirect_query:
  "parse_query (redirect_query q sel selPos) =
     Some \<lparr>q_id = (case sel of None \<Rightarrow> ''undefined'' | Some l \<Rightarrow> lb_id l), q_date = None,
           q_position = (case selPos of None \<Rightarrow> None | Some p \<Rightarrow> if p = 0 then None else Some p),
           q_board = q_board q\<rparr>"
  by (cases "q_board q"; cases selPos) (auto simp: parse_query_Some redirect_query_def board_name_def parse_board_def)

lemma UserPosition_badge:
  "UserPosition u pos False = Some (PositionBadge c t p) \<Longrightarrow> pos = Some p \<and> p \<noteq> 0"
  by (auto simp: UserPosition_def split: option.splits if_splits)

lemma lb_step_ok: "lb_step pg pg' \<Longrightarrow> page_ok pg \<Longrightarrow> page_ok pg'"
proof (induction rule: lb_step.induct)
  case (position_click l pg c t p)
  then show ?case by (auto simp: page_ok_def dest: UserPosition_badge)
next
  case (toggle pg b)
  then show ?case by (auto simp: page_ok_def dest: parse_setBoard)
next
  case (redirect pg pg')
  then show ?case by (auto elim!: redirect_stepE simp: page_ok_def parse_redirect_query)
qed (simp_all add: page_ok_def)

lemma redirect_step_settles:
  "redirect_step pg pg' \<Longrightarrow> redirect_pending pg' = 0 \<and> redirect_pending pg = 1"
  by (auto elim!: redirect_stepE simp: redirect_pending_def parse_redirect_query needs_redirect_def
      split: option.splits)

lemma map_of_typed: "query_typed q \<Longrightarrow> map_of q k = Some v \<Longrightarrow> schema_value k v"
  by (auto simp: query_typed_def list_all_iff dest: map_of_SomeD)

lemma query_typed_parse:
  assumes "query_typed q"
  shows "parse_query q \<noteq> None"
proof -
  have "parse_board (map_of q ''board'') \<noteq> None"
  proof (cases "map_of q ''board''")
    case (Some a)
    with map_of_typed [OF assms] have "schema_value ''board'' a" by blast
    with Some show ?thesis by (simp add: schema_value_def)
  qed (simp add: parse_board_def)
  moreover have "case map_of q ''position'' of None \<Rightarrow> True | Some p \<Rightarrow> parse_nat p \<noteq> None"
    by (cases "map_of q ''position''") (auto dest: map_of_typed [OF assms] simp: schema_value_def)
  moreover have "case map_of q ''date'' of None \<Rightarrow> True | Some d \<Rightarrow> stringDate d"
    by (cases "map_of q ''date''") (auto dest: map_of_typed [OF assms] simp: schema_value_def)
  ultimately show ?thesis by (auto simp: parse_query_def split: option.splits)
qed

lemma query_typed_set_param:
  assumes q: "query_typed q" and v: "\<forall>x. v = Some x \<longrightarrow> schema_value k x"
  shows "query_typed (set_param k v q)"
  using q v by (auto simp: query_typed_def list_all_iff set_param_def split: option.splits if_splits)

section \<open>Properties\<close>

text \<open>
  C20. The render-time redirect terminates: a redirect writes a URL that agrees with the
  selection, so no render loop of \<open>replace\<close> calls can run forever.
\<close>

theorem redirect_terminates: "wfp (\<lambda>pg' pg. redirect_step pg pg')"
proof (rule wfp_if_convertible_to_nat [where f = redirect_pending])
  fix pg' pg assume "redirect_step pg pg'"
  then show "redirect_pending pg' < redirect_pending pg" by (simp add: redirect_step_settles)
qed



text \<open>
  C39. The redirect settles: once a leaderboard is selected, the URL written by
  \<open>replace\<close> parses back to that leaderboard, position and board, so the next render does
  not redirect again; the \<open>date\<close> parameter is not carried over.
\<close>

theorem redirect_settles:
  "\<exists>q'. parse_query (redirect_query q (Some l) selPos) = Some q' \<and> \<not> needs_redirect q' (Some l) selPos
      \<and> q_id q' = lb_id l \<and> q_board q' = q_board q \<and> q_date q' = None"
  by (simp add: parse_redirect_query needs_redirect_def split: option.splits)

text \<open>
  C40. Along any run of the page (leaderboards arriving, clicks, the legends toggle,
  redirects), the URL always parses, so the page never throws on a URL it wrote, and a
  selected position is never zero.
\<close>

theorem lb_reachable_ok:
  assumes "lb_step\<^sup>*\<^sup>* pg0 pg" and "page_ok pg0"
  shows "page_ok pg"
  using assms by (induction rule: rtranclp_induct) (auto intro: lb_step_ok)

theorem lb_reachable_ok_witness:
  "lb_step\<^sup>*\<^sup>* demo_page (demo_page\<lparr>pg_selPos := Some 5, pg_selected := Some (demo_boards ! 1), pg_drawerOpen := False,
                                         pg_query := [(''id'', ''new''), (''position'', ''5'')]\<rparr>)
   \<and> page_ok demo_page
   \<and> page_ok (demo_page\<lparr>pg_selPos := Some 5, pg_selected := Some (demo_boards ! 1), pg_drawerOpen := False,
                         pg_query := [(''id'', ''new''), (''position'', ''5'')]\<rparr>)"
proof -
  let ?l = "demo_boards ! 1"
  let ?pg1 = "demo_page\<lparr>pg_selPos := Some 5, pg_selected := Some ?l, pg_drawerOpen := False\<rparr>"
  let ?q = "\<lparr>q_id = ''overall'', q_date = None, q_position = None, q_board = Season\<rparr>"
  have m: "?l \<in> set (pg_leaderboards demo_page)" by (simp add: demo_page_def demo_boards_def)
  have b: "UserPosition (pg_hasUser demo_page) (leaderboardPositions (pg_positions demo_page) (lb_id ?l)) False =
      Some (PositionBadge ''yellow'' ''#5'' 5)" by code_simp
  have s1: "lb_step demo_page ?pg1" by (rule lb_step.position_click [OF m b])
  have p: "parse_query (pg_query ?pg1) = Some ?q" by code_simp
  have n: "needs_redirect ?q (pg_selected ?pg1) (pg_selPos ?pg1)" by code_simp
  have s2: "lb_step ?pg1 (?pg1\<lparr>pg_query := redirect_query ?q (pg_selected ?pg1) (pg_selPos ?pg1)\<rparr>)"
    by (rule lb_step.redirect [OF redirect_step.replace [OF p n]])
  have r: "redirect_query ?q (pg_selected ?pg1) (pg_selPos ?pg1) = [(''id'', ''new''), (''position'', ''5'')]"
    by code_simp
  from s2 have s2': "lb_step ?pg1 (?pg1\<lparr>pg_query := [(''id'', ''new''), (''position'', ''5'')]\<rparr>)"
    by (simp only: r)
  have ok0: "page_ok demo_page" by code_simp
  have reach: "lb_step\<^sup>*\<^sup>* demo_page (?pg1\<lparr>pg_query := [(''id'', ''new''), (''position'', ''5'')]\<rparr>)"
    by (rule converse_rtranclp_into_rtranclp [OF s1 r_into_rtranclp [where r = lb_step, OF s2']])
  show ?thesis using lb_reachable_ok [OF reach ok0] reach ok0 by blast
qed

end
