(* ===== verification/Leaderboard_View.thy ===== *)
theory Leaderboard_View
  imports Leaderboard
begin

text \<open>
  What the leaderboard page (\<open>src/src/pages/leaderboard/[id].tsx\<close>) shows and asks for,
  as functions of the page state of \<open>Leaderboard\<close>: the server-side resolver, the
  queries and their \<open>enabled\<close> flags, the nav links with their position badges, the
  meta tags, the scoring popover, the results area and the legends toggle.
\<close>

record lb_entry =
  e_username :: string
  e_date :: string

section \<open>What the page shows\<close>

text \<open>Lines 102--104: the results and loading flag of the board in view.\<close>

definition leaderboardResults :: "board \<Rightarrow> 'a list \<Rightarrow> 'a list \<Rightarrow> 'a list" where
  "leaderboardResults b season legend = (if b = Season then season else legend)"

definition loadingLeaderboardResults :: "board \<Rightarrow> bool \<Rightarrow> bool \<Rightarrow> bool" where
  "loadingLeaderboardResults b season legend = (if b = Season then season else legend)"

fun join_with :: "string \<Rightarrow> string list \<Rightarrow> string" where
  "join_with sep [] = []"
| "join_with sep [x] = x"
| "join_with sep (x # xs) = x @ sep @ join_with sep xs"

datatype meta = Meta (meta_title: string) (meta_description: string) (meta_canonical: string)

text \<open>Lines 158--170, for \<open>NEXT_PUBLIC_BASE_URL\<close>; an undefined description prints as
  \<open>undefined\<close> in the template string.\<close>

definition lb_meta :: "string \<Rightarrow> leaderboard option \<Rightarrow> lb_entry list \<Rightarrow> meta" where
  "lb_meta base sel results =
     Meta ((case sel of None \<Rightarrow> [] | Some l \<Rightarrow> lb_title l) @ '' Leaderboard | Civitai'')
          ((case sel of None \<Rightarrow> ''undefined'' | Some l \<Rightarrow> lb_description l) @ '' this month are '' @
           join_with '', '' (map (\<lambda>(i, x). nat_to_string (i + 1) @ ''. '' @ e_username x) (enumerate 0 (take 10 results)))
           @ ''... Check out the full leaderboard.'')
          (base @ ''/leaderboard/'' @ (case sel of None \<Rightarrow> ''overall'' | Some l \<Rightarrow> lb_id l))"

datatype nav_link = NavLink (nl_key: string) (nl_title: string) (nl_badge: "badge option") (nl_active: bool)

text \<open>Lines 127--154: one link per leaderboard, with the user's position badge; the link of
  the selected leaderboard is active.\<close>

definition navLinks :: "lb_page \<Rightarrow> bool \<Rightarrow> nav_link list" where
  "navLinks pg loadingPositions =
     map (\<lambda>item. NavLink (lb_id item) (lb_title item)
                   (UserPosition (pg_hasUser pg) (leaderboardPositions (pg_positions pg) (lb_id item)) loadingPositions)
                   (map_option lb_id (pg_selected pg) = Some (lb_id item)))
       (pg_leaderboards pg)"

datatype popover = ScoringPopover string | LegendPopover string

definition legend_scoring :: string where
  "legend_scoring = ''Diamond - 1st place: 1,000 points per day'' @ [CHR 10] @
     ''Gold - Top 3: 800 points per day'' @ [CHR 10] @ ''Silver - Top 10: 600 points per day'' @ [CHR 10] @
     ''Bronze - Top 100: 400 points per day''"

text \<open>Lines 205--228: how the board is scored.\<close>

definition lb_popover :: "board \<Rightarrow> leaderboard option \<Rightarrow> popover" where
  "lb_popover b sel =
     (case b of
        Season \<Rightarrow> ScoringPopover (case sel of None \<Rightarrow> [] | Some l \<Rightarrow> lb_scoringDescription l)
      | Legend \<Rightarrow> LegendPopover legend_scoring)"

datatype results_view = ResultsLoader | CreatorList "lb_entry list" | NoResults

text \<open>Lines 232--248: the date of the first result (\<open>None\<close> prints \<open>loading..\<close>), then a
  loader, the creator list, or nothing.\<close>

definition as_of :: "lb_entry list \<Rightarrow> string option" where
  "as_of results = (case results of [] \<Rightarrow> None | r # _ \<Rightarrow> Some (e_date r))"

definition results_view :: "bool \<Rightarrow> lb_entry list \<Rightarrow> results_view" where
  "results_view loading results =
     (if loading then ResultsLoader else if results \<noteq> [] then CreatorList results else NoResults)"

section \<open>Server side and queries\<close>

text \<open>Lines 49--55: the server-side resolver parses the query (a bad query throws) and
  prefetches the list of leaderboards.\<close>

definition ssr_resolve :: "query \<Rightarrow> string list option" where
  "ssr_resolve q = map_option (\<lambda>_. [''leaderboard.getLeaderboards'']) (parse_query q)"

record lb_queries =
  qs_args :: "string \<times> string option"
  qs_season :: bool
  qs_legend :: bool
  qs_positions :: bool

text \<open>Lines 65--90: the board's query runs for the board in view only; the positions
  query runs when a user is signed in.\<close>

definition lb_queries :: "lb_query \<Rightarrow> bool \<Rightarrow> lb_queries" where
  "lb_queries q hasUser =
     \<lparr>qs_args = (q_id q, q_date q), qs_season = (q_board q = Season), qs_legend = (q_board q = Legend),
      qs_positions = hasUser\<rparr>"

text \<open>Lines 288--310: the toggle shows the parsed board and offers both.\<close>

definition legends_toggle :: "lb_query \<Rightarrow> string \<times> (string \<times> string) list" where
  "legends_toggle q = (board_name (q_board q), [(''season'', ''Season''), (''legend'', ''Legend'')])"

section \<open>Facts\<close>

lemma navLinks_active_unique:
  assumes d: "distinct (map lb_id (pg_leaderboards pg))"
  shows "length (filter nl_active (navLinks pg loading)) \<le> 1"
proof (cases "pg_selected pg")
  case None
  then show ?thesis by (simp add: navLinks_def filter_map comp_def)
next
  case (Some l)
  let ?ys = "filter (\<lambda>item. lb_id l = lb_id item) (pg_leaderboards pg)"
  have "distinct (map lb_id ?ys)" using d by (simp add: distinct_map_filter)
  then have "length ?ys = card (set (map lb_id ?ys))" by (simp only: distinct_card length_map)
  also have "\<dots> \<le> card {lb_id l}" by (rule card_mono) auto
  finally show ?thesis using Some by (simp add: navLinks_def filter_map comp_def)
qed

lemma lb_queries_one_board:
  "qs_season (lb_queries q u) \<noteq> qs_legend (lb_queries q u)"
  by (cases "q_board q") (simp_all add: lb_queries_def)

lemma ssr_resolve_typed: "query_typed q \<Longrightarrow> ssr_resolve q = Some [''leaderboard.getLeaderboards'']"
  by (auto simp: ssr_resolve_def dest: query_typed_parse)

lemma results_view_loader: "results_view loading rs = ResultsLoader \<longleftrightarrow> loading"
  by (simp add: results_view_def)

lemma lb_meta_canonical:
  "meta_canonical (lb_meta base (Some l) rs) = base @ ''/leaderboard/'' @ lb_id l"
  by (simp add: lb_meta_def)

section \<open>Properties\<close>

text \<open>
  C38. The legends toggle switches which results query runs: after the toggle to a
  board, the URL still parses, to the same leaderboard, date and position with the new
  board, and exactly that board's query is enabled, with the same arguments as before.
\<close>

theorem legends_toggle_switches_query:
  assumes "parse_query qq = Some q"
  shows "\<exists>q'. parse_query (setBoard b qq) = Some q'
      \<and> q_board q' = b \<and> q_id q' = q_id q \<and> q_date q' = q_date q \<and> q_position q' = q_position q
      \<and> qs_season (lb_queries q' u) = (b = Season) \<and> qs_legend (lb_queries q' u) = (b = Legend)
      \<and> qs_args (lb_queries q' u) = qs_args (lb_queries q u)"
  using parse_setBoard [OF assms, of b] by (cases b) (simp_all add: lb_queries_def)

theorem legends_toggle_switches_query_witness:
  "\<exists>q'. parse_query (setBoard Legend [(''id'', ''new''), (''date'', ''2024-05-01'')]) = Some q'
      \<and> qs_legend (lb_queries q' True) \<and> \<not> qs_season (lb_queries q' True)
      \<and> qs_args (lb_queries q' True) = (''new'', Some ''2024-05-01'')"
proof -
  let ?q = "\<lparr>q_id = ''new'', q_date = Some ''2024-05-01'', q_position = None, q_board = Season\<rparr>"
  have p: "parse_query [(''id'', ''new''), (''date'', ''2024-05-01'')] = Some ?q" by code_simp
  from legends_toggle_switches_query [OF p, of Legend True] show ?thesis by (auto simp: lb_queries_def)
qed

end
