(* ===== verification/Spec2Isabelle.thy ===== *)
theory Spec2Isabelle
  imports Bounty_Race Bounty_Service BountyForm_View HiddenTags PlanBenefits Leaderboard_View
begin

text \<open>
  Verification development for the bounty workflow of the Civitai repository and the
  logic of the UI components that sit beside it.

  \<^bold>\<open>The program.\<close>
  \<^item> \<open>src/src/server/services/bounty.service.ts\<close>, the service layer of bounties:
    \<open>getAllBounties\<close> (cursor pagination), \<open>getBountyById\<close>, \<open>createBounty\<close>,
    \<open>updateBountyById\<close>, \<open>deleteBountyById\<close>, \<open>getBountyImages\<close>, \<open>getBountyFiles\<close>.
    It awaits a database client (Prisma: \<open>dbRead\<close>, \<open>dbWrite\<close>, interactive
    transactions), the Buzz ledger (\<open>getUserBuzzAccount\<close>, \<open>createBuzzTransaction\<close>)
    and the image-ingestion pipeline (\<open>ingestImage\<close>), none of which is under \<open>src/\<close>.
  \<^item> \<open>src/src/components/Bounty/BountyCreateForm.tsx\<close>, the creation form, whose
    \<open>handleSubmit\<close> calls the service's \<open>createBounty\<close> through a tRPC mutation.
  \<^item> \<open>src/src/components/Account/HiddenTagsSection.tsx\<close>, the hidden-tags card.
  \<^item> \<open>src/src/components/Stripe/PlanBenefitList.tsx\<close>, the plan benefit list.
  \<^item> \<open>src/src/pages/leaderboard/[id].tsx\<close>, the leaderboard page.

  \<^bold>\<open>Layout.\<close>
  \<^item> \<open>Prelude\<close>: the effect type \<open>('a, 's) eff = 's \<Rightarrow> (error + 'a) \<times> 's\<close> of
    asynchronous code that may throw, its combinators (\<open>returnE\<close>, \<open>throwE\<close>,
    \<open>bindE\<close> for \<open>await\<close>, \<open>callE\<close> for a collaborator call, \<open>forE\<close> for a
    sequential loop), the frame predicates \<open>keeps\<close> and \<open>moves\<close>, the call sites
    (\<open>fault_point\<close>), the errors, and decimal text of naturals (\<open>String(n)\<close> and its
    parse, with their round trip).
  \<^item> \<open>Chunk\<close>: lodash \<open>chunk\<close> (spec-modelled), a \<open>function\<close> terminating by the
    length of the list, with its round trip (\<open>concat\<close>) and bounds.
  \<^item> \<open>Store\<close>: the tables as lists of records in primary-key order, the Prisma calls the
    service makes (spec-modelled from Prisma's documented semantics: \<open>update\<close> and
    \<open>delete\<close> throw on a missing row, a cursor is inclusive, the bounty's pledges cascade),
    and the invariant \<open>store_ok\<close> (sorted fresh ids, foreign keys, every bounty pledged,
    every file tagged \<open>Bounty\<close> attached to an existing bounty).
  \<^item> \<open>Collaborators\<close>: the Buzz ledger (spec-modelled): a transfer debits one
    account and credits another, with no balance check of its own.
  \<^item> \<open>Bounty\<close>: the service, one definition per exported function and per block of
    \<open>createBounty\<close>, over a \<open>world\<close> = store + ledger + ingestion log;
    \<open>transaction\<close> rolls back the store only, as a database transaction does.
  \<^item> \<open>Bounty_Steps\<close>: the outcome of each block on every branch, frame lemmas, and the
    characterisation of a successful creation (\<open>createBounty_eq_Inr\<close>).
  \<^item> \<open>Bounty_Props\<close>: the properties of creation (C1--C9, C11, C12, C14): errors,
    the pledge, rollback, the debit and its survival of a failed commit, image links,
    ingestion batches, preservation of \<open>store_ok\<close>.
  \<^item> \<open>Bounty_Race\<close>: two concurrent creations scheduled so that both balance checks
    run before either transaction (C10): when the balance covers each amount but not
    both, both commit and the account ends overdrawn, while the sequential schedule
    refuses the second.
  \<^item> \<open>Bounty_Edit_Props\<close>: update, delete and the reads (C15--C19, C21--C23, C25,
    C27): refinement of the abstract map from ids to bounties, missing-record errors,
    frames, invariant preservation, the outcomes of \<open>getBountyById\<close>, the inclusive
    cursor, and the boundary inputs (cursor 0, limit 0, a cursor naming no bounty, an
    empty image list).
  \<^item> \<open>Bounty_Service\<close>: the service's state-changing calls in sequence, as the
    inductive step relation \<open>svc_step\<close> (a creation, update or delete, each with any
    failing collaborator): \<open>store_ok\<close> holds in every reachable world (C24, by rule
    induction); a creation read back by \<open>getBountyById\<close> gives the new row and
    exactly the submitted files (C13).
  \<^item> \<open>HiddenTags\<close> (C28--C31): the card's state, handlers and rendered view; the
    suggestions are the searched tags minus the hidden ones.
  \<^item> \<open>PlanBenefits\<close> (C32): the rendered lists.
  \<^item> \<open>BountyForm\<close> (C33--C37): the form's values, schema refinement, type handler,
    Save button and submission, composed with \<open>Bounty.createBounty\<close>;
    \<open>BountyForm_View\<close>: the fields shown, the mode radios, the preview grid, uploads, the
    stored draft and the buy-Buzz message.
  \<^item> \<open>Leaderboard\<close> (C20, C26, C39, C40): the page as an inductive step relation
    \<open>lb_step\<close> with the invariant \<open>page_ok\<close> over all runs; the render-time redirect
    \<open>redirect_step\<close> is well-founded (its measure \<open>redirect_pending\<close> drops from 1 to 0),
    so the page's redirects terminate; the queries it writes are typed (\<open>query_typed\<close>),
    where \<open>stringDate\<close> accepts the ISO form of a date and an invalid date makes the
    schema throw; \<open>Leaderboard_View\<close> (C38): the server resolver, the queries run
    and how the legends toggle switches them, nav links, meta tags, popover, results
    area.

  \<^bold>\<open>Failures.\<close> Which collaborator throws is a parameter of every run: a list of
  call sites that fail. Every property holds for every such list; the witnesses run the
  fault-free list or a list with one failing call. No loop of the program can run
  forever: the batch loop runs over the finite list \<open>chunk 50 recs\<close>, so no fuel is
  needed; \<open>chunk\<close> itself terminates by a measure on the list's length.

  \<^bold>\<open>Not modelled.\<close> JSX layout, Mantine components and \<open>createStyles\<close> (the
  \<open>useStyles\<close> blocks and \<open>tooltipProps\<close> of the form and the page are CSS, with no
  behaviour to state); the countdown of the page (a clock); routing
  beyond the query of the leaderboard page; authentication; tRPC and react-query
  caching; \<open>useFormStorage\<close>, \<open>useCFImageUpload\<close> and \<open>useBuzzTransaction\<close> beyond
  the contracts stated in \<open>BountyForm\<close> (upload progress events, storage timing); the console logging of line 53 of the service; the \<open>select\<close> projections of
  reads (they narrow fields and do not filter); interleavings of concurrent requests
  other than the one schedule of \<open>Bounty_Race\<close>. JavaScript's \<open>toLowerCase\<close>, \<open>trim\<close> and \<open>Number\<close> are modelled
  on ASCII and on strings of digits, and \<open>new Date\<close> on the ISO form
  \<open>YYYY-MM-DD\<close> only: other strings JavaScript would read as dates are treated as
  invalid.
\<close>

end
